theory Spec2Isabelle
  imports Complex_Main "HOL-Library.Sublist"
begin

section \<open>Floating-point values\<close>

text \<open>
  The solver computes with \<^verbatim>\<open>su2double\<close> (a C++ \<^verbatim>\<open>double\<close>).  The model keeps the
  special values the code reacts to (not-a-number and the two infinities) and computes on
  finite values with exact real arithmetic: rounding, overflow of finite operands and the
  sign of zero are not represented.
\<close>

datatype su2double = Fin real | PInf | NInf | NaN

fun isnan :: "su2double \<Rightarrow> bool" where
  "isnan NaN = True"
| "isnan _ = False"

fun neg_d :: "su2double \<Rightarrow> su2double" where
  "neg_d (Fin a) = Fin (- a)"
| "neg_d PInf = NInf"
| "neg_d NInf = PInf"
| "neg_d NaN = NaN"

fun add_d :: "su2double \<Rightarrow> su2double \<Rightarrow> su2double" where
  "add_d NaN _ = NaN"
| "add_d _ NaN = NaN"
| "add_d (Fin a) (Fin b) = Fin (a + b)"
| "add_d PInf NInf = NaN"
| "add_d NInf PInf = NaN"
| "add_d PInf _ = PInf"
| "add_d NInf _ = NInf"
| "add_d (Fin a) PInf = PInf"
| "add_d (Fin a) NInf = NInf"

definition sub_d :: "su2double \<Rightarrow> su2double \<Rightarrow> su2double" where
  "sub_d a b = add_d a (neg_d b)"

text \<open>The sign of a value that is not NaN: \<open>1\<close>, \<open>0\<close> or \<open>-1\<close>.\<close>

fun sign_d :: "su2double \<Rightarrow> int" where
  "sign_d (Fin a) = (if 0 < a then 1 else if a < 0 then - 1 else 0)"
| "sign_d PInf = 1"
| "sign_d NInf = - 1"
| "sign_d NaN = 0"

definition inf_of_sign :: "int \<Rightarrow> su2double" where
  "inf_of_sign s = (if 0 < s then PInf else if s < 0 then NInf else NaN)"

fun is_fin :: "su2double \<Rightarrow> bool" where
  "is_fin (Fin a) = True"
| "is_fin _ = False"

fun mul_d :: "su2double \<Rightarrow> su2double \<Rightarrow> su2double" where
  "mul_d NaN _ = NaN"
| "mul_d _ NaN = NaN"
| "mul_d (Fin a) (Fin b) = Fin (a * b)"
| "mul_d x y = inf_of_sign (sign_d x * sign_d y)"

fun div_d :: "su2double \<Rightarrow> su2double \<Rightarrow> su2double" where
  "div_d NaN _ = NaN"
| "div_d _ NaN = NaN"
| "div_d (Fin a) (Fin b) = (if b \<noteq> 0 then Fin (a / b) else inf_of_sign (sign_d (Fin a)))"
| "div_d (Fin a) _ = Fin 0"
| "div_d x (Fin b) = inf_of_sign (sign_d x * (if b < 0 then - 1 else 1))"
| "div_d _ _ = NaN"

text \<open>The comparisons of C++: every comparison with NaN is false, except \<^verbatim>\<open>!=\<close>.\<close>

fun lt_d :: "su2double \<Rightarrow> su2double \<Rightarrow> bool" where
  "lt_d NaN _ = False"
| "lt_d _ NaN = False"
| "lt_d (Fin a) (Fin b) = (a < b)"
| "lt_d PInf _ = False"
| "lt_d _ PInf = True"
| "lt_d _ NInf = False"
| "lt_d NInf _ = True"

definition gt_d :: "su2double \<Rightarrow> su2double \<Rightarrow> bool" where
  "gt_d a b = lt_d b a"

definition eq_d :: "su2double \<Rightarrow> su2double \<Rightarrow> bool" where
  "eq_d a b = (\<not> isnan a \<and> \<not> isnan b \<and> a = b)"

definition ne_d :: "su2double \<Rightarrow> su2double \<Rightarrow> bool" where
  "ne_d a b = (\<not> eq_d a b)"

definition le_d :: "su2double \<Rightarrow> su2double \<Rightarrow> bool" where
  "le_d a b = (lt_d a b \<or> eq_d a b)"

text \<open>\<^verbatim>\<open>std::min(a, b)\<close> is \<^verbatim>\<open>(b < a) ? b : a\<close> and \<^verbatim>\<open>std::max(a, b)\<close> is
  \<^verbatim>\<open>(a < b) ? b : a\<close>.\<close>

definition min_d :: "su2double \<Rightarrow> su2double \<Rightarrow> su2double" where
  "min_d a b = (if lt_d b a then b else a)"

definition max_d :: "su2double \<Rightarrow> su2double \<Rightarrow> su2double" where
  "max_d a b = (if lt_d a b then b else a)"

text \<open>\<^verbatim>\<open>fabs\<close> and \<^verbatim>\<open>sqrt\<close>.\<close>

fun fabs_d :: "su2double \<Rightarrow> su2double" where
  "fabs_d (Fin a) = Fin \<bar>a\<bar>"
| "fabs_d PInf = PInf"
| "fabs_d NInf = PInf"
| "fabs_d NaN = NaN"

fun sqrt_d :: "su2double \<Rightarrow> su2double" where
  "sqrt_d (Fin a) = (if a < 0 then NaN else Fin (sqrt a))"
| "sqrt_d PInf = PInf"
| "sqrt_d NInf = NaN"
| "sqrt_d NaN = NaN"

text \<open>Arrays \<^verbatim>\<open>su2double*\<close> and \<^verbatim>\<open>su2double**\<close>: the code never reads their length, every
  loop is bounded by \<^verbatim>\<open>nVar\<close>, \<^verbatim>\<open>nDim\<close> or \<^verbatim>\<open>nSpecies\<close>.\<close>

type_synonym vec = "nat \<Rightarrow> su2double"
type_synonym mat = "nat \<Rightarrow> nat \<Rightarrow> su2double"


section \<open>Configuration, geometry, variables and the numerics object\<close>

text \<open>
  The option values of \<^verbatim>\<open>option_structure.hpp\<close> that the solver compares against; each
  enumeration has one more constructor standing for its remaining values.
\<close>

datatype ENUM_TIME_INT = EULER_IMPLICIT | EULER_EXPLICIT | RUNGE_KUTTA_EXPLICIT
datatype ENUM_LIMITER = NO_LIMITER | VENKATAKRISHNAN | VAN_ALBADA_EDGE | OTHER_LIMITER
datatype ENUM_TIME_MARCHING = NO | TIME_STEPPING | DT_STEPPING_1ST | DT_STEPPING_2ND
  | OTHER_TIME_MARCHING
datatype ENUM_INIT_OPTION = REYNOLDS | TD_CONDITIONS
datatype ENUM_FLUIDMODEL = MUTATIONPP | USER_DEFINED_NONEQ | OTHER_FLUIDMODEL
datatype BC_TYPE = INTERNAL_BOUNDARY | OTHER_BOUNDARY
datatype ENUM_REF_NONDIM = DIMENSIONAL | FREESTREAM_PRESS_EQ_ONE | FREESTREAM_VEL_EQ_MACH
  | FREESTREAM_VEL_EQ_ONE

definition MESH_0 :: nat where
  "MESH_0 = 0"

text \<open>The entries of \<^verbatim>\<open>CConfig\<close> read or written by the routines below.\<close>

record CConfig =
  Kind_TimeIntScheme_Flow :: ENUM_TIME_INT
  MUSCL_Flow :: bool
  Kind_SlopeLimit_Flow :: ENUM_LIMITER
  InnerIter :: nat
  LimiterIter :: nat
  Discrete_Adjoint :: bool
  Frozen_Limiter_Disc :: bool
  Viscous :: bool
  Grid_Movement :: bool
  Time_Marching :: ENUM_TIME_MARCHING
  CFL :: "nat \<Rightarrow> su2double"
  Unst_CFL :: su2double
  Delta_UnstTime :: su2double
  Delta_UnstTimeND :: su2double
  Max_DeltaTime :: su2double
  Axisymmetric :: bool
  Frozen :: bool
  Monoatomic :: bool
  Marker_All_KindBC :: "nat \<Rightarrow> BC_TYPE"

text \<open>What the routines read from \<^verbatim>\<open>CGeometry\<close>: edges, per-point data, boundary
  vertices.\<close>

record CGeometry =
  nMarker :: nat
  nEdge :: nat
  edges_Node :: "nat \<Rightarrow> nat \<Rightarrow> nat"
  edges_Normal :: "nat \<Rightarrow> vec"
  nodes_nNeighbor :: "nat \<Rightarrow> nat"
  nodes_Volume :: "nat \<Rightarrow> su2double"
  nodes_Coord :: "nat \<Rightarrow> vec"
  nodes_Domain :: "nat \<Rightarrow> bool"
  nodes_GridVel :: "nat \<Rightarrow> vec"
  nodes_GlobalIndex :: "nat \<Rightarrow> nat"
  nVertex :: "nat \<Rightarrow> nat"
  vertex_Node :: "nat \<Rightarrow> nat \<Rightarrow> nat"
  vertex_Normal :: "nat \<Rightarrow> nat \<Rightarrow> vec"

text \<open>The per-point storage \<^verbatim>\<open>nodes\<close> (a \<^verbatim>\<open>CNEMOEulerVariable\<close>).  Its class is not
  among the sources: the arrays the solver gets from it are fields, and so are the derived
  quantities it returns (\<^verbatim>\<open>GetSoundSpeed\<close>, \<^verbatim>\<open>GetProjVel\<close> for a given normal,
  \<^verbatim>\<open>GetLaminarViscosity\<close> and so on).\<close>

record CVariable =
  Solution :: "nat \<Rightarrow> vec"
  Primitive :: "nat \<Rightarrow> vec"
  dPdU :: "nat \<Rightarrow> vec"
  dTdU :: "nat \<Rightarrow> vec"
  dTvedU :: "nat \<Rightarrow> vec"
  Eve :: "nat \<Rightarrow> vec"
  Cvve :: "nat \<Rightarrow> vec"
  Lambda :: "nat \<Rightarrow> su2double"
  Max_Lambda_Inv :: "nat \<Rightarrow> su2double"
  Max_Lambda_Visc :: "nat \<Rightarrow> su2double"
  Delta_Time :: "nat \<Rightarrow> su2double"
  ResTruncError :: "nat \<Rightarrow> vec"
  Gradient_Reconstruction :: "nat \<Rightarrow> mat"
  Limiter :: "nat \<Rightarrow> vec"
  SoundSpeed :: "nat \<Rightarrow> su2double"
  ProjVel :: "nat \<Rightarrow> vec \<Rightarrow> su2double"
  LaminarViscosity :: "nat \<Rightarrow> su2double"
  ThermalConductivity :: "nat \<Rightarrow> su2double"
  ThermalConductivity_ve :: "nat \<Rightarrow> su2double"
  Density :: "nat \<Rightarrow> su2double"
  RhoCv_tr :: "nat \<Rightarrow> su2double"
  RhoCv_ve :: "nat \<Rightarrow> su2double"
  UnderRelaxation :: "nat \<Rightarrow> su2double"

text \<open>The inputs a \<^verbatim>\<open>CNumerics\<close> object holds between its \<^verbatim>\<open>Set...\<close> calls and its
  \<^verbatim>\<open>Compute...\<close> call.  A field that a routine does not set keeps its earlier value.\<close>

record CNumerics =
  Normal :: vec
  Neighbor_i :: nat
  Neighbor_j :: nat
  U_i :: vec
  U_j :: vec
  V_i :: vec
  V_j :: vec
  dPdU_i :: vec
  dPdU_j :: vec
  dTdU_i :: vec
  dTdU_j :: vec
  dTvedU_i :: vec
  dTvedU_j :: vec
  Eve_i :: vec
  Eve_j :: vec
  Cvve_i :: vec
  Cvve_j :: vec
  Lambda_i :: su2double
  Lambda_j :: su2double
  GridVel_i :: vec
  GridVel_j :: vec
  Volume :: su2double
  Coord_i :: vec
  Coord_j :: vec

text \<open>
  The solver object.  \<^verbatim>\<open>LinSysRes\<close> and \<^verbatim>\<open>LinSysSol\<close> store \<^verbatim>\<open>nVar\<close> consecutive
  values per point; the model addresses the entry \<^verbatim>\<open>iPoint*nVar + iVar\<close> as
  \<open>LinSysRes s iPoint iVar\<close>.  \<^verbatim>\<open>Jacobian\<close> is addressed by block row, block column and
  the position inside the block.
\<close>

record CSolver =
  nVar :: nat
  nDim :: nat
  nPoint :: nat
  nPointDomain :: nat
  nodes :: CVariable
  LinSysRes :: "nat \<Rightarrow> vec"
  LinSysSol :: "nat \<Rightarrow> vec"
  Jacobian :: "nat \<Rightarrow> nat \<Rightarrow> mat"
  Residual :: vec
  Res_Conv :: vec
  Res_Visc :: vec
  Jacobian_i :: mat
  Jacobian_j :: mat
  Min_Delta_Time :: su2double
  Max_Delta_Time :: su2double
  Residual_RMS :: vec
  Residual_Max :: vec
  Point_Max :: "nat \<Rightarrow> nat"
  Point_Max_Coord :: "nat \<Rightarrow> vec"
  IterLinSolver :: nat

section \<open>Block operations of the linear system\<close>

text \<open>
  Modelled from the spec: \<^verbatim>\<open>CSysVector::AddBlock\<close> and \<^verbatim>\<open>SubtractBlock\<close> are not among
  the sources.  The spec has a flux "added to the first endpoint's residual, subtracted from
  the second's": the block of \<^verbatim>\<open>nVar\<close> values is added to (subtracted from) the entries of
  the given point.
\<close>

definition AddBlock :: "nat \<Rightarrow> nat \<Rightarrow> vec \<Rightarrow> (nat \<Rightarrow> vec) \<Rightarrow> (nat \<Rightarrow> vec)" where
  "AddBlock n iPoint blk v =
     v(iPoint := (\<lambda>iVar. if iVar < n then add_d (v iPoint iVar) (blk iVar) else v iPoint iVar))"

definition SubtractBlock :: "nat \<Rightarrow> nat \<Rightarrow> vec \<Rightarrow> (nat \<Rightarrow> vec) \<Rightarrow> (nat \<Rightarrow> vec)" where
  "SubtractBlock n iPoint blk v =
     v(iPoint := (\<lambda>iVar. if iVar < n then sub_d (v iPoint iVar) (blk iVar) else v iPoint iVar))"

text \<open>
  Modelled from the spec: \<^verbatim>\<open>CSysMatrix::AddBlock\<close> and \<^verbatim>\<open>SubtractBlock\<close> are not among
  the sources.  The spec has Jacobian blocks "added to the (i,i) and (i,j) positions and
  subtracted from (j,i) and (j,j)": the \<^verbatim>\<open>nVar\<close> by \<^verbatim>\<open>nVar\<close> block is added to
  (subtracted from) the block at the given block row and column.
\<close>

definition AddBlock_Jac :: "nat \<Rightarrow> nat \<Rightarrow> nat \<Rightarrow> mat \<Rightarrow> (nat \<Rightarrow> nat \<Rightarrow> mat) \<Rightarrow> (nat \<Rightarrow> nat \<Rightarrow> mat)" where
  "AddBlock_Jac n block_i block_j blk J =
     J(block_i := (J block_i)(block_j := (\<lambda>iVar jVar.
        if iVar < n \<and> jVar < n then add_d (J block_i block_j iVar jVar) (blk iVar jVar)
        else J block_i block_j iVar jVar)))"

definition SubtractBlock_Jac :: "nat \<Rightarrow> nat \<Rightarrow> nat \<Rightarrow> mat \<Rightarrow> (nat \<Rightarrow> nat \<Rightarrow> mat) \<Rightarrow> (nat \<Rightarrow> nat \<Rightarrow> mat)" where
  "SubtractBlock_Jac n block_i block_j blk J =
     J(block_i := (J block_i)(block_j := (\<lambda>iVar jVar.
        if iVar < n \<and> jVar < n then sub_d (J block_i block_j iVar jVar) (blk iVar jVar)
        else J block_i block_j iVar jVar)))"

section \<open>Centered convective residual\<close>

text \<open>
  The flux functor \<^verbatim>\<open>numerics->ComputeResidual(Res_Conv, Res_Visc, Jacobian_i, Jacobian_j,
  config)\<close> is an external collaborator: a parameter of the model, a function of the inputs
  the numerics object holds, returning the four arrays it fills.
\<close>

type_synonym centered_functor = "CNumerics \<Rightarrow> CConfig \<Rightarrow> vec \<times> vec \<times> mat \<times> mat"

text \<open>The loop \<^verbatim>\<open>for (iVar...) if (a[iVar] != a[iVar] || b[iVar] != b[iVar]) err = true\<close>.\<close>

definition nan_check2 :: "nat \<Rightarrow> vec \<Rightarrow> vec \<Rightarrow> bool \<Rightarrow> bool" where
  "nan_check2 n a b err0 =
     fold (\<lambda>iVar err. if ne_d (a iVar) (a iVar) \<or> ne_d (b iVar) (b iVar) then True else err)
       [0 ..< n] err0"

text \<open>The double loop over both Jacobian blocks.\<close>

definition nan_check_jac2 :: "nat \<Rightarrow> mat \<Rightarrow> mat \<Rightarrow> bool \<Rightarrow> bool" where
  "nan_check_jac2 n A B err0 =
     fold (\<lambda>iVar. fold (\<lambda>jVar err.
        if ne_d (A iVar jVar) (A iVar jVar) \<or> ne_d (B iVar jVar) (B iVar jVar) then True else err)
        [0 ..< n]) [0 ..< n] err0"

text \<open>The inputs set for edge \<open>iEdge\<close> before the functor is called (lines 744-762).\<close>

definition Centered_SetInputs :: "CGeometry \<Rightarrow> CVariable \<Rightarrow> nat \<Rightarrow> CNumerics \<Rightarrow> CNumerics" where
  "Centered_SetInputs geometry nds iEdge numerics =
    (let iPoint = edges_Node geometry iEdge 0;
         jPoint = edges_Node geometry iEdge 1
     in numerics\<lparr>
          Normal := edges_Normal geometry iEdge,
          Neighbor_i := nodes_nNeighbor geometry iPoint,
          Neighbor_j := nodes_nNeighbor geometry jPoint,
          U_i := Solution nds iPoint, U_j := Solution nds jPoint,
          V_i := Primitive nds iPoint, V_j := Primitive nds jPoint,
          dPdU_i := dPdU nds iPoint, dPdU_j := dPdU nds jPoint,
          dTdU_i := dTdU nds iPoint, dTdU_j := dTdU nds jPoint,
          dTvedU_i := dTvedU nds iPoint, dTvedU_j := dTvedU nds jPoint,
          Eve_i := Eve nds iPoint, Eve_j := Eve nds jPoint,
          Cvve_i := Cvve nds iPoint, Cvve_j := Cvve nds jPoint,
          Lambda_i := Lambda nds iPoint, Lambda_j := Lambda nds jPoint\<rparr>)"

text \<open>The NaN check of lines 767-778 on the arrays the functor returned.\<close>

definition Centered_err :: "nat \<Rightarrow> bool \<Rightarrow> vec \<times> vec \<times> mat \<times> mat \<Rightarrow> bool" where
  "Centered_err n implicit out =
    (case out of (ResConv, ResVisc, Jac_i, Jac_j) \<Rightarrow>
       let err = nan_check2 n ResConv ResVisc False
       in if implicit then nan_check_jac2 n Jac_i Jac_j err else err)"

text \<open>The body of the edge loop of \<^verbatim>\<open>Centered_Residual\<close>.\<close>

definition Centered_Residual_edge ::
  "centered_functor \<Rightarrow> CGeometry \<Rightarrow> CConfig \<Rightarrow> nat \<Rightarrow> CSolver \<times> CNumerics \<Rightarrow> CSolver \<times> CNumerics" where
  "Centered_Residual_edge ComputeResidual geometry config iEdge sn =
    (case sn of (solver, numerics0) \<Rightarrow>
     let implicit = (Kind_TimeIntScheme_Flow config = EULER_IMPLICIT);
         iPoint = edges_Node geometry iEdge 0;
         jPoint = edges_Node geometry iEdge 1;
         n = nVar solver;
         numerics = Centered_SetInputs geometry (nodes solver) iEdge numerics0;
         out = ComputeResidual numerics config
     in (case out of (ResConv, ResVisc, Jac_i, Jac_j) \<Rightarrow>
       let solver1 = solver\<lparr>Res_Conv := ResConv, Res_Visc := ResVisc,
                            Jacobian_i := Jac_i, Jacobian_j := Jac_j\<rparr>;
           err = Centered_err n implicit out
       in if \<not> err then
            (solver1\<lparr>
               LinSysRes :=
                 SubtractBlock n jPoint ResVisc (AddBlock n iPoint ResVisc
                   (SubtractBlock n jPoint ResConv (AddBlock n iPoint ResConv (LinSysRes solver1)))),
               Jacobian :=
                 (if implicit then
                    SubtractBlock_Jac n jPoint jPoint Jac_j (SubtractBlock_Jac n jPoint iPoint Jac_i
                      (AddBlock_Jac n iPoint jPoint Jac_j (AddBlock_Jac n iPoint iPoint Jac_i
                        (Jacobian solver1))))
                  else Jacobian solver1)\<rparr>, numerics)
          else (solver1, numerics)))"

definition Centered_Residual ::
  "centered_functor \<Rightarrow> CGeometry \<Rightarrow> CConfig \<Rightarrow> CSolver \<times> CNumerics \<Rightarrow> CSolver \<times> CNumerics" where
  "Centered_Residual ComputeResidual geometry config sn =
     fold (Centered_Residual_edge ComputeResidual geometry config) [0 ..< nEdge geometry] sn"

section \<open>Upwind convective residual with MUSCL reconstruction\<close>

text \<open>
  Two more external collaborators are parameters: the upwind flux functor
  \<^verbatim>\<open>numerics->ComputeResidual(config)\<close>, returning the residual array, and
  \<^verbatim>\<open>nodes->Cons2PrimVar(U, V, dPdU, dTdU, dTvedU, Eve, Cvve)\<close>, which returns the
  non-physical flag and fills the six output arrays.
\<close>

type_synonym upwind_functor = "CNumerics \<Rightarrow> CConfig \<Rightarrow> vec"
type_synonym cons2prim = "vec \<Rightarrow> bool \<times> vec \<times> vec \<times> vec \<times> vec \<times> vec \<times> vec"

text \<open>The loop \<^verbatim>\<open>for (iVar...) if (a[iVar] != a[iVar]) err = true\<close>.\<close>

definition nan_check1 :: "nat \<Rightarrow> vec \<Rightarrow> bool \<Rightarrow> bool" where
  "nan_check1 n a err0 =
     fold (\<lambda>iVar err. if ne_d (a iVar) (a iVar) then True else err) [0 ..< n] err0"

text \<open>The smallest limiter value of a point over all variables, starting from 1.0
  (lines 873-878).\<close>

definition min_limiter :: "nat \<Rightarrow> vec \<Rightarrow> su2double" where
  "min_limiter n Limiter_p =
     fold (\<lambda>iVar lim. if gt_d lim (Limiter_p iVar) then Limiter_p iVar else lim) [0 ..< n] (Fin 1)"

text \<open>The projection of the gradient of one variable on a half-edge vector (lines 884-888).\<close>

definition ProjGradU :: "nat \<Rightarrow> vec \<Rightarrow> mat \<Rightarrow> nat \<Rightarrow> su2double" where
  "ProjGradU nd Vector GradU iVar =
     fold (\<lambda>iDim acc. add_d acc (mul_d (Vector iDim) (GradU iVar iDim))) [0 ..< nd] (Fin 0)"

text \<open>The reconstructed conserved states of both sides of the edge (lines 855-897), from
  the point data \<open>nds\<close>, with \<open>n\<close> variables in \<open>nd\<close> space dimensions.\<close>

definition Upwind_Reconstruct ::
  "CGeometry \<Rightarrow> CVariable \<Rightarrow> nat \<Rightarrow> nat \<Rightarrow> bool \<Rightarrow> nat \<Rightarrow> vec \<times> vec" where
  "Upwind_Reconstruct geometry nds n nd limiter iEdge =
    (let iPoint = edges_Node geometry iEdge 0;
         jPoint = edges_Node geometry iEdge 1;
         Vector_i = (\<lambda>iDim. mul_d (Fin 0.5)
                      (sub_d (nodes_Coord geometry jPoint iDim) (nodes_Coord geometry iPoint iDim)));
         Vector_j = (\<lambda>iDim. mul_d (Fin 0.5)
                      (sub_d (nodes_Coord geometry iPoint iDim) (nodes_Coord geometry jPoint iDim)));
         GradU_i = Gradient_Reconstruction nds iPoint;
         GradU_j = Gradient_Reconstruction nds jPoint;
         lim_i = min_limiter n (Limiter nds iPoint);
         lim_j = min_limiter n (Limiter nds jPoint);
         lim_ij = min_d lim_i lim_j;
         Conserved_i = (\<lambda>iVar.
            if limiter
            then add_d (Solution nds iPoint iVar) (mul_d lim_ij (ProjGradU nd Vector_i GradU_i iVar))
            else add_d (Solution nds iPoint iVar) (ProjGradU nd Vector_i GradU_i iVar));
         Conserved_j = (\<lambda>iVar.
            if limiter
            then add_d (Solution nds jPoint iVar) (mul_d lim_ij (ProjGradU nd Vector_j GradU_j iVar))
            else add_d (Solution nds jPoint iVar) (ProjGradU nd Vector_j GradU_j iVar))
     in (Conserved_i, Conserved_j))"

text \<open>The inputs set for edge \<open>iEdge\<close> before the functor is called (lines 843-932).\<close>

definition Upwind_SetInputs ::
  "cons2prim \<Rightarrow> CGeometry \<Rightarrow> CVariable \<Rightarrow> nat \<Rightarrow> nat \<Rightarrow> bool \<Rightarrow> bool \<Rightarrow> nat \<Rightarrow>
   CNumerics \<Rightarrow> CNumerics" where
  "Upwind_SetInputs Cons2PrimVar geometry nds n nd muscl limiter iEdge numerics0 =
    (let iPoint = edges_Node geometry iEdge 0;
         jPoint = edges_Node geometry iEdge 1;
         numerics = numerics0\<lparr>Normal := edges_Normal geometry iEdge\<rparr>
     in if muscl then
          (case Upwind_Reconstruct geometry nds n nd limiter iEdge of (Conserved_i, Conserved_j) \<Rightarrow>
           case Cons2PrimVar Conserved_i of
             (chk_err_i, Primitive_i, dPdU_i', dTdU_i', dTvedU_i', Eve_i', Cvve_i') \<Rightarrow>
           case Cons2PrimVar Conserved_j of
             (chk_err_j, Primitive_j, dPdU_j', dTdU_j', dTvedU_j', Eve_j', Cvve_j') \<Rightarrow>
           if chk_err_i \<or> chk_err_j then
             numerics\<lparr>
               V_i := Primitive nds iPoint, V_j := Primitive nds jPoint,
               U_i := Solution nds iPoint, U_j := Solution nds jPoint,
               dPdU_i := dPdU nds iPoint, dPdU_j := dPdU nds jPoint,
               dTdU_i := dTdU nds iPoint, dTdU_j := dTdU nds jPoint,
               dTvedU_i := dTvedU nds iPoint, dTvedU_j := dTvedU nds jPoint,
               Eve_i := Eve nds iPoint, Eve_j := Eve nds jPoint,
               Cvve_i := Cvve nds iPoint, Cvve_j := Cvve nds jPoint\<rparr>
           else
             numerics\<lparr>
               U_i := Conserved_i, U_j := Conserved_j,
               V_i := Primitive_i, V_j := Primitive_j,
               dPdU_i := dPdU_i', dPdU_j := dPdU_j',
               dTdU_i := dTdU_i', dTdU_j := dTdU_j',
               dTvedU_i := dTvedU_i', dTvedU_j := dTvedU_j',
               Eve_i := Eve_i', Eve_j := Eve_j',
               Cvve_i := Cvve_i', Cvve_j := Cvve_j'\<rparr>)
        else
          numerics\<lparr>
            V_i := Primitive nds iPoint, V_j := Primitive nds jPoint,
            U_i := Solution nds iPoint, U_j := Solution nds jPoint,
            dPdU_i := dPdU nds iPoint, dPdU_j := dPdU nds jPoint,
            dTdU_i := dTdU nds iPoint, dTdU_j := dTdU nds jPoint,
            dTvedU_i := dTvedU nds iPoint, dTvedU_j := dTvedU nds jPoint,
            Eve_i := Eve nds iPoint, Eve_j := Eve nds jPoint,
            Cvve_i := Cvve nds iPoint, Cvve_j := Cvve nds jPoint\<rparr>)"

text \<open>The two switches computed from the configuration (lines 815-818).\<close>

definition Upwind_muscl :: "CConfig \<Rightarrow> nat \<Rightarrow> bool" where
  "Upwind_muscl config iMesh = (MUSCL_Flow config \<and> iMesh = MESH_0)"

definition Upwind_limiter :: "CConfig \<Rightarrow> bool" where
  "Upwind_limiter config =
     (Kind_SlopeLimit_Flow config \<noteq> NO_LIMITER \<and> InnerIter config \<le> LimiterIter config \<and>
      \<not> (Discrete_Adjoint config \<and> Frozen_Limiter_Disc config))"

text \<open>The body of the edge loop of \<^verbatim>\<open>Upwind_Residual\<close>.  No Jacobian is assembled on this
  path: the statements are commented out in the source.\<close>

definition Upwind_Residual_edge ::
  "upwind_functor \<Rightarrow> cons2prim \<Rightarrow> CGeometry \<Rightarrow> CConfig \<Rightarrow> nat \<Rightarrow> nat \<Rightarrow>
   CSolver \<times> CNumerics \<Rightarrow> CSolver \<times> CNumerics" where
  "Upwind_Residual_edge ComputeResidual Cons2PrimVar geometry config iMesh iEdge sn =
    (case sn of (solver, numerics0) \<Rightarrow>
     let iPoint = edges_Node geometry iEdge 0;
         jPoint = edges_Node geometry iEdge 1;
         n = nVar solver;
         numerics = Upwind_SetInputs Cons2PrimVar geometry (nodes solver) n (nDim solver)
                      (Upwind_muscl config iMesh) (Upwind_limiter config) iEdge numerics0;
         residual = ComputeResidual numerics config;
         err = nan_check1 n residual False
     in if \<not> err then
          (solver\<lparr>LinSysRes :=
             SubtractBlock n jPoint residual (AddBlock n iPoint residual (LinSysRes solver))\<rparr>,
           numerics)
        else (solver, numerics))"

definition Upwind_Residual ::
  "upwind_functor \<Rightarrow> cons2prim \<Rightarrow> CGeometry \<Rightarrow> CConfig \<Rightarrow> nat \<Rightarrow>
   CSolver \<times> CNumerics \<Rightarrow> CSolver \<times> CNumerics" where
  "Upwind_Residual ComputeResidual Cons2PrimVar geometry config iMesh sn =
     fold (Upwind_Residual_edge ComputeResidual Cons2PrimVar geometry config iMesh)
       [0 ..< nEdge geometry] sn"
section \<open>Supersonic outlet\<close>




section \<open>Source-term residual\<close>

text \<open>
  The three source functors \<^verbatim>\<open>ComputeAxisymmetric\<close>, \<^verbatim>\<open>ComputeChemistry\<close> and
  \<^verbatim>\<open>ComputeVibRelaxation\<close> of the numerics object are external collaborators, each a
  function of the inputs the object holds, returning the residual array.  The NaN check and
  the Jacobian update of the implicit scheme read the solver's own array \<^verbatim>\<open>Jacobian_i\<close>,
  which this routine never writes.
\<close>

type_synonym source_functor = "CNumerics \<Rightarrow> CConfig \<Rightarrow> vec"

text \<open>The double loop \<^verbatim>\<open>if (Jacobian_i[iVar][jVar] != Jacobian_i[iVar][jVar]) err = true\<close>.\<close>

definition nan_check_jac1 :: "nat \<Rightarrow> mat \<Rightarrow> bool \<Rightarrow> bool" where
  "nan_check_jac1 n A err0 =
     fold (\<lambda>iVar. fold (\<lambda>jVar err. if ne_d (A iVar jVar) (A iVar jVar) then True else err)
        [0 ..< n]) [0 ..< n] err0"

text \<open>The state of the point loop: the solver, the numerics object and the three local
  error counters.\<close>

record Source_state =
  src_solver :: CSolver
  src_numerics :: CNumerics
  eAxi_local :: nat
  eChm_local :: nat
  eVib_local :: nat

text \<open>The inputs set for point \<open>iPoint\<close> (lines 1006-1019): its own state on both sides.\<close>

definition Source_SetInputs :: "CGeometry \<Rightarrow> CVariable \<Rightarrow> nat \<Rightarrow> CNumerics \<Rightarrow> CNumerics" where
  "Source_SetInputs geometry nds iPoint numerics =
     numerics\<lparr>
       U_i := Solution nds iPoint, U_j := Solution nds iPoint,
       V_i := Primitive nds iPoint, V_j := Primitive nds iPoint,
       dPdU_i := dPdU nds iPoint, dPdU_j := dPdU nds iPoint,
       dTdU_i := dTdU nds iPoint, dTdU_j := dTdU nds iPoint,
       dTvedU_i := dTvedU nds iPoint, dTvedU_j := dTvedU nds iPoint,
       Eve_i := Eve nds iPoint, Eve_j := Eve nds iPoint,
       Cvve_i := Cvve nds iPoint, Cvve_j := Cvve nds iPoint,
       Volume := nodes_Volume geometry iPoint,
       Coord_i := nodes_Coord geometry iPoint, Coord_j := nodes_Coord geometry iPoint\<rparr>"

text \<open>The error flag of one source term (for instance lines 1026-1032).\<close>

definition Source_err :: "bool \<Rightarrow> nat \<Rightarrow> vec \<Rightarrow> mat \<Rightarrow> bool" where
  "Source_err implicit n residual Jac_i =
     (let err = nan_check1 n residual False
      in if implicit then nan_check_jac1 n Jac_i err else err)"

text \<open>Axisymmetric source (lines 1022-1042).\<close>

definition Source_Axisymmetric ::
  "source_functor \<Rightarrow> CConfig \<Rightarrow> nat \<Rightarrow> Source_state \<Rightarrow> Source_state" where
  "Source_Axisymmetric ComputeAxisymmetric config iPoint st =
    (let implicit = (Kind_TimeIntScheme_Flow config = EULER_IMPLICIT);
         solver = src_solver st;
         n = nVar solver
     in if Axisymmetric config then
          (let residual = ComputeAxisymmetric (src_numerics st) config;
               err = Source_err implicit n residual (Jacobian_i solver)
           in if \<not> err then
                st\<lparr>src_solver := solver\<lparr>
                     LinSysRes := AddBlock n iPoint residual (LinSysRes solver),
                     Jacobian := (if implicit
                                  then AddBlock_Jac n iPoint iPoint (Jacobian_i solver) (Jacobian solver)
                                  else Jacobian solver)\<rparr>\<rparr>
              else st\<lparr>eAxi_local := eAxi_local st + 1\<rparr>)
        else st)"

text \<open>Finite-rate chemistry (lines 1044-1066).\<close>

definition Source_Chemistry ::
  "source_functor \<Rightarrow> CConfig \<Rightarrow> nat \<Rightarrow> Source_state \<Rightarrow> Source_state" where
  "Source_Chemistry ComputeChemistry config iPoint st =
    (let implicit = (Kind_TimeIntScheme_Flow config = EULER_IMPLICIT);
         frozen = Frozen config;
         monoatomic = Monoatomic config;
         solver = src_solver st;
         n = nVar solver
     in if \<not> monoatomic then
          (if \<not> frozen then
             (let residual = ComputeChemistry (src_numerics st) config;
                  err = Source_err implicit n residual (Jacobian_i solver)
              in if \<not> err then
                   st\<lparr>src_solver := solver\<lparr>
                        LinSysRes := SubtractBlock n iPoint residual (LinSysRes solver),
                        Jacobian := (if implicit
                                     then SubtractBlock_Jac n iPoint iPoint (Jacobian_i solver)
                                            (Jacobian solver)
                                     else Jacobian solver)\<rparr>\<rparr>
                 else st\<lparr>eChm_local := eChm_local st + 1\<rparr>)
           else st)
        else st)"

text \<open>Vibrational energy relaxation (lines 1071-1090).\<close>

definition Source_VibRelaxation ::
  "source_functor \<Rightarrow> CConfig \<Rightarrow> nat \<Rightarrow> Source_state \<Rightarrow> Source_state" where
  "Source_VibRelaxation ComputeVibRelaxation config iPoint st =
    (let implicit = (Kind_TimeIntScheme_Flow config = EULER_IMPLICIT);
         monoatomic = Monoatomic config;
         solver = src_solver st;
         n = nVar solver
     in if \<not> monoatomic then
          (let residual = ComputeVibRelaxation (src_numerics st) config;
               err = Source_err implicit n residual (Jacobian_i solver)
           in if \<not> err then
                st\<lparr>src_solver := solver\<lparr>
                     LinSysRes := SubtractBlock n iPoint residual (LinSysRes solver),
                     Jacobian := (if implicit
                                  then SubtractBlock_Jac n iPoint iPoint (Jacobian_i solver)
                                         (Jacobian solver)
                                  else Jacobian solver)\<rparr>\<rparr>
              else st\<lparr>eVib_local := eVib_local st + 1\<rparr>)
        else st)"

text \<open>The body of the point loop (lines 1003-1091).\<close>

definition Source_Residual_point ::
  "source_functor \<Rightarrow> source_functor \<Rightarrow> source_functor \<Rightarrow> CGeometry \<Rightarrow> CConfig \<Rightarrow> nat \<Rightarrow>
   Source_state \<Rightarrow> Source_state" where
  "Source_Residual_point ComputeAxisymmetric ComputeChemistry ComputeVibRelaxation geometry config
     iPoint st =
     Source_VibRelaxation ComputeVibRelaxation config iPoint
       (Source_Chemistry ComputeChemistry config iPoint
         (Source_Axisymmetric ComputeAxisymmetric config iPoint
           (st\<lparr>src_numerics :=
                 Source_SetInputs geometry (nodes (src_solver st)) iPoint (src_numerics st)\<rparr>)))"

text \<open>What the routine writes to the console: pieces of text and the counters.\<close>

datatype console_item = Text string | Count nat

text \<open>
  The routine: counters and \<^verbatim>\<open>Residual\<close> set to zero, the loop over the owned points,
  and the warning of lines 1099-1106 when a counter is not zero.  It returns the solver, the
  numerics object, the three global counters and the console lines.
\<close>

definition Source_Residual ::
  "source_functor \<Rightarrow> source_functor \<Rightarrow> source_functor \<Rightarrow> CGeometry \<Rightarrow> CConfig \<Rightarrow>
   CSolver \<times> CNumerics \<Rightarrow> Source_state \<times> console_item list list" where
  "Source_Residual ComputeAxisymmetric ComputeChemistry ComputeVibRelaxation geometry config sn =
    (case sn of (solver, numerics) \<Rightarrow>
     let solver0 = solver\<lparr>Residual :=
                     (\<lambda>iVar. if iVar < nVar solver then Fin 0 else Residual solver iVar)\<rparr>;
         st0 = \<lparr>src_solver = solver0, src_numerics = numerics,
                eAxi_local = 0, eChm_local = 0, eVib_local = 0\<rparr>;
         st = fold (Source_Residual_point ComputeAxisymmetric ComputeChemistry ComputeVibRelaxation
                      geometry config) [0 ..< nPointDomain solver] st0;
         eAxi_global = eAxi_local st;
         eChm_global = eChm_local st;
         eVib_global = eVib_local st
     in (st,
         if eAxi_global \<noteq> 0 \<or> eChm_global \<noteq> 0 \<or> eVib_global \<noteq> 0 then
           [[Text ''Warning!! Instances of NaN in the following source terms: ''],
            [Text ''Axisymmetry: '', Count eAxi_global],
            [Text ''Chemical:    '', Count eChm_global],
            [Text ''Vib. Relax:  '', Count eVib_global]]
         else []))"

section \<open>Time step\<close>

text \<open>
  \<^verbatim>\<open>SetTime_Step\<close> in four parts: the spectral radii accumulated over edges and boundary
  vertices, the local time step of every owned point, the global time step of the
  time-stepping mode, and the dual-time adjustments.  The model is the build without MPI
  (one process): the reductions inside \<^verbatim>\<open>#ifdef HAVE_MPI\<close> are absent.
\<close>

text \<open>\<^verbatim>\<open>Area = 0.0; for (iDim...) Area += Normal[iDim]*Normal[iDim]; Area = sqrt(Area)\<close>.\<close>

definition Area_of :: "nat \<Rightarrow> vec \<Rightarrow> su2double" where
  "Area_of nd Normal' =
     sqrt_d (fold (\<lambda>iDim Area. add_d Area (mul_d (Normal' iDim) (Normal' iDim))) [0 ..< nd] (Fin 0))"

text \<open>The projection of the grid velocity of a point on a normal.\<close>

definition GridVel_proj :: "nat \<Rightarrow> vec \<Rightarrow> vec \<Rightarrow> su2double" where
  "GridVel_proj nd GridVel Normal' =
     fold (\<lambda>iDim ProjVel'. add_d ProjVel' (mul_d (GridVel iDim) (Normal' iDim))) [0 ..< nd] (Fin 0)"

definition AddMax_Lambda_Inv :: "nat \<Rightarrow> su2double \<Rightarrow> CVariable \<Rightarrow> CVariable" where
  "AddMax_Lambda_Inv iPoint val nds =
     nds\<lparr>Max_Lambda_Inv := (Max_Lambda_Inv nds)(iPoint := add_d (Max_Lambda_Inv nds iPoint) val)\<rparr>"

definition AddMax_Lambda_Visc :: "nat \<Rightarrow> su2double \<Rightarrow> CVariable \<Rightarrow> CVariable" where
  "AddMax_Lambda_Visc iPoint val nds =
     nds\<lparr>Max_Lambda_Visc := (Max_Lambda_Visc nds)(iPoint := add_d (Max_Lambda_Visc nds iPoint) val)\<rparr>"

text \<open>Lines 460-465: the spectral radii of the owned points set to zero.\<close>

definition Lambda_reset :: "CConfig \<Rightarrow> nat \<Rightarrow> CVariable \<Rightarrow> CVariable" where
  "Lambda_reset config npd nds =
     fold (\<lambda>iPoint nds'.
        let nds1 = nds'\<lparr>Max_Lambda_Inv := (Max_Lambda_Inv nds')(iPoint := Fin 0)\<rparr>
        in if Viscous config
           then nds1\<lparr>Max_Lambda_Visc := (Max_Lambda_Visc nds1)(iPoint := Fin 0)\<rparr>
           else nds1)
       [0 ..< npd] nds"

text \<open>Lines 468-523: the contribution of one interior edge.\<close>

definition Lambda_edge :: "CGeometry \<Rightarrow> CConfig \<Rightarrow> nat \<Rightarrow> nat \<Rightarrow> CVariable \<Rightarrow> CVariable" where
  "Lambda_edge geometry config nd iEdge nds =
    (let iPoint = edges_Node geometry iEdge 0;
         jPoint = edges_Node geometry iEdge 1;
         Normal' = edges_Normal geometry iEdge;
         Area = Area_of nd Normal';
         Mean_ProjVel0 = mul_d (Fin 0.5) (add_d (ProjVel nds iPoint Normal') (ProjVel nds jPoint Normal'));
         Mean_SoundSpeed =
           mul_d (mul_d (Fin 0.5) (add_d (SoundSpeed nds iPoint) (SoundSpeed nds jPoint))) Area;
         Mean_ProjVel =
           (if Grid_Movement config
            then sub_d Mean_ProjVel0 (mul_d (Fin 0.5)
                   (add_d (GridVel_proj nd (nodes_GridVel geometry iPoint) Normal')
                          (GridVel_proj nd (nodes_GridVel geometry jPoint) Normal')))
            else Mean_ProjVel0);
         Lambda' = add_d (fabs_d Mean_ProjVel) Mean_SoundSpeed;
         nds1 = (if nodes_Domain geometry iPoint then AddMax_Lambda_Inv iPoint Lambda' nds else nds);
         nds2 = (if nodes_Domain geometry jPoint then AddMax_Lambda_Inv jPoint Lambda' nds1 else nds1)
     in if \<not> Viscous config then nds2
        else
         (let Mean_LaminarVisc =
                mul_d (Fin 0.5) (add_d (LaminarViscosity nds iPoint) (LaminarViscosity nds jPoint));
              Mean_ThermalCond =
                mul_d (Fin 0.5) (add_d (ThermalConductivity nds iPoint) (ThermalConductivity nds jPoint));
              Mean_ThermalCond_ve =
                mul_d (Fin 0.5)
                  (add_d (ThermalConductivity_ve nds iPoint) (ThermalConductivity_ve nds jPoint));
              Mean_Density = mul_d (Fin 0.5) (add_d (Density nds iPoint) (Density nds jPoint));
              cv = div_d (mul_d (Fin 0.5)
                      (add_d (add_d (add_d (RhoCv_tr nds iPoint) (RhoCv_ve nds iPoint))
                                    (RhoCv_tr nds jPoint)) (RhoCv_ve nds jPoint)))
                     Mean_Density;
              Lambda_1 = mul_d (Fin (4 / 3)) Mean_LaminarVisc;
              Lambda_2 = div_d (add_d Mean_ThermalCond Mean_ThermalCond_ve) cv;
              Lambda_v = div_d (mul_d (mul_d (add_d Lambda_1 Lambda_2) Area) Area) Mean_Density;
              nds3 = (if nodes_Domain geometry iPoint then AddMax_Lambda_Visc iPoint Lambda_v nds2
                      else nds2)
          in if nodes_Domain geometry jPoint then AddMax_Lambda_Visc jPoint Lambda_v nds3 else nds3))"

text \<open>Lines 528-573: the contribution of one boundary vertex.\<close>

definition Lambda_vertex ::
  "CGeometry \<Rightarrow> CConfig \<Rightarrow> nat \<Rightarrow> nat \<Rightarrow> nat \<Rightarrow> CVariable \<Rightarrow> CVariable" where
  "Lambda_vertex geometry config nd iMarker iVertex nds =
    (let iPoint = vertex_Node geometry iMarker iVertex;
         Normal' = vertex_Normal geometry iMarker iVertex;
         Area = Area_of nd Normal';
         Mean_ProjVel0 = ProjVel nds iPoint Normal';
         Mean_SoundSpeed = mul_d (SoundSpeed nds iPoint) Area;
         Mean_ProjVel =
           (if Grid_Movement config
            then sub_d Mean_ProjVel0 (GridVel_proj nd (nodes_GridVel geometry iPoint) Normal')
            else Mean_ProjVel0);
         Lambda' = add_d (fabs_d Mean_ProjVel) Mean_SoundSpeed;
         nds1 = (if nodes_Domain geometry iPoint then AddMax_Lambda_Inv iPoint Lambda' nds else nds)
     in if \<not> Viscous config then nds1
        else
         (let Mean_LaminarVisc = LaminarViscosity nds iPoint;
              Mean_ThermalCond = ThermalConductivity nds iPoint;
              Mean_ThermalCond_ve = ThermalConductivity_ve nds iPoint;
              Mean_Density = Density nds iPoint;
              cv = div_d (add_d (RhoCv_tr nds iPoint) (RhoCv_ve nds iPoint)) Mean_Density;
              Lambda_1 = mul_d (Fin (4 / 3)) Mean_LaminarVisc;
              Lambda_2 = div_d (add_d Mean_ThermalCond Mean_ThermalCond_ve) cv;
              Lambda_v = div_d (mul_d (mul_d (add_d Lambda_1 Lambda_2) Area) Area) Mean_Density
          in if nodes_Domain geometry iPoint then AddMax_Lambda_Visc iPoint Lambda_v nds1 else nds1))"

text \<open>Lines 459-575 together.\<close>

definition SetTime_Step_Lambda :: "CGeometry \<Rightarrow> CConfig \<Rightarrow> CSolver \<Rightarrow> CVariable" where
  "SetTime_Step_Lambda geometry config solver =
    (let nds0 = Lambda_reset config (nPointDomain solver) (nodes solver);
         nds1 = fold (Lambda_edge geometry config (nDim solver)) [0 ..< nEdge geometry] nds0
     in fold (\<lambda>iMarker nds'.
           if Marker_All_KindBC config iMarker \<noteq> INTERNAL_BOUNDARY
           then fold (Lambda_vertex geometry config (nDim solver) iMarker)
                  [0 ..< nVertex geometry iMarker] nds'
           else nds')
          [0 ..< nMarker geometry] nds1)"

text \<open>The local time step of a point with non-zero volume before the configured maximum
  is applied (lines 582-587), with \<^verbatim>\<open>K_v = 0.5\<close>.\<close>

definition K_v :: su2double where
  "K_v = Fin 0.5"

definition Local_Delta_Time_of :: "CConfig \<Rightarrow> nat \<Rightarrow> su2double \<Rightarrow> CVariable \<Rightarrow> nat \<Rightarrow> su2double" where
  "Local_Delta_Time_of config iMesh Vol nds iPoint =
    (let Local_Delta_Time = div_d (mul_d (CFL config iMesh) Vol) (Max_Lambda_Inv nds iPoint)
     in if Viscous config then
          (let Local_Delta_Time_Visc =
                 div_d (mul_d (mul_d (mul_d (CFL config iMesh) K_v) Vol) Vol) (Max_Lambda_Visc nds iPoint)
           in min_d Local_Delta_Time Local_Delta_Time_Visc)
        else Local_Delta_Time)"

text \<open>The state of the loop of lines 578-601: the local variable \<^verbatim>\<open>Global_Delta_Time\<close>, the
  members \<^verbatim>\<open>Min_Delta_Time\<close> and \<^verbatim>\<open>Max_Delta_Time\<close>, and the point data.\<close>

record Step_state =
  Global_Delta_Time :: su2double
  Min_DT :: su2double
  Max_DT :: su2double
  step_nodes :: CVariable

definition SetDelta_Time :: "nat \<Rightarrow> su2double \<Rightarrow> CVariable \<Rightarrow> CVariable" where
  "SetDelta_Time iPoint val nds = nds\<lparr>Delta_Time := (Delta_Time nds)(iPoint := val)\<rparr>"

definition SetTime_Step_point :: "CGeometry \<Rightarrow> CConfig \<Rightarrow> nat \<Rightarrow> nat \<Rightarrow> Step_state \<Rightarrow> Step_state" where
  "SetTime_Step_point geometry config iMesh iPoint st =
    (let Vol = nodes_Volume geometry iPoint
     in if ne_d Vol (Fin 0) then
          (let Local_Delta_Time = Local_Delta_Time_of config iMesh Vol (step_nodes st) iPoint;
               capped = (if gt_d Local_Delta_Time (Max_DeltaTime config)
                         then Max_DeltaTime config else Local_Delta_Time)
           in \<lparr>Global_Delta_Time = min_d (Global_Delta_Time st) Local_Delta_Time,
               Min_DT = min_d (Min_DT st) Local_Delta_Time,
               Max_DT = max_d (Max_DT st) Local_Delta_Time,
               step_nodes = SetDelta_Time iPoint capped (step_nodes st)\<rparr>)
        else st\<lparr>step_nodes := SetDelta_Time iPoint (Fin 0) (step_nodes st)\<rparr>)"

definition SetTime_Step_local :: "CGeometry \<Rightarrow> CConfig \<Rightarrow> nat \<Rightarrow> nat \<Rightarrow> CVariable \<Rightarrow> Step_state" where
  "SetTime_Step_local geometry config iMesh npd nds =
     fold (SetTime_Step_point geometry config iMesh) [0 ..< npd]
       \<lparr>Global_Delta_Time = Fin 1000000, Min_DT = Fin 1000000, Max_DT = Fin 0, step_nodes = nds\<rparr>"

text \<open>Lines 620-641: in the time-stepping mode every owned point gets the same step; the
  loop also overwrites the CFL number of the mesh level by the unsteady one.\<close>

definition SetTime_Step_global_point ::
  "nat \<Rightarrow> su2double \<Rightarrow> nat \<Rightarrow> CConfig \<times> CVariable \<Rightarrow> CConfig \<times> CVariable" where
  "SetTime_Step_global_point iMesh Global iPoint cn =
    (case cn of (config, nds) \<Rightarrow>
     let config1 = config\<lparr>CFL := (CFL config)(iMesh := Unst_CFL config)\<rparr>
     in if eq_d (CFL config1 iMesh) (Fin 0)
        then (config1, SetDelta_Time iPoint (Delta_UnstTime config1) nds)
        else (config1, SetDelta_Time iPoint Global nds))"

definition SetTime_Step_global ::
  "nat \<Rightarrow> su2double \<Rightarrow> nat \<Rightarrow> CConfig \<times> CVariable \<Rightarrow> CConfig \<times> CVariable" where
  "SetTime_Step_global iMesh Global npd cn =
     fold (SetTime_Step_global_point iMesh Global) [0 ..< npd] cn"

text \<open>Lines 645-665: the dual-time strategy.\<close>

definition SetTime_Step_dual_point :: "bool \<Rightarrow> CConfig \<Rightarrow> nat \<Rightarrow> CVariable \<Rightarrow> CVariable" where
  "SetTime_Step_dual_point implicit config iPoint nds =
     (if \<not> implicit
      then SetDelta_Time iPoint
             (min_d (mul_d (Fin (2 / 3)) (Delta_UnstTimeND config)) (Delta_Time nds iPoint)) nds
      else nds)"

definition SetTime_Step_dual ::
  "bool \<Rightarrow> nat \<Rightarrow> nat \<Rightarrow> su2double \<Rightarrow> nat \<Rightarrow> CConfig \<times> CVariable \<Rightarrow> CConfig \<times> CVariable" where
  "SetTime_Step_dual implicit iMesh Iteration Global npd cn =
    (case cn of (config, nds) \<Rightarrow>
     let dual_time = (Time_Marching config = DT_STEPPING_1ST \<or> Time_Marching config = DT_STEPPING_2ND);
         config1 =
           (if dual_time \<and> Iteration = 0 \<and> ne_d (Unst_CFL config) (Fin 0) \<and> iMesh = MESH_0
            then config\<lparr>Delta_UnstTimeND :=
                   div_d (mul_d (Unst_CFL config) Global) (CFL config iMesh)\<rparr>
            else config)
     in if dual_time
        then (config1, fold (SetTime_Step_dual_point implicit config1) [0 ..< npd] nds)
        else (config1, nds))"

text \<open>The routine: it returns the solver and the configuration, both updated.\<close>

definition SetTime_Step :: "CGeometry \<Rightarrow> CConfig \<Rightarrow> nat \<Rightarrow> nat \<Rightarrow> CSolver \<Rightarrow> CSolver \<times> CConfig" where
  "SetTime_Step geometry config iMesh Iteration solver =
    (let implicit = (Kind_TimeIntScheme_Flow config = EULER_IMPLICIT);
         time_steping = (Time_Marching config = TIME_STEPPING);
         npd = nPointDomain solver;
         nds_lambda = SetTime_Step_Lambda geometry config solver;
         st = SetTime_Step_local geometry config iMesh npd nds_lambda;
         cn1 = (if time_steping
                then SetTime_Step_global iMesh (Global_Delta_Time st) npd (config, step_nodes st)
                else (config, step_nodes st));
         cn2 = SetTime_Step_dual implicit iMesh Iteration (Global_Delta_Time st) npd cn1
     in (solver\<lparr>nodes := snd cn2, Min_Delta_Time := Min_DT st, Max_Delta_Time := Max_DT st\<rparr>,
         fst cn2))"

section \<open>Implicit Euler iteration\<close>

text \<open>
  Modelled from the spec: \<^verbatim>\<open>CSysMatrix::AddVal2Diag\<close> and \<^verbatim>\<open>CSysMatrix::SetVal2Diag\<close>
  are not among the sources.  The spec has the "diagonal Jacobian boosted by
  \<^verbatim>\<open>Volume/\<Delta>t\<close> (or the row forced to identity with zero right-hand-side if
  \<^verbatim>\<open>\<Delta>t == 0\<close>)": \<open>AddVal2Diag\<close> adds the value to the \<^verbatim>\<open>nVar\<close> diagonal entries of
  the diagonal block of the point, and \<open>SetVal2Diag\<close> makes the block row of the point the
  value times the rows of the identity matrix: the value on the diagonal of the diagonal
  block, zero everywhere else in the row.
\<close>

definition AddVal2Diag :: "nat \<Rightarrow> nat \<Rightarrow> su2double \<Rightarrow> (nat \<Rightarrow> nat \<Rightarrow> mat) \<Rightarrow> (nat \<Rightarrow> nat \<Rightarrow> mat)" where
  "AddVal2Diag n block_i val_matrix J =
     J(block_i := (J block_i)(block_i := (\<lambda>iVar jVar.
        if iVar < n \<and> jVar = iVar then add_d (J block_i block_i iVar jVar) val_matrix
        else J block_i block_i iVar jVar)))"

definition SetVal2Diag :: "nat \<Rightarrow> nat \<Rightarrow> su2double \<Rightarrow> (nat \<Rightarrow> nat \<Rightarrow> mat) \<Rightarrow> (nat \<Rightarrow> nat \<Rightarrow> mat)" where
  "SetVal2Diag n block_i val_matrix J =
     J(block_i := (\<lambda>block_j iVar jVar.
        if iVar < n \<and> jVar < n
        then (if block_j = block_i \<and> jVar = iVar then val_matrix else Fin 0)
        else J block_i block_j iVar jVar))"

text \<open>
  Modelled from the spec: the residual monitors \<^verbatim>\<open>SetRes_RMS\<close>, \<^verbatim>\<open>SetRes_Max\<close>,
  \<^verbatim>\<open>AddRes_RMS\<close> and \<^verbatim>\<open>AddRes_Max\<close> of \<^verbatim>\<open>CSolver\<close> are not among the sources.  The spec
  has the solver accumulate "RMS and max residual norms per variable" where the
  "max-residual tracks offending point's global index and coordinates".
\<close>

definition SetRes_RMS :: "nat \<Rightarrow> su2double \<Rightarrow> CSolver \<Rightarrow> CSolver" where
  "SetRes_RMS val_var val_residual solver =
     solver\<lparr>Residual_RMS := (Residual_RMS solver)(val_var := val_residual)\<rparr>"

definition SetRes_Max :: "nat \<Rightarrow> su2double \<Rightarrow> nat \<Rightarrow> CSolver \<Rightarrow> CSolver" where
  "SetRes_Max val_var val_residual val_point solver =
     solver\<lparr>Residual_Max := (Residual_Max solver)(val_var := val_residual),
            Point_Max := (Point_Max solver)(val_var := val_point)\<rparr>"

definition AddRes_RMS :: "nat \<Rightarrow> su2double \<Rightarrow> CSolver \<Rightarrow> CSolver" where
  "AddRes_RMS val_var val_residual solver =
     solver\<lparr>Residual_RMS :=
       (Residual_RMS solver)(val_var := add_d (Residual_RMS solver val_var) val_residual)\<rparr>"

definition AddRes_Max :: "nat \<Rightarrow> su2double \<Rightarrow> nat \<Rightarrow> vec \<Rightarrow> CSolver \<Rightarrow> CSolver" where
  "AddRes_Max val_var val_residual val_point val_coord solver =
     (if gt_d val_residual (Residual_Max solver val_var)
      then solver\<lparr>Residual_Max := (Residual_Max solver)(val_var := val_residual),
                  Point_Max := (Point_Max solver)(val_var := val_point),
                  Point_Max_Coord := (Point_Max_Coord solver)(val_var := val_coord)\<rparr>
      else solver)"

text \<open>Lines 1198-1201.\<close>

definition ImplicitEuler_reset :: "CSolver \<Rightarrow> CSolver" where
  "ImplicitEuler_reset solver =
     fold (\<lambda>iVar s. SetRes_Max iVar (Fin 0) 0 (SetRes_RMS iVar (Fin 0) s)) [0 ..< nVar solver] solver"

text \<open>Lines 1213-1224: the diagonal of the point.  \<^verbatim>\<open>local_Res_TruncError\<close> points into
  the point data, so setting it to zero changes \<^verbatim>\<open>ResTruncError\<close> of the point.\<close>

definition ImplicitEuler_diag :: "CGeometry \<Rightarrow> nat \<Rightarrow> CSolver \<Rightarrow> CSolver" where
  "ImplicitEuler_diag geometry iPoint solver =
    (let n = nVar solver;
         Vol = nodes_Volume geometry iPoint
     in if ne_d (Delta_Time (nodes solver) iPoint) (Fin 0) then
          (let Delta = div_d Vol (Delta_Time (nodes solver) iPoint)
           in solver\<lparr>Jacobian := AddVal2Diag n iPoint Delta (Jacobian solver)\<rparr>)
        else
          solver\<lparr>
            Jacobian := SetVal2Diag n iPoint (Fin 1) (Jacobian solver),
            LinSysRes := (LinSysRes solver)(iPoint :=
               (\<lambda>iVar. if iVar < n then Fin 0 else LinSysRes solver iPoint iVar)),
            nodes := (nodes solver)\<lparr>ResTruncError := (ResTruncError (nodes solver))(iPoint :=
               (\<lambda>iVar. if iVar < n then Fin 0 else ResTruncError (nodes solver) iPoint iVar))\<rparr>\<rparr>)"

text \<open>Lines 1227-1233: the right-hand side and the initial guess of one variable.\<close>

definition ImplicitEuler_rhs :: "CGeometry \<Rightarrow> nat \<Rightarrow> nat \<Rightarrow> CSolver \<Rightarrow> CSolver" where
  "ImplicitEuler_rhs geometry iPoint iVar solver =
    (let rhs = neg_d (add_d (LinSysRes solver iPoint iVar) (ResTruncError (nodes solver) iPoint iVar));
         solver1 = solver\<lparr>
           LinSysRes := (LinSysRes solver)(iPoint := (LinSysRes solver iPoint)(iVar := rhs)),
           LinSysSol := (LinSysSol solver)(iPoint := (LinSysSol solver iPoint)(iVar := Fin 0))\<rparr>
     in AddRes_Max iVar (fabs_d rhs) (nodes_GlobalIndex geometry iPoint) (nodes_Coord geometry iPoint)
          (AddRes_RMS iVar (mul_d rhs rhs) solver1))"

text \<open>The body of the loop that builds the implicit system (lines 1204-1234).\<close>

definition ImplicitEuler_point :: "CGeometry \<Rightarrow> nat \<Rightarrow> CSolver \<Rightarrow> CSolver" where
  "ImplicitEuler_point geometry iPoint solver =
     fold (ImplicitEuler_rhs geometry iPoint) [0 ..< nVar solver]
       (ImplicitEuler_diag geometry iPoint solver)"

text \<open>Lines 1237-1243: residual and solution of the ghost points.\<close>

definition ImplicitEuler_ghost :: "nat \<Rightarrow> CSolver \<Rightarrow> CSolver" where
  "ImplicitEuler_ghost iPoint solver =
     fold (\<lambda>iVar s. s\<lparr>
        LinSysRes := (LinSysRes s)(iPoint := (LinSysRes s iPoint)(iVar := Fin 0)),
        LinSysSol := (LinSysSol s)(iPoint := (LinSysSol s iPoint)(iVar := Fin 0))\<rparr>)
       [0 ..< nVar solver] solver"

text \<open>The linear system handed to the solver (lines 1198-1243).\<close>

definition ImplicitEuler_build :: "CGeometry \<Rightarrow> CSolver \<Rightarrow> CSolver" where
  "ImplicitEuler_build geometry solver =
     fold ImplicitEuler_ghost [nPointDomain solver ..< nPoint solver]
       (fold (ImplicitEuler_point geometry) [0 ..< nPointDomain solver]
         (ImplicitEuler_reset solver))"

text \<open>
  The linear solver \<^verbatim>\<open>System.Solve(Jacobian, LinSysRes, LinSysSol, geometry, config)\<close> is
  an external collaborator: a parameter returning the number of iterations and the solution
  it leaves in \<^verbatim>\<open>LinSysSol\<close>.  \<^verbatim>\<open>AddSolution\<close> of the point data adds to one entry of
  \<^verbatim>\<open>Solution\<close>.  The model is the one-process build, where the exchange of the solution
  between processes has nothing to do; the final \<^verbatim>\<open>SetResidual_RMS\<close> of \<^verbatim>\<open>CSolver\<close> is not
  among the sources and is a parameter too.
\<close>

type_synonym linear_solver = "(nat \<Rightarrow> nat \<Rightarrow> mat) \<Rightarrow> (nat \<Rightarrow> vec) \<Rightarrow> (nat \<Rightarrow> vec) \<Rightarrow> nat \<times> (nat \<Rightarrow> vec)"

definition AddSolution :: "nat \<Rightarrow> nat \<Rightarrow> su2double \<Rightarrow> CVariable \<Rightarrow> CVariable" where
  "AddSolution iPoint iVar val nds =
     nds\<lparr>Solution := (Solution nds)(iPoint :=
            (Solution nds iPoint)(iVar := add_d (Solution nds iPoint iVar) val))\<rparr>"

text \<open>Lines 1252-1256.\<close>

definition ImplicitEuler_update :: "CSolver \<Rightarrow> CSolver" where
  "ImplicitEuler_update solver =
     fold (\<lambda>iPoint. fold (\<lambda>iVar s.
        s\<lparr>nodes := AddSolution iPoint iVar
              (mul_d (UnderRelaxation (nodes s) iPoint) (LinSysSol s iPoint iVar)) (nodes s)\<rparr>)
        [0 ..< nVar solver]) [0 ..< nPointDomain solver] solver"

definition ImplicitEuler_Iteration ::
  "linear_solver \<Rightarrow> (CSolver \<Rightarrow> CSolver) \<Rightarrow> CGeometry \<Rightarrow> CSolver \<Rightarrow> CSolver" where
  "ImplicitEuler_Iteration Solve SetResidual_RMS geometry solver =
    (let built = ImplicitEuler_build geometry solver;
         solved = (case Solve (Jacobian built) (LinSysRes built) (LinSysSol built) of
                     (IterLinSol, sol) \<Rightarrow> built\<lparr>LinSysSol := sol, IterLinSolver := IterLinSol\<rparr>)
     in SetResidual_RMS (ImplicitEuler_update solved))"

text \<open>One row of the product of the Jacobian with a vector: the left-hand side of the
  equation of variable \<open>iVar\<close> of point \<open>iPoint\<close> in the linear system.\<close>

definition row_times :: "nat \<Rightarrow> nat \<Rightarrow> (nat \<Rightarrow> nat \<Rightarrow> mat) \<Rightarrow> (nat \<Rightarrow> vec) \<Rightarrow> nat \<Rightarrow> nat \<Rightarrow> su2double" where
  "row_times np n J x iPoint iVar =
     fold (\<lambda>jPoint. fold (\<lambda>jVar acc. add_d acc (mul_d (J iPoint jPoint iVar jVar) (x jPoint jVar)))
        [0 ..< n]) [0 ..< np] (Fin 0)"

section \<open>Fatal errors\<close>

text \<open>
  \<^verbatim>\<open>SU2_MPI::Error(ErrorMsg, FunctionName)\<close> prints the message and the name of the function
  and ends the process with \<^verbatim>\<open>Abort\<close>: it never returns.  A routine that can end this way
  returns a sum: \<open>Inl\<close> with the error and the state reached when the process ended, or
  \<open>Inr\<close> with its result.  The second kind of failure stands for a call through the
  pointer \<^verbatim>\<open>FluidModel\<close> while nothing has been assigned to it.
\<close>

datatype SU2_error = SU2_error (ErrorMsg: string) (FunctionName: string) | Unassigned_FluidModel

definition Error :: "string \<Rightarrow> string \<Rightarrow> 's \<Rightarrow> (SU2_error \<times> 's) + 'r" where
  "Error msg fn st = Inl (SU2_error msg fn, st)"

text \<open>
  Modelled from the spec: the macro \<^verbatim>\<open>CURRENT_FUNCTION\<close> is not among the sources.  The spec
  has an error carry "the function name where raised": the macro is the name of the
  enclosing function.
\<close>

section \<open>Inlet boundary conditions\<close>

text \<open>
  \<^verbatim>\<open>BC_Inlet\<close> and \<^verbatim>\<open>BC_Supersonic_Inlet\<close> start with a call of \<^verbatim>\<open>SU2_MPI::Error\<close>.  The
  statements that follow it in \<^verbatim>\<open>BC_Inlet\<close> (the loop over the vertices of the marker) are
  never reached; in \<^verbatim>\<open>BC_Supersonic_Inlet\<close> they are commented out.
\<close>

definition BC_Inlet ::
  "CGeometry \<Rightarrow> CConfig \<Rightarrow> nat \<Rightarrow> CSolver \<times> CNumerics \<Rightarrow>
   (SU2_error \<times> (CSolver \<times> CNumerics)) + (CSolver \<times> CNumerics)" where
  "BC_Inlet geometry config val_marker sn =
     Error ''BC_INLET: Not operational in NEMO.'' ''CNEMOEulerSolver::BC_Inlet'' sn"

definition BC_Supersonic_Inlet ::
  "CGeometry \<Rightarrow> CConfig \<Rightarrow> nat \<Rightarrow> CSolver \<times> CNumerics \<Rightarrow>
   (SU2_error \<times> (CSolver \<times> CNumerics)) + (CSolver \<times> CNumerics)" where
  "BC_Supersonic_Inlet geometry config val_marker sn =
     Error ''BC_SUPERSONIC_INLET: Not operational in NEMO.''
       ''CNEMOEulerSolver::BC_Supersonic_Inlet'' sn"

section \<open>Non-dimensionalization\<close>

text \<open>\<^verbatim>\<open>cos\<close>, \<^verbatim>\<open>sin\<close> and the constant \<^verbatim>\<open>PI_NUMBER\<close>.\<close>

fun cos_d :: "su2double \<Rightarrow> su2double" where
  "cos_d (Fin a) = Fin (cos a)"
| "cos_d _ = NaN"

fun sin_d :: "su2double \<Rightarrow> su2double" where
  "sin_d (Fin a) = Fin (sin a)"
| "sin_d _ = NaN"

definition PI_NUMBER :: su2double where
  "PI_NUMBER = Fin pi"

text \<open>The further entries of \<^verbatim>\<open>CConfig\<close> that \<^verbatim>\<open>SetNondimensionalization\<close> reads or
  writes before the reference values are chosen.\<close>

record CConfig_FreeStream = CConfig +
  AoA :: su2double
  AoS :: su2double
  Mach :: su2double
  Reynolds :: su2double
  Kind_InitOption :: ENUM_INIT_OPTION
  Kind_FluidModel :: ENUM_FLUIDMODEL
  Pressure_FreeStream :: su2double
  Temperature_FreeStream :: su2double
  Temperature_ve_FreeStream :: su2double
  Velocity_FreeStream :: vec
  ModVel_FreeStream :: su2double
  Gas_Constant :: su2double
  Mu_Ref :: su2double
  Mu_RefND :: su2double
  Mu_Temperature_Ref :: su2double
  Mu_Temperature_RefND :: su2double
  Mu_S :: su2double
  Mu_SND :: su2double
  Mu_Constant :: su2double
  Mu_ConstantND :: su2double
  Mach_Motion :: su2double
  Length_Reynolds :: su2double
  Viscosity_FreeStream :: su2double
  Density_FreeStream :: su2double
  Energy_FreeStream :: su2double

text \<open>
  The thermochemistry library behind the pointer \<^verbatim>\<open>FluidModel\<close> is an external
  collaborator: its constructor and the methods the routine calls are parameters, over a
  type \<open>'f\<close> of library states.
\<close>

record 'f CNEMOGas =
  new_CUserDefinedTCLib :: "CConfig_FreeStream \<Rightarrow> nat \<Rightarrow> bool \<Rightarrow> 'f"
  SetTDStatePTTv :: "su2double \<Rightarrow> vec \<Rightarrow> su2double \<Rightarrow> su2double \<Rightarrow> 'f \<Rightarrow> 'f"
  ComputeGasConstant :: "'f \<Rightarrow> su2double"
  GetDensity :: "'f \<Rightarrow> su2double"
  ComputeSoundSpeed :: "'f \<Rightarrow> su2double"
  GetMixtureEnergies :: "'f \<Rightarrow> vec"
  GetViscosity :: "'f \<Rightarrow> su2double"

text \<open>Lines 1304-1312: only \<^verbatim>\<open>USER_DEFINED_NONEQ\<close> assigns the pointer; \<open>None\<close> is a
  pointer nothing has been assigned to.\<close>

definition Instantiate_FluidModel ::
  "'f CNEMOGas \<Rightarrow> CConfig_FreeStream \<Rightarrow> nat \<Rightarrow> 'f option \<Rightarrow> 'f option" where
  "Instantiate_FluidModel lib config nd FluidModel =
     (case Kind_FluidModel config of
        MUTATIONPP \<Rightarrow> FluidModel
      | USER_DEFINED_NONEQ \<Rightarrow> Some (new_CUserDefinedTCLib lib config nd (Viscous config))
      | OTHER_FLUIDMODEL \<Rightarrow> FluidModel)"

text \<open>Lines 1336-1352: the free-stream velocity from the Mach number, and the sum of the
  squares of its components.\<close>

definition FreeStream_Velocity :: "nat \<Rightarrow> su2double \<Rightarrow> su2double \<Rightarrow> su2double \<Rightarrow> su2double \<Rightarrow> vec \<Rightarrow> vec" where
  "FreeStream_Velocity nd Alpha Beta Mach' soundspeed vel0 =
    (let vel2 = (if nd = 2
                 then vel0(0 := mul_d (mul_d (cos_d Alpha) Mach') soundspeed,
                           1 := mul_d (mul_d (sin_d Alpha) Mach') soundspeed)
                 else vel0)
     in if nd = 3
        then vel2(0 := mul_d (mul_d (mul_d (cos_d Alpha) (cos_d Beta)) Mach') soundspeed,
                  1 := mul_d (mul_d (sin_d Beta) Mach') soundspeed,
                  2 := mul_d (mul_d (mul_d (sin_d Alpha) (cos_d Beta)) Mach') soundspeed)
        else vel2)"

definition sum_squares :: "nat \<Rightarrow> vec \<Rightarrow> su2double" where
  "sum_squares nd v = fold (\<lambda>iDim acc. add_d acc (mul_d (v iDim) (v iDim))) [0 ..< nd] (Fin 0)"

text \<open>
  \<^verbatim>\<open>SetNondimensionalization\<close> from its start to the free-stream energy (lines 1290-1406),
  the part in which the routine can fail.  The statements after it (reference values,
  non-dimensional free-stream values and the console report) have no failing branch and are
  not part of the model.  The routine returns the configuration and the fluid model.
\<close>

definition SetNondimensionalization ::
  "'f CNEMOGas \<Rightarrow> vec \<Rightarrow> nat \<Rightarrow> CConfig_FreeStream \<times> 'f option \<Rightarrow>
   (SU2_error \<times> (CConfig_FreeStream \<times> 'f option)) + (CConfig_FreeStream \<times> 'f option)" where
  "SetNondimensionalization lib MassFrac_Inf nd cf =
    (case cf of (config, FluidModel0) \<Rightarrow>
     let Alpha = div_d (mul_d (AoA config) PI_NUMBER) (Fin 180);
         Beta = div_d (mul_d (AoS config) PI_NUMBER) (Fin 180);
         Mach' = Mach config;
         viscous = Viscous config;
         dynamic_grid = Grid_Movement config;
         reynolds_init = (Kind_InitOption config = REYNOLDS);
         Mach2Vel_FreeStream = Fin 0;
         FluidModel1 = Instantiate_FluidModel lib config nd FluidModel0;
         Pressure_FreeStream' = Pressure_FreeStream config;
         Temperature_FreeStream' = Temperature_FreeStream config;
         Temperature_ve_FreeStream' = Temperature_ve_FreeStream config
     in (case FluidModel1 of
          None \<Rightarrow> Inl (Unassigned_FluidModel, (config, FluidModel1))
        | Some fm0 \<Rightarrow>
         (let fm = SetTDStatePTTv lib Pressure_FreeStream' MassFrac_Inf Temperature_FreeStream'
                     Temperature_ve_FreeStream' fm0;
              GasConstant_Inf = ComputeGasConstant lib fm;
              config1 = config\<lparr>Gas_Constant := GasConstant_Inf\<rparr>;
              Density_FreeStream' = GetDensity lib fm;
              soundspeed = ComputeSoundSpeed lib fm;
              config2 = config1\<lparr>Velocity_FreeStream :=
                          FreeStream_Velocity nd Alpha Beta Mach' soundspeed
                            (Velocity_FreeStream config1)\<rparr>;
              sqvel = sum_squares nd (Velocity_FreeStream config2);
              ModVel_FreeStream' = sqrt_d sqvel;
              config3 = config2\<lparr>ModVel_FreeStream := ModVel_FreeStream'\<rparr>;
              energies = GetMixtureEnergies lib fm
          in if viscous then
               (let config4 = config3\<lparr>Mu_RefND := Mu_Ref config3,
                                       Mu_Temperature_RefND := Mu_Temperature_Ref config3,
                                       Mu_SND := Mu_S config3,
                                       Mu_ConstantND := Mu_Constant config3\<rparr>;
                    Velocity_Reynolds =
                      (if dynamic_grid then mul_d (Mach_Motion config4) Mach2Vel_FreeStream
                       else ModVel_FreeStream')
                in if \<not> reynolds_init then
                     (let Viscosity_FreeStream' = GetViscosity lib fm;
                          Energy_FreeStream' = add_d (energies 0) (mul_d (Fin 0.5) sqvel);
                          config5 = config4\<lparr>Viscosity_FreeStream := Viscosity_FreeStream'\<rparr>;
                          Reynolds' = div_d (mul_d (mul_d Density_FreeStream' Velocity_Reynolds)
                                               (Length_Reynolds config5)) Viscosity_FreeStream';
                          config6 = config5\<lparr>Reynolds := Reynolds'\<rparr>;
                          config7 = config6\<lparr>Density_FreeStream := Density_FreeStream'\<rparr>
                      in Inr (config7\<lparr>Energy_FreeStream := Energy_FreeStream'\<rparr>, Some fm))
                   else
                     Error (''Only thermodynamics quantities based initialization: '' @
                            ''set pressure, temperatures and flag INIT_OPTION= TD_CONDITIONS.'')
                       ''CNEMOEulerSolver::SetNondimensionalization'' (config4, Some fm))
             else
               (let Energy_FreeStream' = add_d (energies 0) (mul_d (Fin 0.5) sqvel);
                    config7 = config3\<lparr>Density_FreeStream := Density_FreeStream'\<rparr>
                in Inr (config7\<lparr>Energy_FreeStream := Energy_FreeStream'\<rparr>, Some fm)))))"

section \<open>A three-point mesh with two edges\<close>

text \<open>Concrete data on which the theorems below are instantiated: three owned points in a
  row, edge 0 from point 0 to point 1 and edge 1 from point 1 to point 2, one conserved
  variable, one space dimension, one boundary vertex at point 1.\<close>

definition geo_ex :: CGeometry where
  "geo_ex = \<lparr>nMarker = 1, nEdge = 2,
     edges_Node = (\<lambda>iEdge k. if iEdge = 0 then (if k = 0 then 0 else 1) else (if k = 0 then 1 else 2)),
     edges_Normal = (\<lambda>iEdge iDim. Fin 1),
     nodes_nNeighbor = (\<lambda>iPoint. 1),
     nodes_Volume = (\<lambda>iPoint. Fin 1),
     nodes_Coord = (\<lambda>iPoint iDim. if iPoint = 0 then Fin 0 else if iPoint = 1 then Fin 1 else Fin 2),
     nodes_Domain = (\<lambda>iPoint. True),
     nodes_GridVel = (\<lambda>iPoint iDim. Fin 0),
     nodes_GlobalIndex = (\<lambda>iPoint. iPoint),
     nVertex = (\<lambda>iMarker. 1),
     vertex_Node = (\<lambda>iMarker iVertex. 1),
     vertex_Normal = (\<lambda>iMarker iVertex iDim. Fin 1)\<rparr>"

definition nodes_ex :: CVariable where
  "nodes_ex = \<lparr>Solution = (\<lambda>iPoint iVar. if iPoint = 0 then Fin 1 else if iPoint = 1 then Fin 2 else Fin 4),
     Primitive = (\<lambda>iPoint iVar. if iPoint = 0 then Fin 3 else Fin 4),
     dPdU = (\<lambda>iPoint iVar. Fin 5),
     dTdU = (\<lambda>iPoint iVar. Fin 6),
     dTvedU = (\<lambda>iPoint iVar. Fin 7),
     Eve = (\<lambda>iPoint iSpecies. Fin 8),
     Cvve = (\<lambda>iPoint iSpecies. Fin 9),
     Lambda = (\<lambda>iPoint. Fin 1),
     Max_Lambda_Inv = (\<lambda>iPoint. if iPoint = 0 then Fin 2 else Fin 4),
     Max_Lambda_Visc = (\<lambda>iPoint. Fin 1),
     Delta_Time = (\<lambda>iPoint. if iPoint = 0 then Fin 0 else Fin 2),
     ResTruncError = (\<lambda>iPoint iVar. Fin 1),
     Gradient_Reconstruction = (\<lambda>iPoint iVar iDim. Fin (1/2)),
     Limiter = (\<lambda>iPoint iVar. Fin 1),
     SoundSpeed = (\<lambda>iPoint. Fin 1),
     ProjVel = (\<lambda>iPoint Normal'. Fin 1),
     LaminarViscosity = (\<lambda>iPoint. Fin 3),
     ThermalConductivity = (\<lambda>iPoint. Fin 1),
     ThermalConductivity_ve = (\<lambda>iPoint. Fin 1),
     Density = (\<lambda>iPoint. Fin 1),
     RhoCv_tr = (\<lambda>iPoint. Fin 1),
     RhoCv_ve = (\<lambda>iPoint. Fin 1),
     UnderRelaxation = (\<lambda>iPoint. Fin 1)\<rparr>"

definition solver_ex :: CSolver where
  "solver_ex = \<lparr>nVar = 1, nDim = 1, nPoint = 3, nPointDomain = 3,
     nodes = nodes_ex,
     LinSysRes = (\<lambda>iPoint iVar. Fin 10),
     LinSysSol = (\<lambda>iPoint iVar. Fin 0),
     Jacobian = (\<lambda>block_i block_j iVar jVar. Fin 0),
     Residual = (\<lambda>iVar. Fin 0),
     Res_Conv = (\<lambda>iVar. Fin 0),
     Res_Visc = (\<lambda>iVar. Fin 0),
     Jacobian_i = (\<lambda>iVar jVar. Fin 5),
     Jacobian_j = (\<lambda>iVar jVar. Fin 0),
     Min_Delta_Time = Fin 0,
     Max_Delta_Time = Fin 0,
     Residual_RMS = (\<lambda>iVar. Fin 0),
     Residual_Max = (\<lambda>iVar. Fin 0),
     Point_Max = (\<lambda>iVar. 0),
     Point_Max_Coord = (\<lambda>iVar iDim. Fin 0),
     IterLinSolver = 0\<rparr>"

definition numerics_ex :: CNumerics where
  "numerics_ex = \<lparr>Normal = (\<lambda>iDim. Fin 0), Neighbor_i = 0, Neighbor_j = 0,
     U_i = (\<lambda>iVar. Fin 0), U_j = (\<lambda>iVar. Fin 0),
     V_i = (\<lambda>iVar. Fin 0), V_j = (\<lambda>iVar. Fin 0),
     dPdU_i = (\<lambda>iVar. Fin 0), dPdU_j = (\<lambda>iVar. Fin 0),
     dTdU_i = (\<lambda>iVar. Fin 0), dTdU_j = (\<lambda>iVar. Fin 0),
     dTvedU_i = (\<lambda>iVar. Fin 0), dTvedU_j = (\<lambda>iVar. Fin 0),
     Eve_i = (\<lambda>iVar. Fin 0), Eve_j = (\<lambda>iVar. Fin 0),
     Cvve_i = (\<lambda>iVar. Fin 0), Cvve_j = (\<lambda>iVar. Fin 0),
     Lambda_i = Fin 0, Lambda_j = Fin 0,
     GridVel_i = (\<lambda>iDim. Fin 0), GridVel_j = (\<lambda>iDim. Fin 0),
     Volume = Fin 0,
     Coord_i = (\<lambda>iDim. Fin 0), Coord_j = (\<lambda>iDim. Fin 0)\<rparr>"

definition config_ex :: CConfig where
  "config_ex = \<lparr>Kind_TimeIntScheme_Flow = EULER_IMPLICIT,
     MUSCL_Flow = True,
     Kind_SlopeLimit_Flow = VENKATAKRISHNAN,
     InnerIter = 0, LimiterIter = 10,
     Discrete_Adjoint = False, Frozen_Limiter_Disc = False,
     Viscous = True, Grid_Movement = False,
     Time_Marching = NO,
     CFL = (\<lambda>iMesh. Fin 1),
     Unst_CFL = Fin 1, Delta_UnstTime = Fin 1, Delta_UnstTimeND = Fin 1,
     Max_DeltaTime = Fin (1/4),
     Axisymmetric = True, Frozen = False, Monoatomic = False,
     Marker_All_KindBC = (\<lambda>iMarker. OTHER_BOUNDARY)\<rparr>"

text \<open>A centered flux functor returning the flux 2 and the dissipation 1 for every edge,
  and one that differs from it by a NaN flux on the edges leaving point 0 (whose conserved
  value is 1); an upwind functor returning the difference of the two conserved states it is
  given, and one that differs from it by a NaN residual on the edges leaving point 0.\<close>

definition CR_ex :: centered_functor where
  "CR_ex numerics config = ((\<lambda>iVar. Fin 2), (\<lambda>iVar. Fin 1), (\<lambda>iVar jVar. Fin 3), (\<lambda>iVar jVar. Fin 4))"

definition CR_nan :: centered_functor where
  "CR_nan numerics config =
     ((\<lambda>iVar. if U_i numerics 0 = Fin 1 then NaN else Fin 2), (\<lambda>iVar. Fin 1),
      (\<lambda>iVar jVar. Fin 3), (\<lambda>iVar jVar. Fin 4))"

definition UR_ex :: upwind_functor where
  "UR_ex numerics config = (\<lambda>iVar. sub_d (U_j numerics iVar) (U_i numerics iVar))"

definition UR_nan :: upwind_functor where
  "UR_nan numerics config =
     (\<lambda>iVar. if V_i numerics 0 = Fin 3 then NaN else sub_d (U_j numerics iVar) (U_i numerics iVar))"

text \<open>A centered flux functor whose convective flux is infinite, and the mesh reduced to its
  first edge, from point 0 to point 1.\<close>

definition CR_inf :: centered_functor where
  "CR_inf numerics config = ((\<lambda>iVar. PInf), (\<lambda>iVar. Fin 1), (\<lambda>iVar jVar. Fin 3), (\<lambda>iVar jVar. Fin 4))"

definition geo_one :: CGeometry where
  "geo_one = geo_ex\<lparr>nEdge := 1\<rparr>"







text \<open>A conversion that accepts every state, and one that flags every state non-physical.\<close>

definition C2P_ok :: cons2prim where
  "C2P_ok U = (False, (\<lambda>iVar. Fin 20), (\<lambda>iVar. Fin 21), (\<lambda>iVar. Fin 22), (\<lambda>iVar. Fin 23),
               (\<lambda>iVar. Fin 24), (\<lambda>iVar. Fin 25))"

definition C2P_bad :: cons2prim where
  "C2P_bad U = (True, (\<lambda>iVar. Fin 20), (\<lambda>iVar. Fin 21), (\<lambda>iVar. Fin 22), (\<lambda>iVar. Fin 23),
               (\<lambda>iVar. Fin 24), (\<lambda>iVar. Fin 25))"

text \<open>Source functors: an axisymmetric source 2 and a relaxation source 3.\<close>

definition CA_ex :: source_functor where
  "CA_ex numerics config = (\<lambda>iVar. Fin 2)"

definition CV_ex :: source_functor where
  "CV_ex numerics config = (\<lambda>iVar. Fin 3)"

text \<open>A chemistry source 1, and a centered flux functor whose first Jacobian block is NaN:
  under the implicit scheme its edges are discarded, and the block stays in the solver's
  \<^verbatim>\<open>Jacobian_i\<close>.\<close>

definition CC_ex :: source_functor where
  "CC_ex numerics config = (\<lambda>iVar. Fin 1)"

definition CR_jnan :: centered_functor where
  "CR_jnan numerics config = ((\<lambda>iVar. Fin 2), (\<lambda>iVar. Fin 1), (\<lambda>iVar jVar. NaN), (\<lambda>iVar jVar. Fin 4))"

text \<open>A linear solver that makes one Jacobi step from the zero vector: every right-hand side
  entry divided by its diagonal entry.\<close>

definition Solve_diag :: linear_solver where
  "Solve_diag J b x0 = (1, (\<lambda>iPoint iVar. div_d (b iPoint iVar) (J iPoint iPoint iVar iVar)))"

text \<open>The same solver with point data whose speed of sound is NaN at every point.\<close>

definition solver_nan :: CSolver where
  "solver_nan = solver_ex\<lparr>nodes := nodes_ex\<lparr>SoundSpeed := (\<lambda>iPoint. NaN)\<rparr>\<rparr>"

text \<open>The same configuration in time-stepping mode with a maximum time step of 1/100.\<close>

definition config_ts :: CConfig where
  "config_ts = config_ex\<lparr>Time_Marching := TIME_STEPPING, Max_DeltaTime := Fin (1 / 100)\<rparr>"

text \<open>A thermochemistry library whose state is the pressure it was last set to, and an
  inviscid configuration that asks for the Reynolds-number initialization with the
  user-defined fluid model; and the same configuration for a viscous run.\<close>

definition lib_ex :: "su2double CNEMOGas" where
  "lib_ex = \<lparr>new_CUserDefinedTCLib = (\<lambda>config nd viscous. Fin 0),
     SetTDStatePTTv = (\<lambda>P Ys T Tve fm. P),
     ComputeGasConstant = (\<lambda>fm. Fin 287),
     GetDensity = (\<lambda>fm. Fin 1),
     ComputeSoundSpeed = (\<lambda>fm. Fin 340),
     GetMixtureEnergies = (\<lambda>fm i. Fin 1000),
     GetViscosity = (\<lambda>fm. Fin 1)\<rparr>"

definition MassFrac_ex :: vec where
  "MassFrac_ex = (\<lambda>iSpecies. Fin (1 / 2))"

definition config_inviscid :: CConfig_FreeStream where
  "config_inviscid = CConfig.extend (config_ex\<lparr>Viscous := False\<rparr>)
     (CConfig_FreeStream.fields (Fin 0) (Fin 0) (Fin 2) (Fin 0) REYNOLDS USER_DEFINED_NONEQ
        (Fin 101325) (Fin 300) (Fin 300) (\<lambda>iDim. Fin 0) (Fin 0) (Fin 0)
        (Fin 1) (Fin 1) (Fin 1) (Fin 1) (Fin 1) (Fin 1) (Fin 1) (Fin 1)
        (Fin 0) (Fin 1) (Fin 0) (Fin 0) (Fin 0))"

definition config_viscous :: CConfig_FreeStream where
  "config_viscous = config_inviscid\<lparr>Viscous := True\<rparr>"

section \<open>Properties of the NaN checks and the block operations\<close>

lemma nan_check2_iff: "nan_check2 n a b e = (e \<or> (\<exists>i<n. isnan (a i) \<or> isnan (b i)))"
  unfolding nan_check2_def
  by (induction n arbitrary: e) (auto simp: ne_d_def eq_d_def less_Suc_eq)

lemma nan_check1_iff: "nan_check1 n a e = (e \<or> (\<exists>i<n. isnan (a i)))"
  unfolding nan_check1_def
  by (induction n arbitrary: e) (auto simp: ne_d_def eq_d_def less_Suc_eq)

lemma nan_check_jac2_iff:
  "nan_check_jac2 n A B e = (e \<or> (\<exists>i<n. \<exists>j<n. isnan (A i j) \<or> isnan (B i j)))"
proof -
  have inner: "\<And>m i e. fold (\<lambda>jVar err.
        if ne_d (A i jVar) (A i jVar) \<or> ne_d (B i jVar) (B i jVar) then True else err)
        [0 ..< m] e = (e \<or> (\<exists>j<m. isnan (A i j) \<or> isnan (B i j)))"
    subgoal for m i e
      by (induction m arbitrary: e) (auto simp: ne_d_def eq_d_def less_Suc_eq)
    done
  have outer: "\<And>k e. fold (\<lambda>iVar. fold (\<lambda>jVar err.
        if ne_d (A iVar jVar) (A iVar jVar) \<or> ne_d (B iVar jVar) (B iVar jVar) then True else err)
        [0 ..< n]) [0 ..< k] e = (e \<or> (\<exists>i<k. \<exists>j<n. isnan (A i j) \<or> isnan (B i j)))"
    subgoal for k e
      by (induction k arbitrary: e) (auto simp: inner less_Suc_eq)
    done
  show ?thesis unfolding nan_check_jac2_def by (rule outer)
qed

lemma Centered_err_iff:
  "Centered_err n implicit (ResConv, ResVisc, Jac_i, Jac_j) =
     ((\<exists>k<n. isnan (ResConv k) \<or> isnan (ResVisc k)) \<or>
      (implicit \<and> (\<exists>a<n. \<exists>b<n. isnan (Jac_i a b) \<or> isnan (Jac_j a b))))"
  by (auto simp: Centered_err_def nan_check2_iff nan_check_jac2_iff Let_def)

lemma AddBlock_apply:
  "AddBlock n i blk v p k = (if p = i \<and> k < n then add_d (v p k) (blk k) else v p k)"
  by (simp add: AddBlock_def)

lemma SubtractBlock_apply:
  "SubtractBlock n i blk v p k = (if p = i \<and> k < n then sub_d (v p k) (blk k) else v p k)"
  by (simp add: SubtractBlock_def)

section \<open>The edge loops of the convective residual\<close>

lemma Centered_edge_LinSysRes:
  "LinSysRes (fst (Centered_Residual_edge CR geometry config iEdge (solver, numerics))) =
     (case CR (Centered_SetInputs geometry (nodes solver) iEdge numerics) config of
        (ResConv, ResVisc, Jac_i, Jac_j) \<Rightarrow>
      if Centered_err (nVar solver) (Kind_TimeIntScheme_Flow config = EULER_IMPLICIT)
           (ResConv, ResVisc, Jac_i, Jac_j)
      then LinSysRes solver
      else SubtractBlock (nVar solver) (edges_Node geometry iEdge 1) ResVisc
             (AddBlock (nVar solver) (edges_Node geometry iEdge 0) ResVisc
               (SubtractBlock (nVar solver) (edges_Node geometry iEdge 1) ResConv
                 (AddBlock (nVar solver) (edges_Node geometry iEdge 0) ResConv (LinSysRes solver)))))"
  by (simp add: Centered_Residual_edge_def Let_def split: prod.splits)

lemma Upwind_edge_LinSysRes:
  "LinSysRes (fst (Upwind_Residual_edge UR C2P geometry config iMesh iEdge (solver, numerics))) =
     (let residual = UR (Upwind_SetInputs C2P geometry (nodes solver) (nVar solver) (nDim solver)
                      (Upwind_muscl config iMesh) (Upwind_limiter config) iEdge numerics) config
      in if nan_check1 (nVar solver) residual False
         then LinSysRes solver
         else SubtractBlock (nVar solver) (edges_Node geometry iEdge 1) residual
                (AddBlock (nVar solver) (edges_Node geometry iEdge 0) residual (LinSysRes solver)))"
  by (simp add: Upwind_Residual_edge_def Let_def)

section \<open>NaN containment\<close>

text \<open>An edge only touches the residual blocks of its two endpoints, and what it does to a
  block depends only on that block and on what the functor returned.\<close>

lemma AddBlock_cong_point: "v p = w p \<Longrightarrow> AddBlock n i blk v p = AddBlock n i blk w p"
  by (auto simp: AddBlock_def)

lemma SubtractBlock_cong_point: "v p = w p \<Longrightarrow> SubtractBlock n i blk v p = SubtractBlock n i blk w p"
  by (auto simp: SubtractBlock_def)

lemma AddBlock_other: "p \<noteq> i \<Longrightarrow> AddBlock n i blk v p = v p"
  by (simp add: AddBlock_def)

lemma SubtractBlock_other: "p \<noteq> i \<Longrightarrow> SubtractBlock n i blk v p = v p"
  by (simp add: SubtractBlock_def)

lemma Centered_edge_fields:
  "nodes (fst (Centered_Residual_edge CR geometry config iEdge (solver, numerics))) = nodes solver"
  "nVar (fst (Centered_Residual_edge CR geometry config iEdge (solver, numerics))) = nVar solver"
  "snd (Centered_Residual_edge CR geometry config iEdge (solver, numerics)) =
     Centered_SetInputs geometry (nodes solver) iEdge numerics"
  by (simp_all add: Centered_Residual_edge_def Let_def split: prod.splits)

lemma Centered_edge_Jacobian:
  "Jacobian (fst (Centered_Residual_edge CR geometry config iEdge (solver, numerics))) =
     (case CR (Centered_SetInputs geometry (nodes solver) iEdge numerics) config of
        (ResConv, ResVisc, Jac_i, Jac_j) \<Rightarrow>
      if Centered_err (nVar solver) (Kind_TimeIntScheme_Flow config = EULER_IMPLICIT)
           (ResConv, ResVisc, Jac_i, Jac_j)
      then Jacobian solver
      else if Kind_TimeIntScheme_Flow config = EULER_IMPLICIT
      then SubtractBlock_Jac (nVar solver) (edges_Node geometry iEdge 1) (edges_Node geometry iEdge 1) Jac_j
            (SubtractBlock_Jac (nVar solver) (edges_Node geometry iEdge 1) (edges_Node geometry iEdge 0) Jac_i
              (AddBlock_Jac (nVar solver) (edges_Node geometry iEdge 0) (edges_Node geometry iEdge 1) Jac_j
                (AddBlock_Jac (nVar solver) (edges_Node geometry iEdge 0) (edges_Node geometry iEdge 0) Jac_i
                  (Jacobian solver))))
      else Jacobian solver)"
  by (simp add: Centered_Residual_edge_def Let_def split: prod.splits)

lemma Centered_SetInputs_idem:
  "Centered_SetInputs geometry nds k (Centered_SetInputs geometry nds k' numerics) =
   Centered_SetInputs geometry nds k numerics"
  by (simp add: Centered_SetInputs_def Let_def)

lemma Centered_edge_other_point:
  assumes "p \<noteq> edges_Node geometry iEdge 0" "p \<noteq> edges_Node geometry iEdge 1"
  shows "LinSysRes (fst (Centered_Residual_edge CR geometry config iEdge (solver, numerics))) p
           = LinSysRes solver p"
  using assms
  by (simp add: Centered_edge_LinSysRes AddBlock_other SubtractBlock_other split: prod.splits)

lemma Centered_edge_same_output:
  assumes "CRa (Centered_SetInputs geometry (nodes sa) iEdge na) config =
           CRb (Centered_SetInputs geometry (nodes sb) iEdge nb) config"
      and "nVar sa = nVar sb" and "LinSysRes sa p = LinSysRes sb p"
  shows "LinSysRes (fst (Centered_Residual_edge CRa geometry config iEdge (sa, na))) p
       = LinSysRes (fst (Centered_Residual_edge CRb geometry config iEdge (sb, nb))) p"
  using assms
  by (auto simp add: Centered_edge_LinSysRes split: prod.splits
        intro!: AddBlock_cong_point SubtractBlock_cong_point)

lemma Centered_fold_local:
  assumes "\<forall>k\<in>set es. k \<noteq> e \<longrightarrow>
             CRa (Centered_SetInputs geometry nds k num_init) config =
             CRb (Centered_SetInputs geometry nds k num_init) config"
      and "nodes sa = nds" and "nodes sb = nds" and "nVar sa = nVar sb"
      and "\<forall>k. Centered_SetInputs geometry nds k na = Centered_SetInputs geometry nds k num_init"
      and "\<forall>k. Centered_SetInputs geometry nds k nb = Centered_SetInputs geometry nds k num_init"
      and "\<forall>p. p \<noteq> edges_Node geometry e 0 \<and> p \<noteq> edges_Node geometry e 1 \<longrightarrow>
             LinSysRes sa p = LinSysRes sb p"
  shows "\<forall>p. p \<noteq> edges_Node geometry e 0 \<and> p \<noteq> edges_Node geometry e 1 \<longrightarrow>
           LinSysRes (fst (fold (Centered_Residual_edge CRa geometry config) es (sa, na))) p =
           LinSysRes (fst (fold (Centered_Residual_edge CRb geometry config) es (sb, nb))) p"
  using assms
proof (induction es arbitrary: sa na sb nb)
  case Nil
  then show ?case by simp
next
  case (Cons k es)
  let ?r1 = "Centered_Residual_edge CRa geometry config k (sa, na)"
  let ?r2 = "Centered_Residual_edge CRb geometry config k (sb, nb)"
  have step: "\<forall>p. p \<noteq> edges_Node geometry e 0 \<and> p \<noteq> edges_Node geometry e 1 \<longrightarrow>
             LinSysRes (fst ?r1) p = LinSysRes (fst ?r2) p"
  proof (intro allI impI)
    fix p assume p: "p \<noteq> edges_Node geometry e 0 \<and> p \<noteq> edges_Node geometry e 1"
    show "LinSysRes (fst ?r1) p = LinSysRes (fst ?r2) p"
    proof (cases "k = e")
      case True
      with p Cons.prems(7) show ?thesis
        by (simp add: Centered_edge_other_point)
    next
      case False
      then have "CRa (Centered_SetInputs geometry (nodes sa) k na) config =
                 CRb (Centered_SetInputs geometry (nodes sb) k nb) config"
        using Cons.prems(1,2,3,5,6) by simp
      then show ?thesis
        using Cons.prems(4,7) p by (intro Centered_edge_same_output) simp_all
    qed
  qed
  have "\<forall>p. p \<noteq> edges_Node geometry e 0 \<and> p \<noteq> edges_Node geometry e 1 \<longrightarrow>
           LinSysRes (fst (fold (Centered_Residual_edge CRa geometry config) es (fst ?r1, snd ?r1))) p =
           LinSysRes (fst (fold (Centered_Residual_edge CRb geometry config) es (fst ?r2, snd ?r2))) p"
    using Cons.prems step
    by (intro Cons.IH) (simp_all add: Centered_edge_fields Centered_SetInputs_idem)
  then show ?case by simp
qed


lemma Upwind_edge_fields:
  "nodes (fst (Upwind_Residual_edge UR C2P geometry config iMesh iEdge (solver, numerics))) = nodes solver"
  "nVar (fst (Upwind_Residual_edge UR C2P geometry config iMesh iEdge (solver, numerics))) = nVar solver"
  "nDim (fst (Upwind_Residual_edge UR C2P geometry config iMesh iEdge (solver, numerics))) = nDim solver"
  "Jacobian (fst (Upwind_Residual_edge UR C2P geometry config iMesh iEdge (solver, numerics))) = Jacobian solver"
  "snd (Upwind_Residual_edge UR C2P geometry config iMesh iEdge (solver, numerics)) =
     Upwind_SetInputs C2P geometry (nodes solver) (nVar solver) (nDim solver)
       (Upwind_muscl config iMesh) (Upwind_limiter config) iEdge numerics"
  by (simp_all add: Upwind_Residual_edge_def Let_def)

lemma Upwind_SetInputs_idem:
  "Upwind_SetInputs C2P geometry nds n nd muscl limiter k
     (Upwind_SetInputs C2P geometry nds n nd muscl limiter k' numerics) =
   Upwind_SetInputs C2P geometry nds n nd muscl limiter k numerics"
proof -
  obtain Ci Cj where rec: "Upwind_Reconstruct geometry nds n nd limiter k = (Ci, Cj)"
    by (cases "Upwind_Reconstruct geometry nds n nd limiter k")
  obtain a1 a2 a3 a4 a5 a6 a7 where ci: "C2P Ci = (a1, a2, a3, a4, a5, a6, a7)"
    by (cases "C2P Ci") auto
  obtain b1 b2 b3 b4 b5 b6 b7 where cj: "C2P Cj = (b1, b2, b3, b4, b5, b6, b7)"
    by (cases "C2P Cj") auto
  obtain Ci' Cj' where rec': "Upwind_Reconstruct geometry nds n nd limiter k' = (Ci', Cj')"
    by (cases "Upwind_Reconstruct geometry nds n nd limiter k'")
  obtain a1' a2' a3' a4' a5' a6' a7' where ci': "C2P Ci' = (a1', a2', a3', a4', a5', a6', a7')"
    by (cases "C2P Ci'") auto
  obtain b1' b2' b3' b4' b5' b6' b7' where cj': "C2P Cj' = (b1', b2', b3', b4', b5', b6', b7')"
    by (cases "C2P Cj'") auto
  show ?thesis
    by (simp add: Upwind_SetInputs_def Let_def rec ci cj rec' ci' cj')
qed

lemma Upwind_edge_other_point:
  assumes "p \<noteq> edges_Node geometry iEdge 0" "p \<noteq> edges_Node geometry iEdge 1"
  shows "LinSysRes (fst (Upwind_Residual_edge UR C2P geometry config iMesh iEdge (solver, numerics))) p
           = LinSysRes solver p"
  using assms
  by (simp add: Upwind_edge_LinSysRes AddBlock_other SubtractBlock_other Let_def)

lemma Upwind_edge_same_output:
  assumes "URa (Upwind_SetInputs C2P geometry (nodes sa) (nVar sa) (nDim sa)
                 (Upwind_muscl config iMesh) (Upwind_limiter config) iEdge na) config =
           URb (Upwind_SetInputs C2P geometry (nodes sb) (nVar sb) (nDim sb)
                 (Upwind_muscl config iMesh) (Upwind_limiter config) iEdge nb) config"
      and "nVar sa = nVar sb" and "LinSysRes sa p = LinSysRes sb p"
  shows "LinSysRes (fst (Upwind_Residual_edge URa C2P geometry config iMesh iEdge (sa, na))) p
       = LinSysRes (fst (Upwind_Residual_edge URb C2P geometry config iMesh iEdge (sb, nb))) p"
  using assms
  by (auto simp add: Upwind_edge_LinSysRes Let_def
        intro!: AddBlock_cong_point SubtractBlock_cong_point)

lemma Upwind_fold_local:
  assumes "\<forall>k\<in>set es. k \<noteq> e \<longrightarrow>
             URa (Upwind_SetInputs C2P geometry nds n nd (Upwind_muscl config iMesh)
                    (Upwind_limiter config) k num_init) config =
             URb (Upwind_SetInputs C2P geometry nds n nd (Upwind_muscl config iMesh)
                    (Upwind_limiter config) k num_init) config"
      and "nodes sa = nds" and "nodes sb = nds" and "nVar sa = n" and "nVar sb = n"
      and "nDim sa = nd" and "nDim sb = nd"
      and "\<forall>k. Upwind_SetInputs C2P geometry nds n nd (Upwind_muscl config iMesh)
                    (Upwind_limiter config) k na =
               Upwind_SetInputs C2P geometry nds n nd (Upwind_muscl config iMesh)
                    (Upwind_limiter config) k num_init"
      and "\<forall>k. Upwind_SetInputs C2P geometry nds n nd (Upwind_muscl config iMesh)
                    (Upwind_limiter config) k nb =
               Upwind_SetInputs C2P geometry nds n nd (Upwind_muscl config iMesh)
                    (Upwind_limiter config) k num_init"
      and "\<forall>p. p \<noteq> edges_Node geometry e 0 \<and> p \<noteq> edges_Node geometry e 1 \<longrightarrow>
             LinSysRes sa p = LinSysRes sb p"
  shows "\<forall>p. p \<noteq> edges_Node geometry e 0 \<and> p \<noteq> edges_Node geometry e 1 \<longrightarrow>
           LinSysRes (fst (fold (Upwind_Residual_edge URa C2P geometry config iMesh) es (sa, na))) p =
           LinSysRes (fst (fold (Upwind_Residual_edge URb C2P geometry config iMesh) es (sb, nb))) p"
  using assms
proof (induction es arbitrary: sa na sb nb)
  case Nil
  then show ?case by simp
next
  case (Cons k es)
  let ?r1 = "Upwind_Residual_edge URa C2P geometry config iMesh k (sa, na)"
  let ?r2 = "Upwind_Residual_edge URb C2P geometry config iMesh k (sb, nb)"
  have step: "\<forall>p. p \<noteq> edges_Node geometry e 0 \<and> p \<noteq> edges_Node geometry e 1 \<longrightarrow>
             LinSysRes (fst ?r1) p = LinSysRes (fst ?r2) p"
  proof (intro allI impI)
    fix p assume p: "p \<noteq> edges_Node geometry e 0 \<and> p \<noteq> edges_Node geometry e 1"
    show "LinSysRes (fst ?r1) p = LinSysRes (fst ?r2) p"
    proof (cases "k = e")
      case True
      with p Cons.prems(10) show ?thesis
        by (simp add: Upwind_edge_other_point)
    next
      case False
      then have "URa (Upwind_SetInputs C2P geometry (nodes sa) (nVar sa) (nDim sa)
                 (Upwind_muscl config iMesh) (Upwind_limiter config) k na) config =
           URb (Upwind_SetInputs C2P geometry (nodes sb) (nVar sb) (nDim sb)
                 (Upwind_muscl config iMesh) (Upwind_limiter config) k nb) config"
        using Cons.prems(1-9) by simp
      then show ?thesis
        using Cons.prems(4,5,10) p by (intro Upwind_edge_same_output) simp_all
    qed
  qed
  have "\<forall>p. p \<noteq> edges_Node geometry e 0 \<and> p \<noteq> edges_Node geometry e 1 \<longrightarrow>
           LinSysRes (fst (fold (Upwind_Residual_edge URa C2P geometry config iMesh) es (fst ?r1, snd ?r1))) p =
           LinSysRes (fst (fold (Upwind_Residual_edge URb C2P geometry config iMesh) es (fst ?r2, snd ?r2))) p"
    using Cons.prems step
    by (intro Cons.IH) (simp_all add: Upwind_edge_fields Upwind_SetInputs_idem)
  then show ?case by simp
qed


lemma Upwind_inputs_bad:
  "V_i (Upwind_SetInputs C2P_bad g nds n nd muscl limiter k num) = Primitive nds (edges_Node g k 0)"
  "U_i (Upwind_SetInputs C2P_bad g nds n nd muscl limiter k num) = Solution nds (edges_Node g k 0)"
  "U_j (Upwind_SetInputs C2P_bad g nds n nd muscl limiter k num) = Solution nds (edges_Node g k 1)"
  by (simp_all add: Upwind_SetInputs_def Upwind_Reconstruct_def Let_def C2P_bad_def)


text \<open>
  Claim C2.  Let \<open>e\<close> be an edge of the mesh.  On the centered path, if the convective or
  the dissipation array returned for \<open>e\<close> contains a NaN, or the scheme is implicit and one
  of the two Jacobian blocks does, then processing \<open>e\<close> leaves the whole residual vector
  and the whole Jacobian as they were; on the upwind path the same holds when the residual
  array contains a NaN.  The routines have no failing outcome.  Moreover the complete edge
  loop, run with that functor and run with any functor that returns the same arrays on every
  other edge, ends with the same residual at every point that is not an endpoint of \<open>e\<close>.
\<close>

theorem C2_nan_edge_discarded:
  assumes e: "e < nEdge geometry"
      and p: "p \<noteq> edges_Node geometry e 0" "p \<noteq> edges_Node geometry e 1"
      and c_out: "CR (Centered_SetInputs geometry (nodes solver) e numerics) config
                    = (ResConv, ResVisc, Jac_i, Jac_j)"
      and u_out: "residual = UR (Upwind_SetInputs C2P geometry (nodes solver) (nVar solver)
                      (nDim solver) (Upwind_muscl config iMesh) (Upwind_limiter config) e numerics)
                      config"
  shows "(((\<exists>k<nVar solver. isnan (ResConv k) \<or> isnan (ResVisc k)) \<or>
           (Kind_TimeIntScheme_Flow config = EULER_IMPLICIT \<and>
            (\<exists>a<nVar solver. \<exists>b<nVar solver. isnan (Jac_i a b) \<or> isnan (Jac_j a b)))) \<longrightarrow>
          LinSysRes (fst (Centered_Residual_edge CR geometry config e (solver, numerics)))
            = LinSysRes solver \<and>
          Jacobian (fst (Centered_Residual_edge CR geometry config e (solver, numerics)))
            = Jacobian solver \<and>
          ((\<forall>k<nEdge geometry. k \<noteq> e \<longrightarrow>
              CR (Centered_SetInputs geometry (nodes solver) k numerics) config =
              CR' (Centered_SetInputs geometry (nodes solver) k numerics) config) \<longrightarrow>
            LinSysRes (fst (Centered_Residual CR geometry config (solver, numerics))) p =
            LinSysRes (fst (Centered_Residual CR' geometry config (solver, numerics))) p)) \<and>
         ((\<exists>k<nVar solver. isnan (residual k)) \<longrightarrow>
          LinSysRes (fst (Upwind_Residual_edge UR C2P geometry config iMesh e (solver, numerics)))
            = LinSysRes solver \<and>
          Jacobian (fst (Upwind_Residual_edge UR C2P geometry config iMesh e (solver, numerics)))
            = Jacobian solver \<and>
          ((\<forall>k<nEdge geometry. k \<noteq> e \<longrightarrow>
              UR (Upwind_SetInputs C2P geometry (nodes solver) (nVar solver) (nDim solver)
                    (Upwind_muscl config iMesh) (Upwind_limiter config) k numerics) config =
              UR' (Upwind_SetInputs C2P geometry (nodes solver) (nVar solver) (nDim solver)
                    (Upwind_muscl config iMesh) (Upwind_limiter config) k numerics) config) \<longrightarrow>
            LinSysRes (fst (Upwind_Residual UR C2P geometry config iMesh (solver, numerics))) p =
            LinSysRes (fst (Upwind_Residual UR' C2P geometry config iMesh (solver, numerics))) p))"
proof -
  have c_edge: "LinSysRes (fst (Centered_Residual_edge CR geometry config e (solver, numerics)))
            = LinSysRes solver \<and>
          Jacobian (fst (Centered_Residual_edge CR geometry config e (solver, numerics)))
            = Jacobian solver"
    if "(\<exists>k<nVar solver. isnan (ResConv k) \<or> isnan (ResVisc k)) \<or>
           (Kind_TimeIntScheme_Flow config = EULER_IMPLICIT \<and>
            (\<exists>a<nVar solver. \<exists>b<nVar solver. isnan (Jac_i a b) \<or> isnan (Jac_j a b)))"
  proof -
    have "Centered_err (nVar solver) (Kind_TimeIntScheme_Flow config = EULER_IMPLICIT)
            (ResConv, ResVisc, Jac_i, Jac_j)"
      using that by (simp add: Centered_err_iff)
    then show ?thesis
      by (simp add: Centered_edge_LinSysRes Centered_edge_Jacobian c_out)
  qed
  have c_run: "LinSysRes (fst (Centered_Residual CR geometry config (solver, numerics))) p =
            LinSysRes (fst (Centered_Residual CR' geometry config (solver, numerics))) p"
    if "\<forall>k<nEdge geometry. k \<noteq> e \<longrightarrow>
              CR (Centered_SetInputs geometry (nodes solver) k numerics) config =
              CR' (Centered_SetInputs geometry (nodes solver) k numerics) config"
    using Centered_fold_local [where es = "[0 ..< nEdge geometry]" and e = e and CRa = CR
        and CRb = CR' and geometry = geometry and nds = "nodes solver" and num_init = numerics
        and config = config and sa = solver and sb = solver and na = numerics
        and nb = numerics] that p
    by (simp add: Centered_Residual_def)
  have u_edge: "LinSysRes (fst (Upwind_Residual_edge UR C2P geometry config iMesh e (solver, numerics)))
            = LinSysRes solver \<and>
          Jacobian (fst (Upwind_Residual_edge UR C2P geometry config iMesh e (solver, numerics)))
            = Jacobian solver"
    if "\<exists>k<nVar solver. isnan (residual k)"
  proof -
    have "nan_check1 (nVar solver) residual False"
      using that by (simp add: nan_check1_iff)
    then show ?thesis
      by (simp add: Upwind_edge_LinSysRes Upwind_edge_fields u_out Let_def)
  qed
  have u_run: "LinSysRes (fst (Upwind_Residual UR C2P geometry config iMesh (solver, numerics))) p =
            LinSysRes (fst (Upwind_Residual UR' C2P geometry config iMesh (solver, numerics))) p"
    if "\<forall>k<nEdge geometry. k \<noteq> e \<longrightarrow>
              UR (Upwind_SetInputs C2P geometry (nodes solver) (nVar solver) (nDim solver)
                    (Upwind_muscl config iMesh) (Upwind_limiter config) k numerics) config =
              UR' (Upwind_SetInputs C2P geometry (nodes solver) (nVar solver) (nDim solver)
                    (Upwind_muscl config iMesh) (Upwind_limiter config) k numerics) config"
    using Upwind_fold_local [where es = "[0 ..< nEdge geometry]" and e = e and URa = UR
        and URb = UR' and C2P = C2P and geometry = geometry and nds = "nodes solver"
        and n = "nVar solver" and nd = "nDim solver" and num_init = numerics
        and config = config and iMesh = iMesh and sa = solver and sb = solver
        and na = numerics and nb = numerics] that p
    by (simp add: Upwind_Residual_def)
  show ?thesis
    using c_edge c_run u_edge u_run by blast
qed

theorem C2_nan_edge_discarded_witness:
  "LinSysRes (fst (Centered_Residual_edge CR_nan geo_ex config_ex 0 (solver_ex, numerics_ex)))
     = LinSysRes solver_ex \<and>
   Jacobian (fst (Centered_Residual_edge CR_nan geo_ex config_ex 0 (solver_ex, numerics_ex)))
     = Jacobian solver_ex \<and>
   LinSysRes (fst (Centered_Residual CR_nan geo_ex config_ex (solver_ex, numerics_ex))) 2
     = LinSysRes (fst (Centered_Residual CR_ex geo_ex config_ex (solver_ex, numerics_ex))) 2 \<and>
   LinSysRes (fst (Upwind_Residual_edge UR_nan C2P_bad geo_ex config_ex 0 0 (solver_ex, numerics_ex)))
     = LinSysRes solver_ex \<and>
   Jacobian (fst (Upwind_Residual_edge UR_nan C2P_bad geo_ex config_ex 0 0 (solver_ex, numerics_ex)))
     = Jacobian solver_ex \<and>
   LinSysRes (fst (Upwind_Residual UR_nan C2P_bad geo_ex config_ex 0 (solver_ex, numerics_ex))) 2
     = LinSysRes (fst (Upwind_Residual UR_ex C2P_bad geo_ex config_ex 0 (solver_ex, numerics_ex))) 2"
proof -
  have e: "(0::nat) < nEdge geo_ex"
    by (simp add: geo_ex_def)
  have p: "(2::nat) \<noteq> edges_Node geo_ex 0 0" "(2::nat) \<noteq> edges_Node geo_ex 0 1"
    by (simp_all add: geo_ex_def)
  have c_out: "CR_nan (Centered_SetInputs geo_ex (nodes solver_ex) 0 numerics_ex) config_ex
        = ((\<lambda>iVar. NaN), (\<lambda>iVar. Fin 1), (\<lambda>iVar jVar. Fin 3), (\<lambda>iVar jVar. Fin 4))"
    by (simp add: CR_nan_def Centered_SetInputs_def geo_ex_def solver_ex_def nodes_ex_def)
  have c_agree: "\<forall>k<nEdge geo_ex. k \<noteq> 0 \<longrightarrow>
        CR_nan (Centered_SetInputs geo_ex (nodes solver_ex) k numerics_ex) config_ex =
        CR_ex (Centered_SetInputs geo_ex (nodes solver_ex) k numerics_ex) config_ex"
    by (simp add: CR_nan_def CR_ex_def Centered_SetInputs_def geo_ex_def solver_ex_def nodes_ex_def)
  have u_out: "(\<lambda>iVar. NaN) = UR_nan (Upwind_SetInputs C2P_bad geo_ex (nodes solver_ex)
        (nVar solver_ex) (nDim solver_ex) (Upwind_muscl config_ex 0) (Upwind_limiter config_ex) 0
        numerics_ex) config_ex"
    by (simp add: UR_nan_def Upwind_inputs_bad geo_ex_def nodes_ex_def solver_ex_def)
  have u_agree: "\<forall>k<nEdge geo_ex. k \<noteq> 0 \<longrightarrow>
        UR_nan (Upwind_SetInputs C2P_bad geo_ex (nodes solver_ex) (nVar solver_ex) (nDim solver_ex)
                 (Upwind_muscl config_ex 0) (Upwind_limiter config_ex) k numerics_ex) config_ex =
        UR_ex (Upwind_SetInputs C2P_bad geo_ex (nodes solver_ex) (nVar solver_ex) (nDim solver_ex)
                 (Upwind_muscl config_ex 0) (Upwind_limiter config_ex) k numerics_ex) config_ex"
    by (simp add: UR_nan_def UR_ex_def Upwind_inputs_bad geo_ex_def nodes_ex_def solver_ex_def)
  have n: "(0::nat) < nVar solver_ex"
    by (simp add: solver_ex_def)
  show ?thesis
    using C2_nan_edge_discarded [where e = 0 and p = 2 and geometry = geo_ex and CR = CR_nan
        and CR' = CR_ex and solver = solver_ex and numerics = numerics_ex and config = config_ex
        and ResConv = "\<lambda>iVar. NaN" and ResVisc = "\<lambda>iVar. Fin 1" and Jac_i = "\<lambda>iVar jVar. Fin 3"
        and Jac_j = "\<lambda>iVar jVar. Fin 4" and residual = "\<lambda>iVar. NaN" and UR = UR_nan
        and UR' = UR_ex and C2P = C2P_bad and iMesh = 0, OF e p c_out u_out]
      c_agree u_agree n
    by auto
qed
section \<open>Conservation: the flux of an edge is added at one end and subtracted at the other\<close>

text \<open>The residual vector at the end of an edge loop is the initial one with the contributions
  of the edges applied in turn.  The arrays of an edge are those the functor returns for the
  inputs set from the point data, which the loop does not change.\<close>

lemma Centered_fold_LinSysRes:
  assumes "nodes sa = nds" and "nVar sa = n"
      and "\<forall>k. Centered_SetInputs geometry nds k na = Centered_SetInputs geometry nds k num_init"
  shows "LinSysRes (fst (fold (Centered_Residual_edge CR geometry config) es (sa, na))) =
         fold (\<lambda>e R. case CR (Centered_SetInputs geometry nds e num_init) config of
                 (ResConv, ResVisc, Jac_i, Jac_j) \<Rightarrow>
               if Centered_err n (Kind_TimeIntScheme_Flow config = EULER_IMPLICIT)
                    (ResConv, ResVisc, Jac_i, Jac_j)
               then R
               else SubtractBlock n (edges_Node geometry e 1) ResVisc
                      (AddBlock n (edges_Node geometry e 0) ResVisc
                        (SubtractBlock n (edges_Node geometry e 1) ResConv
                          (AddBlock n (edges_Node geometry e 0) ResConv R))))
           es (LinSysRes sa)"
  using assms
proof (induction es arbitrary: sa na)
  case Nil
  then show ?case by simp
next
  case (Cons k es)
  let ?r = "Centered_Residual_edge CR geometry config k (sa, na)"
  have step: "LinSysRes (fst (fold (Centered_Residual_edge CR geometry config) es (fst ?r, snd ?r))) =
         fold (\<lambda>e R. case CR (Centered_SetInputs geometry nds e num_init) config of
                 (ResConv, ResVisc, Jac_i, Jac_j) \<Rightarrow>
               if Centered_err n (Kind_TimeIntScheme_Flow config = EULER_IMPLICIT)
                    (ResConv, ResVisc, Jac_i, Jac_j)
               then R
               else SubtractBlock n (edges_Node geometry e 1) ResVisc
                      (AddBlock n (edges_Node geometry e 0) ResVisc
                        (SubtractBlock n (edges_Node geometry e 1) ResConv
                          (AddBlock n (edges_Node geometry e 0) ResConv R))))
           es (LinSysRes (fst ?r))"
    using Cons.prems
    by (intro Cons.IH) (simp_all add: Centered_edge_fields Centered_SetInputs_idem)
  have first: "LinSysRes (fst ?r) =
      (case CR (Centered_SetInputs geometry nds k num_init) config of
                 (ResConv, ResVisc, Jac_i, Jac_j) \<Rightarrow>
               if Centered_err n (Kind_TimeIntScheme_Flow config = EULER_IMPLICIT)
                    (ResConv, ResVisc, Jac_i, Jac_j)
               then LinSysRes sa
               else SubtractBlock n (edges_Node geometry k 1) ResVisc
                      (AddBlock n (edges_Node geometry k 0) ResVisc
                        (SubtractBlock n (edges_Node geometry k 1) ResConv
                          (AddBlock n (edges_Node geometry k 0) ResConv (LinSysRes sa)))))"
    using Cons.prems(1,3) unfolding Cons.prems(2) [symmetric]
    by (simp add: Centered_edge_LinSysRes)
  show ?case
    using step by (simp add: first)
qed

lemma Upwind_fold_LinSysRes:
  assumes "nodes sa = nds" and "nVar sa = n" and "nDim sa = nd"
      and "\<forall>k. Upwind_SetInputs C2P geometry nds n nd (Upwind_muscl config iMesh)
                    (Upwind_limiter config) k na =
               Upwind_SetInputs C2P geometry nds n nd (Upwind_muscl config iMesh)
                    (Upwind_limiter config) k num_init"
  shows "LinSysRes (fst (fold (Upwind_Residual_edge UR C2P geometry config iMesh) es (sa, na))) =
         fold (\<lambda>e R. let residual = UR (Upwind_SetInputs C2P geometry nds n nd
                         (Upwind_muscl config iMesh) (Upwind_limiter config) e num_init) config
               in if nan_check1 n residual False then R
                  else SubtractBlock n (edges_Node geometry e 1) residual
                         (AddBlock n (edges_Node geometry e 0) residual R))
           es (LinSysRes sa)"
  using assms
proof (induction es arbitrary: sa na)
  case Nil
  then show ?case by simp
next
  case (Cons k es)
  let ?r = "Upwind_Residual_edge UR C2P geometry config iMesh k (sa, na)"
  have step: "LinSysRes (fst (fold (Upwind_Residual_edge UR C2P geometry config iMesh) es (fst ?r, snd ?r))) =
         fold (\<lambda>e R. let residual = UR (Upwind_SetInputs C2P geometry nds n nd
                         (Upwind_muscl config iMesh) (Upwind_limiter config) e num_init) config
               in if nan_check1 n residual False then R
                  else SubtractBlock n (edges_Node geometry e 1) residual
                         (AddBlock n (edges_Node geometry e 0) residual R))
           es (LinSysRes (fst ?r))"
    using Cons.prems
    by (intro Cons.IH) (simp_all add: Upwind_edge_fields Upwind_SetInputs_idem)
  have first: "LinSysRes (fst ?r) =
      (let residual = UR (Upwind_SetInputs C2P geometry nds n nd
                         (Upwind_muscl config iMesh) (Upwind_limiter config) k num_init) config
               in if nan_check1 n residual False then LinSysRes sa
                  else SubtractBlock n (edges_Node geometry k 1) residual
                         (AddBlock n (edges_Node geometry k 0) residual (LinSysRes sa)))"
    using Cons.prems(1,4) unfolding Cons.prems(2,3) [symmetric]
    by (simp add: Upwind_edge_LinSysRes)
  show ?case
    using step by (simp add: first Let_def)
qed



text \<open>
  Claim C1 as stated fails in its last part.  On a mesh of one edge from point 0 to point 1,
  a functor returns an infinite convective flux; it contains no NaN, so the edge is not
  discarded.  \<^verbatim>\<open>Centered_Residual\<close> leaves plus infinity at point 0 and minus infinity at
  point 1: the sum of the two endpoint residuals, 20 before, is NaN afterwards.
\<close>

theorem C1_infinite_flux_counterexample:
  "fst (CR_inf (Centered_SetInputs geo_one (nodes solver_ex) 0 numerics_ex) config_ex) 0 = PInf \<and>
   fst (snd (CR_inf (Centered_SetInputs geo_one (nodes solver_ex) 0 numerics_ex) config_ex)) 0 = Fin 1 \<and>
   edges_Node geo_one 0 0 = 0 \<and> edges_Node geo_one 0 1 = 1 \<and>
   add_d (LinSysRes solver_ex 0 0) (LinSysRes solver_ex 1 0) = Fin 20 \<and>
   LinSysRes (fst (Centered_Residual CR_inf geo_one config_ex (solver_ex, numerics_ex))) 0 0 = PInf \<and>
   LinSysRes (fst (Centered_Residual CR_inf geo_one config_ex (solver_ex, numerics_ex))) 1 0 = NInf \<and>
   add_d (LinSysRes (fst (Centered_Residual CR_inf geo_one config_ex (solver_ex, numerics_ex))) 0 0)
         (LinSysRes (fst (Centered_Residual CR_inf geo_one config_ex (solver_ex, numerics_ex))) 1 0)
     = NaN"
proof -
  have err: "\<not> Centered_err (Suc 0) True
               ((\<lambda>iVar. PInf), (\<lambda>iVar. Fin 1), (\<lambda>iVar jVar. Fin 3), (\<lambda>iVar jVar. Fin 4))"
    by (simp add: Centered_err_iff)
  have run: "LinSysRes (fst (Centered_Residual CR_inf geo_one config_ex (solver_ex, numerics_ex))) =
      SubtractBlock (Suc 0) (Suc 0) (\<lambda>iVar. Fin 1) (AddBlock (Suc 0) 0 (\<lambda>iVar. Fin 1)
        (SubtractBlock (Suc 0) (Suc 0) (\<lambda>iVar. PInf) (AddBlock (Suc 0) 0 (\<lambda>iVar. PInf)
          (\<lambda>iPoint iVar. Fin 10))))"
    using err
    by (simp add: Centered_Residual_def Centered_edge_LinSysRes CR_inf_def geo_one_def geo_ex_def
        solver_ex_def config_ex_def)
  show ?thesis
    by (simp add: run AddBlock_apply SubtractBlock_apply sub_d_def)
      (simp add: CR_inf_def geo_one_def geo_ex_def solver_ex_def)
qed


text \<open>
  Claim C1, amended.  On a mesh whose edges join two different points each, the residual
  vector after \<^verbatim>\<open>Centered_Residual\<close> is the initial one with the contribution of every edge
  applied in the order of the edges, and so is the one after \<^verbatim>\<open>Upwind_Residual\<close>.  The
  contribution of an edge whose flux arrays contain no NaN (and, on the centered path under
  the implicit scheme, whose Jacobian blocks contain none) is, for every variable below
  \<^verbatim>\<open>nVar\<close>: the flux entry added to the residual of the first endpoint, the same entry
  subtracted from the residual of the second endpoint, nothing at any other point.  On the
  centered path the convective and the dissipation array are applied one after the other.
  An edge with a NaN contributes nothing.  Nothing is said about the sum of the two
  endpoint residuals.
\<close>

theorem C1_edge_flux_added_and_subtracted:
  assumes mesh: "\<forall>e<nEdge geometry. edges_Node geometry e 0 \<noteq> edges_Node geometry e 1"
      and n: "n = nVar solver"
      and implicit: "implicit = (Kind_TimeIntScheme_Flow config = EULER_IMPLICIT)"
      and Fc: "Fc = (\<lambda>e. CR (Centered_SetInputs geometry (nodes solver) e numerics) config)"
      and Ec: "Ec = (\<lambda>e R p iVar. case Fc e of (ResConv, ResVisc, Jac_i, Jac_j) \<Rightarrow>
                 if iVar < n \<and> (\<forall>k<n. \<not> isnan (ResConv k) \<and> \<not> isnan (ResVisc k)) \<and>
                    (implicit \<longrightarrow> (\<forall>a<n. \<forall>b<n. \<not> isnan (Jac_i a b) \<and> \<not> isnan (Jac_j a b)))
                 then if p = edges_Node geometry e 0
                      then add_d (add_d (R p iVar) (ResConv iVar)) (ResVisc iVar)
                      else if p = edges_Node geometry e 1
                      then sub_d (sub_d (R p iVar) (ResConv iVar)) (ResVisc iVar)
                      else R p iVar
                 else R p iVar)"
      and Fu: "Fu = (\<lambda>e. UR (Upwind_SetInputs C2P geometry (nodes solver) n (nDim solver)
                 (Upwind_muscl config iMesh) (Upwind_limiter config) e numerics) config)"
      and Eu: "Eu = (\<lambda>e R p iVar.
                 if iVar < n \<and> (\<forall>k<n. \<not> isnan (Fu e k))
                 then if p = edges_Node geometry e 0 then add_d (R p iVar) (Fu e iVar)
                      else if p = edges_Node geometry e 1 then sub_d (R p iVar) (Fu e iVar)
                      else R p iVar
                 else R p iVar)"
  shows "LinSysRes (fst (Centered_Residual CR geometry config (solver, numerics))) =
           fold Ec [0 ..< nEdge geometry] (LinSysRes solver) \<and>
         LinSysRes (fst (Upwind_Residual UR C2P geometry config iMesh (solver, numerics))) =
           fold Eu [0 ..< nEdge geometry] (LinSysRes solver)"
proof
  let ?c = "\<lambda>e R. case CR (Centered_SetInputs geometry (nodes solver) e numerics) config of
                 (ResConv, ResVisc, Jac_i, Jac_j) \<Rightarrow>
               if Centered_err n (Kind_TimeIntScheme_Flow config = EULER_IMPLICIT)
                    (ResConv, ResVisc, Jac_i, Jac_j)
               then R
               else SubtractBlock n (edges_Node geometry e 1) ResVisc
                      (AddBlock n (edges_Node geometry e 0) ResVisc
                        (SubtractBlock n (edges_Node geometry e 1) ResConv
                          (AddBlock n (edges_Node geometry e 0) ResConv R)))"
  have c_edge: "?c e = Ec e" if "e \<in> set [0 ..< nEdge geometry]" for e
  proof (intro ext)
    fix R p iVar
    obtain ResConv ResVisc Jac_i Jac_j where out:
      "CR (Centered_SetInputs geometry (nodes solver) e numerics) config
         = (ResConv, ResVisc, Jac_i, Jac_j)"
      by (cases "CR (Centered_SetInputs geometry (nodes solver) e numerics) config") auto
    have ne: "edges_Node geometry e 0 \<noteq> edges_Node geometry e 1"
      using mesh that by simp
    show "?c e R p iVar = Ec e R p iVar"
      using ne
      by (auto simp add: Ec Fc out Centered_err_iff implicit AddBlock_apply SubtractBlock_apply)
  qed
  have "LinSysRes (fst (Centered_Residual CR geometry config (solver, numerics))) =
          fold ?c [0 ..< nEdge geometry] (LinSysRes solver)"
    unfolding Centered_Residual_def
    by (rule Centered_fold_LinSysRes) (simp_all add: n)
  also have "\<dots> = fold Ec [0 ..< nEdge geometry] (LinSysRes solver)"
    by (rule fold_cong) (simp_all only: c_edge)
  finally show "LinSysRes (fst (Centered_Residual CR geometry config (solver, numerics))) =
           fold Ec [0 ..< nEdge geometry] (LinSysRes solver)" .
next
  let ?u = "\<lambda>e R. let residual = UR (Upwind_SetInputs C2P geometry (nodes solver) n (nDim solver)
                         (Upwind_muscl config iMesh) (Upwind_limiter config) e numerics) config
               in if nan_check1 n residual False then R
                  else SubtractBlock n (edges_Node geometry e 1) residual
                         (AddBlock n (edges_Node geometry e 0) residual R)"
  have u_edge: "?u e = Eu e" if "e \<in> set [0 ..< nEdge geometry]" for e
  proof (intro ext)
    fix R p iVar
    have ne: "edges_Node geometry e 0 \<noteq> edges_Node geometry e 1"
      using mesh that by simp
    show "?u e R p iVar = Eu e R p iVar"
      using ne
      by (auto simp add: Eu Fu Let_def nan_check1_iff AddBlock_apply SubtractBlock_apply)
  qed
  have "LinSysRes (fst (Upwind_Residual UR C2P geometry config iMesh (solver, numerics))) =
          fold ?u [0 ..< nEdge geometry] (LinSysRes solver)"
    unfolding Upwind_Residual_def
    by (rule Upwind_fold_LinSysRes) (simp_all add: n)
  also have "\<dots> = fold Eu [0 ..< nEdge geometry] (LinSysRes solver)"
    by (rule fold_cong) (simp_all only: u_edge)
  finally show "LinSysRes (fst (Upwind_Residual UR C2P geometry config iMesh (solver, numerics))) =
           fold Eu [0 ..< nEdge geometry] (LinSysRes solver)" .
qed



theorem C1_edge_flux_added_and_subtracted_witness:
  "LinSysRes (fst (Centered_Residual CR_ex geo_ex config_ex (solver_ex, numerics_ex))) 0 0 = Fin 13 \<and>
   LinSysRes (fst (Centered_Residual CR_ex geo_ex config_ex (solver_ex, numerics_ex))) 1 0 = Fin 10 \<and>
   LinSysRes (fst (Centered_Residual CR_ex geo_ex config_ex (solver_ex, numerics_ex))) 2 0 = Fin 7 \<and>
   LinSysRes (fst (Upwind_Residual UR_ex C2P_ok geo_ex config_ex 1 (solver_ex, numerics_ex))) 0 0 = Fin 11 \<and>
   LinSysRes (fst (Upwind_Residual UR_ex C2P_ok geo_ex config_ex 1 (solver_ex, numerics_ex))) 1 0 = Fin 11 \<and>
   LinSysRes (fst (Upwind_Residual UR_ex C2P_ok geo_ex config_ex 1 (solver_ex, numerics_ex))) 2 0 = Fin 8"
proof -
  have mesh: "\<forall>e<nEdge geo_ex. edges_Node geo_ex e 0 \<noteq> edges_Node geo_ex e 1"
    by (simp add: geo_ex_def)
  have edges: "[0 ..< nEdge geo_ex] = [0, Suc 0]"
    by (simp add: geo_ex_def upt_conv_Cons)
  have flux: "\<And>e. UR_ex (Upwind_SetInputs C2P_ok geo_ex (nodes solver_ex) (nVar solver_ex)
                 (nDim solver_ex) (Upwind_muscl config_ex 1) (Upwind_limiter config_ex) e numerics_ex)
                 config_ex
               = (\<lambda>iVar. sub_d (Solution nodes_ex (edges_Node geo_ex e 1) iVar)
                                (Solution nodes_ex (edges_Node geo_ex e 0) iVar))"
    by (simp add: UR_ex_def Upwind_SetInputs_def Upwind_muscl_def MESH_0_def solver_ex_def Let_def)
  note inst = C1_edge_flux_added_and_subtracted [where geometry = geo_ex and solver = solver_ex
        and config = config_ex and numerics = numerics_ex and CR = CR_ex and UR = UR_ex
        and C2P = C2P_ok and iMesh = 1, OF mesh refl refl refl refl refl refl]
  show ?thesis
    unfolding inst [THEN conjunct1] inst [THEN conjunct2] edges flux
    by (simp add: CR_ex_def geo_ex_def solver_ex_def config_ex_def nodes_ex_def sub_d_def)
qed

section \<open>MUSCL reconstruction: fallback to first order\<close>





section \<open>Supersonic outlet: the boundary flux of identical states\<close>













section \<open>Source terms: the NaN check under the implicit scheme\<close>

lemma nan_check_jac1_iff:
  "nan_check_jac1 n A e = (e \<or> (\<exists>i<n. \<exists>j<n. isnan (A i j)))"
proof -
  have inner: "\<And>m i e. fold (\<lambda>jVar err. if ne_d (A i jVar) (A i jVar) then True else err)
        [0 ..< m] e = (e \<or> (\<exists>j<m. isnan (A i j)))"
    subgoal for m i e
      by (induction m arbitrary: e) (auto simp: ne_d_def eq_d_def less_Suc_eq)
    done
  have outer: "\<And>k e. fold (\<lambda>iVar. fold (\<lambda>jVar err.
        if ne_d (A iVar jVar) (A iVar jVar) then True else err)
        [0 ..< n]) [0 ..< k] e = (e \<or> (\<exists>i<k. \<exists>j<n. isnan (A i j)))"
    subgoal for k e
      by (induction k arbitrary: e) (auto simp: inner less_Suc_eq)
    done
  show ?thesis unfolding nan_check_jac1_def by (rule outer)
qed

lemma Source_err_iff:
  "Source_err implicit n residual Jac_i =
     ((\<exists>k<n. isnan (residual k)) \<or> (implicit \<and> (\<exists>a<n. \<exists>b<n. isnan (Jac_i a b))))"
  by (auto simp: Source_err_def nan_check1_iff nan_check_jac1_iff Let_def)

text \<open>With a NaN in the solver's \<^verbatim>\<open>Jacobian_i\<close> under the implicit scheme, every enabled
  source term fails its check, whatever its functor returns.\<close>

lemma Source_terms_stale:
  assumes "Kind_TimeIntScheme_Flow config = EULER_IMPLICIT"
      and "a < nVar (src_solver st)" and "b < nVar (src_solver st)"
      and "isnan (Jacobian_i (src_solver st) a b)"
  shows "Source_Axisymmetric CA config iPoint st =
           (if Axisymmetric config then st\<lparr>eAxi_local := eAxi_local st + 1\<rparr> else st)"
    and "Source_Chemistry CC config iPoint st =
           (if \<not> Monoatomic config \<and> \<not> Frozen config then st\<lparr>eChm_local := eChm_local st + 1\<rparr>
            else st)"
    and "Source_VibRelaxation CV config iPoint st =
           (if \<not> Monoatomic config then st\<lparr>eVib_local := eVib_local st + 1\<rparr> else st)"
proof -
  have err: "Source_err True (nVar (src_solver st)) r (Jacobian_i (src_solver st))" for r
    using assms(2-4) by (auto simp: Source_err_iff)
  show "Source_Axisymmetric CA config iPoint st =
           (if Axisymmetric config then st\<lparr>eAxi_local := eAxi_local st + 1\<rparr> else st)"
    by (simp add: Source_Axisymmetric_def Let_def assms(1) err)
  show "Source_Chemistry CC config iPoint st =
           (if \<not> Monoatomic config \<and> \<not> Frozen config then st\<lparr>eChm_local := eChm_local st + 1\<rparr>
            else st)"
    by (simp add: Source_Chemistry_def Let_def assms(1) err)
  show "Source_VibRelaxation CV config iPoint st =
           (if \<not> Monoatomic config then st\<lparr>eVib_local := eVib_local st + 1\<rparr> else st)"
    by (simp add: Source_VibRelaxation_def Let_def assms(1) err)
qed

lemma Source_point_stale:
  assumes "Kind_TimeIntScheme_Flow config = EULER_IMPLICIT"
      and "a < nVar (src_solver st)" and "b < nVar (src_solver st)"
      and "isnan (Jacobian_i (src_solver st) a b)"
  shows "src_solver (Source_Residual_point CA CC CV geometry config iPoint st) = src_solver st"
    and "eAxi_local (Source_Residual_point CA CC CV geometry config iPoint st) =
           eAxi_local st + (if Axisymmetric config then 1 else 0)"
    and "eChm_local (Source_Residual_point CA CC CV geometry config iPoint st) =
           eChm_local st + (if \<not> Monoatomic config \<and> \<not> Frozen config then 1 else 0)"
    and "eVib_local (Source_Residual_point CA CC CV geometry config iPoint st) =
           eVib_local st + (if \<not> Monoatomic config then 1 else 0)"
proof -
  define st1 where "st1 = st\<lparr>src_numerics :=
      Source_SetInputs geometry (nodes (src_solver st)) iPoint (src_numerics st)\<rparr>"
  define st2 where "st2 = Source_Axisymmetric CA config iPoint st1"
  define st3 where "st3 = Source_Chemistry CC config iPoint st2"
  have st4: "Source_Residual_point CA CC CV geometry config iPoint st =
             Source_VibRelaxation CV config iPoint st3"
    by (simp add: Source_Residual_point_def st3_def st2_def st1_def)
  have s1: "src_solver st1 = src_solver st" "eAxi_local st1 = eAxi_local st"
    "eChm_local st1 = eChm_local st" "eVib_local st1 = eVib_local st"
    by (simp_all add: st1_def)
  have e2: "st2 = (if Axisymmetric config then st1\<lparr>eAxi_local := eAxi_local st1 + 1\<rparr> else st1)"
    unfolding st2_def using assms by (intro Source_terms_stale(1)) (simp_all add: s1)
  have s2: "src_solver st2 = src_solver st"
    "eAxi_local st2 = eAxi_local st + (if Axisymmetric config then 1 else 0)"
    "eChm_local st2 = eChm_local st" "eVib_local st2 = eVib_local st"
    by (simp_all add: e2 s1)
  have e3: "st3 = (if \<not> Monoatomic config \<and> \<not> Frozen config
                   then st2\<lparr>eChm_local := eChm_local st2 + 1\<rparr> else st2)"
    unfolding st3_def using assms by (intro Source_terms_stale(2)) (simp_all add: s2)
  have s3: "src_solver st3 = src_solver st"
    "eAxi_local st3 = eAxi_local st + (if Axisymmetric config then 1 else 0)"
    "eChm_local st3 = eChm_local st + (if \<not> Monoatomic config \<and> \<not> Frozen config then 1 else 0)"
    "eVib_local st3 = eVib_local st"
    by (simp_all add: e3 s2)
  have e4: "Source_VibRelaxation CV config iPoint st3 =
              (if \<not> Monoatomic config then st3\<lparr>eVib_local := eVib_local st3 + 1\<rparr> else st3)"
    using assms by (intro Source_terms_stale(3)) (simp_all add: s3)
  show "src_solver (Source_Residual_point CA CC CV geometry config iPoint st) = src_solver st"
    and "eAxi_local (Source_Residual_point CA CC CV geometry config iPoint st) =
           eAxi_local st + (if Axisymmetric config then 1 else 0)"
    and "eChm_local (Source_Residual_point CA CC CV geometry config iPoint st) =
           eChm_local st + (if \<not> Monoatomic config \<and> \<not> Frozen config then 1 else 0)"
    and "eVib_local (Source_Residual_point CA CC CV geometry config iPoint st) =
           eVib_local st + (if \<not> Monoatomic config then 1 else 0)"
    by (simp_all add: st4 e4 s3)
qed

lemma Source_fold_stale:
  assumes "Kind_TimeIntScheme_Flow config = EULER_IMPLICIT"
      and "a < nVar (src_solver st)" and "b < nVar (src_solver st)"
      and "isnan (Jacobian_i (src_solver st) a b)"
  shows "src_solver (fold (Source_Residual_point CA CC CV geometry config) [0 ..< m] st)
           = src_solver st \<and>
         eAxi_local (fold (Source_Residual_point CA CC CV geometry config) [0 ..< m] st) =
           eAxi_local st + (if Axisymmetric config then m else 0) \<and>
         eChm_local (fold (Source_Residual_point CA CC CV geometry config) [0 ..< m] st) =
           eChm_local st + (if \<not> Monoatomic config \<and> \<not> Frozen config then m else 0) \<and>
         eVib_local (fold (Source_Residual_point CA CC CV geometry config) [0 ..< m] st) =
           eVib_local st + (if \<not> Monoatomic config then m else 0)"
proof (induction m)
  case 0
  then show ?case by simp
next
  case (Suc m)
  let ?st = "fold (Source_Residual_point CA CC CV geometry config) [0 ..< m] st"
  have same: "src_solver ?st = src_solver st"
    using Suc.IH by simp
  note step = Source_point_stale [where st = ?st and config = config and a = a and b = b
      and CA = CA and CC = CC and CV = CV and geometry = geometry and iPoint = m,
      unfolded same, OF assms]
  show ?case
    using Suc.IH by (simp add: step same)
qed


text \<open>
  Claim C5 does not hold of the code under the implicit scheme.  The NaN check of each source
  term reads the solver's own array \<^verbatim>\<open>Jacobian_i\<close>, which no source functor writes: it
  holds what an earlier routine left there.  When one of its entries inside the block is
  NaN, then whatever the three source functors return, \<^verbatim>\<open>Source_Residual\<close> applies no
  source at any point: the residual vector and the Jacobian are as before, and each enabled
  term (axisymmetric: the configuration asks for it; chemistry: neither monoatomic nor
  frozen; relaxation: not monoatomic) has counted every owned point.
\<close>

theorem C5_stale_jacobian_discards_sources:
  assumes implicit: "Kind_TimeIntScheme_Flow config = EULER_IMPLICIT"
      and entry: "a < nVar solver" "b < nVar solver" "isnan (Jacobian_i solver a b)"
      and out: "out = Source_Residual ComputeAxisymmetric ComputeChemistry ComputeVibRelaxation
                  geometry config (solver, numerics)"
  shows "LinSysRes (src_solver (fst out)) = LinSysRes solver \<and>
         Jacobian (src_solver (fst out)) = Jacobian solver \<and>
         eAxi_local (fst out) = (if Axisymmetric config then nPointDomain solver else 0) \<and>
         eChm_local (fst out) =
           (if \<not> Monoatomic config \<and> \<not> Frozen config then nPointDomain solver else 0) \<and>
         eVib_local (fst out) = (if \<not> Monoatomic config then nPointDomain solver else 0)"
proof -
  let ?s0 = "solver\<lparr>Residual := (\<lambda>iVar. if iVar < nVar solver then Fin 0 else Residual solver iVar)\<rparr>"
  let ?st0 = "\<lparr>src_solver = ?s0, src_numerics = numerics,
                eAxi_local = 0, eChm_local = 0, eVib_local = 0\<rparr>"
  have fst_out: "fst out = fold (Source_Residual_point ComputeAxisymmetric ComputeChemistry
                    ComputeVibRelaxation geometry config) [0 ..< nPointDomain solver] ?st0"
    by (simp add: out Source_Residual_def Let_def)
  have pre: "a < nVar (src_solver ?st0)" "b < nVar (src_solver ?st0)"
    "isnan (Jacobian_i (src_solver ?st0) a b)"
    using entry by simp_all
  note run = Source_fold_stale [where st = ?st0 and config = config and a = a and b = b
      and CA = ComputeAxisymmetric and CC = ComputeChemistry and CV = ComputeVibRelaxation
      and geometry = geometry and m = "nPointDomain solver", OF implicit pre, folded fst_out]
  show ?thesis
    using run by simp
qed



text \<open>An instance: \<^verbatim>\<open>Centered_Residual\<close> with a functor whose first Jacobian block is NaN
  discards its edges and leaves the block in \<^verbatim>\<open>Jacobian_i\<close>; the source terms 2, 1 and 3
  that follow are all finite, none is applied at any of the three points, and each of the
  three counters ends at 3.\<close>

theorem C5_stale_jacobian_discards_sources_witness:
  "Kind_TimeIntScheme_Flow config_ex = EULER_IMPLICIT \<and>
   Jacobian_i (fst (Centered_Residual CR_jnan geo_ex config_ex (solver_ex, numerics_ex))) 0 0 = NaN \<and>
   CA_ex numerics_ex config_ex 0 = Fin 2 \<and> CC_ex numerics_ex config_ex 0 = Fin 1 \<and>
   CV_ex numerics_ex config_ex 0 = Fin 3 \<and>
   LinSysRes (src_solver (fst (Source_Residual CA_ex CC_ex CV_ex geo_ex config_ex
     (fst (Centered_Residual CR_jnan geo_ex config_ex (solver_ex, numerics_ex)), numerics_ex)))) 1 0
     = Fin 10 \<and>
   eAxi_local (fst (Source_Residual CA_ex CC_ex CV_ex geo_ex config_ex
     (fst (Centered_Residual CR_jnan geo_ex config_ex (solver_ex, numerics_ex)), numerics_ex))) = 3 \<and>
   eChm_local (fst (Source_Residual CA_ex CC_ex CV_ex geo_ex config_ex
     (fst (Centered_Residual CR_jnan geo_ex config_ex (solver_ex, numerics_ex)), numerics_ex))) = 3 \<and>
   eVib_local (fst (Source_Residual CA_ex CC_ex CV_ex geo_ex config_ex
     (fst (Centered_Residual CR_jnan geo_ex config_ex (solver_ex, numerics_ex)), numerics_ex))) = 3"
proof -
  let ?s = "fst (Centered_Residual CR_jnan geo_ex config_ex (solver_ex, numerics_ex))"
  have implicit: "Kind_TimeIntScheme_Flow config_ex = EULER_IMPLICIT"
    by (simp add: config_ex_def)
  have edges: "[0 ..< nEdge geo_ex] = [0, Suc 0]"
    by (simp add: geo_ex_def upt_conv_Cons)
  have err: "Centered_err (Suc 0) True
               ((\<lambda>iVar. Fin 2), (\<lambda>iVar. Fin 1), (\<lambda>iVar jVar. NaN), (\<lambda>iVar jVar. Fin 4))"
    by (simp add: Centered_err_iff)
  have e0: "Centered_Residual_edge CR_jnan geo_ex config_ex e (s, num) =
        (s\<lparr>Res_Conv := (\<lambda>iVar. Fin 2), Res_Visc := (\<lambda>iVar. Fin 1),
           Jacobian_i := (\<lambda>iVar jVar. NaN), Jacobian_j := (\<lambda>iVar jVar. Fin 4)\<rparr>,
         Centered_SetInputs geo_ex (nodes s) e num)" if "nVar s = Suc 0" for e s num
    using err that by (simp add: Centered_Residual_edge_def Let_def CR_jnan_def implicit)
  have s: "?s = solver_ex\<lparr>Res_Conv := (\<lambda>iVar. Fin 2), Res_Visc := (\<lambda>iVar. Fin 1),
           Jacobian_i := (\<lambda>iVar jVar. NaN), Jacobian_j := (\<lambda>iVar jVar. Fin 4)\<rparr>"
    unfolding Centered_Residual_def edges
    by (simp add: e0 solver_ex_def)
  have data: "nVar ?s = Suc 0" "Jacobian_i ?s 0 0 = NaN" "LinSysRes ?s = (\<lambda>iPoint iVar. Fin 10)"
    "nPointDomain ?s = 3"
    unfolding s by (simp_all add: solver_ex_def)
  have entry: "(0::nat) < nVar ?s" "isnan (Jacobian_i ?s 0 0)"
    by (simp_all add: data)
  have cfg: "Axisymmetric config_ex" "\<not> Monoatomic config_ex" "\<not> Frozen config_ex"
    by (simp_all add: config_ex_def)
  show ?thesis
    using C5_stale_jacobian_discards_sources [where config = config_ex and solver = ?s
        and a = 0 and b = 0 and ComputeAxisymmetric = CA_ex and ComputeChemistry = CC_ex
        and ComputeVibRelaxation = CV_ex and geometry = geo_ex and numerics = numerics_ex,
        OF implicit entry(1) entry(1) entry(2) refl]
    by (simp add: data cfg implicit CA_ex_def CC_ex_def CV_ex_def)
qed

section \<open>Time step: local steps, their bounds, and the global step\<close>

lemma SetTime_Step_point_frame:
  "Max_Lambda_Inv (step_nodes (SetTime_Step_point geometry config iMesh iPoint st))
     = Max_Lambda_Inv (step_nodes st)"
  "Max_Lambda_Visc (step_nodes (SetTime_Step_point geometry config iMesh iPoint st))
     = Max_Lambda_Visc (step_nodes st)"
  by (simp_all add: SetTime_Step_point_def SetDelta_Time_def Let_def)

lemma SetTime_Step_fold_frame:
  "Max_Lambda_Inv (step_nodes (fold (SetTime_Step_point geometry config iMesh) ps st))
     = Max_Lambda_Inv (step_nodes st) \<and>
   Max_Lambda_Visc (step_nodes (fold (SetTime_Step_point geometry config iMesh) ps st))
     = Max_Lambda_Visc (step_nodes st)"
  by (induction ps arbitrary: st) (simp_all add: SetTime_Step_point_frame)

lemma Local_Delta_Time_of_cong:
  "Max_Lambda_Inv nds = Max_Lambda_Inv nds' \<Longrightarrow> Max_Lambda_Visc nds = Max_Lambda_Visc nds' \<Longrightarrow>
   Local_Delta_Time_of config iMesh Vol nds iPoint = Local_Delta_Time_of config iMesh Vol nds' iPoint"
  by (simp add: Local_Delta_Time_of_def Let_def)

text \<open>The value stored for one point.\<close>

lemma SetTime_Step_point_Delta_Time:
  "Delta_Time (step_nodes (SetTime_Step_point geometry config iMesh iPoint st)) p =
     (if p = iPoint then
        (if ne_d (nodes_Volume geometry iPoint) (Fin 0) then
           (if gt_d (Local_Delta_Time_of config iMesh (nodes_Volume geometry iPoint) (step_nodes st) iPoint)
                 (Max_DeltaTime config)
            then Max_DeltaTime config
            else Local_Delta_Time_of config iMesh (nodes_Volume geometry iPoint) (step_nodes st) iPoint)
         else Fin 0)
      else Delta_Time (step_nodes st) p)"
  by (simp add: SetTime_Step_point_def SetDelta_Time_def Let_def)

lemma SetTime_Step_local_Delta_Time:
  "Delta_Time (step_nodes (fold (SetTime_Step_point geometry config iMesh) [0 ..< n] st)) p =
     (if p < n then
        (if ne_d (nodes_Volume geometry p) (Fin 0) then
           (if gt_d (Local_Delta_Time_of config iMesh (nodes_Volume geometry p) (step_nodes st) p)
                 (Max_DeltaTime config)
            then Max_DeltaTime config
            else Local_Delta_Time_of config iMesh (nodes_Volume geometry p) (step_nodes st) p)
         else Fin 0)
      else Delta_Time (step_nodes st) p)"
proof (induction n)
  case 0
  then show ?case by simp
next
  case (Suc n)
  have cong: "Local_Delta_Time_of config iMesh V
                (step_nodes (fold (SetTime_Step_point geometry config iMesh) [0 ..< n] st)) q
              = Local_Delta_Time_of config iMesh V (step_nodes st) q" for V q
    by (rule Local_Delta_Time_of_cong) (simp_all add: SetTime_Step_fold_frame)
  show ?case
    using Suc.IH by (simp add: SetTime_Step_point_Delta_Time cong less_Suc_eq)
qed

text \<open>The three running extrema only see the local step before the maximum is applied.\<close>

lemma SetTime_Step_point_extrema:
  "Global_Delta_Time (SetTime_Step_point geometry config iMesh iPoint st) =
     (if ne_d (nodes_Volume geometry iPoint) (Fin 0)
      then min_d (Global_Delta_Time st)
             (Local_Delta_Time_of config iMesh (nodes_Volume geometry iPoint) (step_nodes st) iPoint)
      else Global_Delta_Time st)"
  "Min_DT (SetTime_Step_point geometry config iMesh iPoint st) =
     (if ne_d (nodes_Volume geometry iPoint) (Fin 0)
      then min_d (Min_DT st)
             (Local_Delta_Time_of config iMesh (nodes_Volume geometry iPoint) (step_nodes st) iPoint)
      else Min_DT st)"
  "Max_DT (SetTime_Step_point geometry config iMesh iPoint st) =
     (if ne_d (nodes_Volume geometry iPoint) (Fin 0)
      then max_d (Max_DT st)
             (Local_Delta_Time_of config iMesh (nodes_Volume geometry iPoint) (step_nodes st) iPoint)
      else Max_DT st)"
  by (simp_all add: SetTime_Step_point_def Let_def)

lemma SetTime_Step_local_extrema:
  "Global_Delta_Time (fold (SetTime_Step_point geometry config iMesh) [0 ..< n] st) =
     fold (\<lambda>iPoint g. if ne_d (nodes_Volume geometry iPoint) (Fin 0)
              then min_d g (Local_Delta_Time_of config iMesh (nodes_Volume geometry iPoint)
                             (step_nodes st) iPoint)
              else g) [0 ..< n] (Global_Delta_Time st) \<and>
   Min_DT (fold (SetTime_Step_point geometry config iMesh) [0 ..< n] st) =
     fold (\<lambda>iPoint g. if ne_d (nodes_Volume geometry iPoint) (Fin 0)
              then min_d g (Local_Delta_Time_of config iMesh (nodes_Volume geometry iPoint)
                             (step_nodes st) iPoint)
              else g) [0 ..< n] (Min_DT st) \<and>
   Max_DT (fold (SetTime_Step_point geometry config iMesh) [0 ..< n] st) =
     fold (\<lambda>iPoint g. if ne_d (nodes_Volume geometry iPoint) (Fin 0)
              then max_d g (Local_Delta_Time_of config iMesh (nodes_Volume geometry iPoint)
                             (step_nodes st) iPoint)
              else g) [0 ..< n] (Max_DT st)"
proof (induction n)
  case 0
  then show ?case by simp
next
  case (Suc n)
  have cong: "Local_Delta_Time_of config iMesh V
                (step_nodes (fold (SetTime_Step_point geometry config iMesh) [0 ..< n] st)) q
              = Local_Delta_Time_of config iMesh V (step_nodes st) q" for V q
    by (rule Local_Delta_Time_of_cong) (simp_all add: SetTime_Step_fold_frame)
  show ?case
    using Suc.IH by (simp add: SetTime_Step_point_extrema cong)
qed

lemma Local_Delta_Time_of_Max_DeltaTime:
  "Local_Delta_Time_of (config\<lparr>Max_DeltaTime := m\<rparr>) iMesh Vol nds iPoint =
   Local_Delta_Time_of config iMesh Vol nds iPoint"
  by (simp add: Local_Delta_Time_of_def Let_def)

text \<open>The loop of the time-stepping mode.\<close>

lemma SetTime_Step_global_result:
  "SetTime_Step_global iMesh Global n (config, nds) =
   ((if n = 0 then config else config\<lparr>CFL := (CFL config)(iMesh := Unst_CFL config)\<rparr>),
    nds\<lparr>Delta_Time := (\<lambda>p. if p < n
            then (if eq_d (Unst_CFL config) (Fin 0) then Delta_UnstTime config else Global)
            else Delta_Time nds p)\<rparr>)"
proof (induction n)
  case 0
  then show ?case by (simp add: SetTime_Step_global_def)
next
  case (Suc n)
  have "SetTime_Step_global iMesh Global (Suc n) (config, nds) =
        SetTime_Step_global_point iMesh Global n (SetTime_Step_global iMesh Global n (config, nds))"
    by (simp add: SetTime_Step_global_def)
  also have "\<dots> = ((if Suc n = 0 then config else config\<lparr>CFL := (CFL config)(iMesh := Unst_CFL config)\<rparr>),
    nds\<lparr>Delta_Time := (\<lambda>p. if p < Suc n
            then (if eq_d (Unst_CFL config) (Fin 0) then Delta_UnstTime config else Global)
            else Delta_Time nds p)\<rparr>)"
    unfolding Suc.IH
    by (auto simp: SetTime_Step_global_point_def SetDelta_Time_def Let_def fun_eq_iff less_Suc_eq)
  finally show ?case .
qed

lemma SetTime_Step_steady_nodes:
  assumes "Time_Marching config \<noteq> TIME_STEPPING" "Time_Marching config \<noteq> DT_STEPPING_1ST"
          "Time_Marching config \<noteq> DT_STEPPING_2ND"
  shows "nodes (fst (SetTime_Step geometry config iMesh Iteration solver)) =
         step_nodes (SetTime_Step_local geometry config iMesh (nPointDomain solver)
                       (SetTime_Step_Lambda geometry config solver))"
  using assms by (simp add: SetTime_Step_def SetTime_Step_dual_def Let_def)

lemma nonneg_quotient:
  assumes "is_fin x" "lt_d (Fin 0) x" "le_d (Fin 0) l"
  shows "le_d (Fin 0) (div_d x l)"
  using assms
  by (cases x; cases l) (auto simp: le_d_def eq_d_def inf_of_sign_def)

lemma pos_product:
  assumes "is_fin x" "lt_d (Fin 0) x" "is_fin y" "lt_d (Fin 0) y"
  shows "is_fin (mul_d x y) \<and> lt_d (Fin 0) (mul_d x y)"
  using assms by (cases x; cases y) auto

lemma nonneg_min:
  "le_d (Fin 0) a \<Longrightarrow> le_d (Fin 0) b \<Longrightarrow> le_d (Fin 0) (min_d a b)"
  by (simp add: min_d_def)

lemma capped_bounds:
  assumes "le_d (Fin 0) x" "le_d (Fin 0) m"
  shows "le_d (Fin 0) (if gt_d x m then m else x) \<and> le_d (if gt_d x m then m else x) m"
  using assms
  by (cases x; cases m) (auto simp: le_d_def eq_d_def gt_d_def)

lemma nonzero_nonneg_pos:
  "is_fin v \<Longrightarrow> le_d (Fin 0) v \<Longrightarrow> ne_d v (Fin 0) \<Longrightarrow> lt_d (Fin 0) v"
  by (cases v) (auto simp: le_d_def eq_d_def ne_d_def)

lemma ne_or_eq_zero: "is_fin v \<Longrightarrow> ne_d v (Fin 0) \<or> v = Fin 0"
  by (cases v) (auto simp: ne_d_def eq_d_def)

text \<open>
  Claim C3 as stated fails in its bound.  A point whose state is not physical has a NaN
  speed of sound; the spectral radius accumulated from it is NaN, and so is the local time
  step.  No comparison with NaN holds, so the maximum is not applied and NaN is stored: the
  time step of point 1 is neither at least 0 nor at most the configured maximum.
\<close>

theorem C3_nan_time_step_counterexample:
  "Time_Marching config_ex = NO \<and> nodes_Volume geo_ex 1 = Fin 1 \<and>
   Max_DeltaTime config_ex = Fin (1 / 4) \<and>
   Delta_Time (nodes (fst (SetTime_Step geo_ex config_ex 0 0 solver_nan))) 1 = NaN \<and>
   \<not> le_d (Fin 0) (Delta_Time (nodes (fst (SetTime_Step geo_ex config_ex 0 0 solver_nan))) 1) \<and>
   \<not> le_d (Delta_Time (nodes (fst (SetTime_Step geo_ex config_ex 0 0 solver_nan))) 1)
         (Max_DeltaTime config_ex)"
proof -
  have steady: "Time_Marching config_ex \<noteq> TIME_STEPPING" "Time_Marching config_ex \<noteq> DT_STEPPING_1ST"
    "Time_Marching config_ex \<noteq> DT_STEPPING_2ND"
    by (simp_all add: config_ex_def)
  have lam: "Max_Lambda_Inv (SetTime_Step_Lambda geo_ex config_ex solver_nan) (Suc 0) = NaN"
    by (simp add: SetTime_Step_Lambda_def Lambda_reset_def Lambda_edge_def Lambda_vertex_def
        Area_of_def AddMax_Lambda_Inv_def AddMax_Lambda_Visc_def Let_def
        geo_ex_def config_ex_def solver_nan_def solver_ex_def nodes_ex_def numeral_2_eq_2
        numeral_3_eq_3)
  have cfg: "CFL config_ex 0 = Fin 1" "Viscous config_ex" "Max_DeltaTime config_ex = Fin (1 / 4)"
    "Time_Marching config_ex = NO"
    by (simp_all add: config_ex_def)
  have geo: "nodes_Volume geo_ex (Suc 0) = Fin 1"
    by (simp add: geo_ex_def)
  have npd: "Suc 0 < nPointDomain solver_nan"
    by (simp add: solver_nan_def solver_ex_def)
  have no_lt: "\<not> lt_d x NaN" for x
    by (cases x) simp_all
  have loc: "Local_Delta_Time_of config_ex 0 (Fin 1)
               (SetTime_Step_Lambda geo_ex config_ex solver_nan) (Suc 0) = NaN"
    by (simp add: Local_Delta_Time_of_def Let_def lam cfg min_d_def no_lt)
  have stored: "Delta_Time (nodes (fst (SetTime_Step geo_ex config_ex 0 0 solver_nan))) (Suc 0) = NaN"
    using npd
    by (simp add: SetTime_Step_steady_nodes [OF steady] SetTime_Step_local_def
        SetTime_Step_local_Delta_Time geo loc)
      (simp add: ne_d_def eq_d_def gt_d_def no_lt)
  show ?thesis
    using stored geo by (simp add: cfg le_d_def eq_d_def)
qed

text \<open>
  Claim C3, amended.  In a steady run (the time marching is neither time stepping nor dual
  time), the time step stored for an owned point of non-zero volume is
  \<^verbatim>\<open>CFL*Vol/Max_Lambda_Inv\<close>, replaced for a viscous run by the smaller of this value and
  \<^verbatim>\<open>CFL*0.5*Vol*Vol/Max_Lambda_Visc\<close>, and replaced by the configured maximum when it is
  larger than that; an owned point of zero volume gets the time step 0, and the routine has
  no failing outcome.  When the CFL number is finite and positive, the volume finite and
  not negative, the configured maximum not negative, and the spectral radius accumulated for
  the point finite and positive (for a viscous run the viscous one as well), the stored time
  step lies between 0 and the configured maximum.
\<close>

theorem C3_steady_local_time_step:
  assumes steady: "Time_Marching config \<noteq> TIME_STEPPING" "Time_Marching config \<noteq> DT_STEPPING_1ST"
                  "Time_Marching config \<noteq> DT_STEPPING_2ND"
      and owned: "iPoint < nPointDomain solver"
      and lam: "nds = SetTime_Step_Lambda geometry config solver"
      and vol: "Vol = nodes_Volume geometry iPoint"
      and inv: "dt_inv = div_d (mul_d (CFL config iMesh) Vol) (Max_Lambda_Inv nds iPoint)"
      and visc: "dt_visc = div_d (mul_d (mul_d (mul_d (CFL config iMesh) (Fin 0.5)) Vol) Vol)
                             (Max_Lambda_Visc nds iPoint)"
      and loc: "dt_local = (if Viscous config then min_d dt_inv dt_visc else dt_inv)"
      and dt: "dt = Delta_Time (nodes (fst (SetTime_Step geometry config iMesh Iteration solver))) iPoint"
  shows "(ne_d Vol (Fin 0) \<longrightarrow>
            dt = (if gt_d dt_local (Max_DeltaTime config) then Max_DeltaTime config else dt_local)) \<and>
         (eq_d Vol (Fin 0) \<longrightarrow> dt = Fin 0) \<and>
         (is_fin (CFL config iMesh) \<and> lt_d (Fin 0) (CFL config iMesh) \<and>
          is_fin Vol \<and> le_d (Fin 0) Vol \<and> le_d (Fin 0) (Max_DeltaTime config) \<and>
          is_fin (Max_Lambda_Inv nds iPoint) \<and> lt_d (Fin 0) (Max_Lambda_Inv nds iPoint) \<and>
          (Viscous config \<longrightarrow>
             is_fin (Max_Lambda_Visc nds iPoint) \<and> lt_d (Fin 0) (Max_Lambda_Visc nds iPoint)) \<longrightarrow>
            le_d (Fin 0) dt \<and> le_d dt (Max_DeltaTime config))"
proof -
  have local: "Local_Delta_Time_of config iMesh Vol nds iPoint = dt_local"
    by (simp add: Local_Delta_Time_of_def Let_def K_v_def loc inv visc)
  have stored: "dt = (if ne_d Vol (Fin 0) then
                        (if gt_d dt_local (Max_DeltaTime config) then Max_DeltaTime config else dt_local)
                      else Fin 0)"
    using owned
    by (simp add: dt SetTime_Step_steady_nodes [OF steady] SetTime_Step_local_def
          SetTime_Step_local_Delta_Time lam [symmetric] vol [symmetric] local)
  have bounds: "le_d (Fin 0) dt \<and> le_d dt (Max_DeltaTime config)"
    if g: "is_fin (CFL config iMesh) \<and> lt_d (Fin 0) (CFL config iMesh) \<and>
          is_fin Vol \<and> le_d (Fin 0) Vol \<and> le_d (Fin 0) (Max_DeltaTime config) \<and>
          is_fin (Max_Lambda_Inv nds iPoint) \<and> lt_d (Fin 0) (Max_Lambda_Inv nds iPoint) \<and>
          (Viscous config \<longrightarrow>
             is_fin (Max_Lambda_Visc nds iPoint) \<and> lt_d (Fin 0) (Max_Lambda_Visc nds iPoint))"
  proof -
    have h: "is_fin (CFL config iMesh) \<and> lt_d (Fin 0) (CFL config iMesh) \<and>
          is_fin Vol \<and> le_d (Fin 0) Vol \<and> le_d (Fin 0) (Max_DeltaTime config) \<and>
          le_d (Fin 0) (Max_Lambda_Inv nds iPoint) \<and>
          (Viscous config \<longrightarrow> le_d (Fin 0) (Max_Lambda_Visc nds iPoint))"
      using g by (simp add: le_d_def)
    show ?thesis
    proof (cases "ne_d Vol (Fin 0)")
      case True
      then have vpos: "lt_d (Fin 0) Vol"
        using h by (simp add: nonzero_nonneg_pos)
      have cv: "is_fin (mul_d (CFL config iMesh) Vol) \<and> lt_d (Fin 0) (mul_d (CFL config iMesh) Vol)"
        using h vpos by (simp add: pos_product)
      have i0: "le_d (Fin 0) dt_inv"
        unfolding inv using cv h by (simp add: nonneg_quotient)
      have half: "is_fin (mul_d (CFL config iMesh) (Fin 0.5)) \<and>
                  lt_d (Fin 0) (mul_d (CFL config iMesh) (Fin 0.5))"
        using h by (intro pos_product) simp_all
      have v0: "le_d (Fin 0) dt_visc" if "Viscous config"
        unfolding visc using that h vpos half
        by (intro nonneg_quotient) (simp_all add: pos_product)
      have "le_d (Fin 0) dt_local"
        using i0 v0 by (simp add: loc nonneg_min)
      then show ?thesis
        using True h capped_bounds [of dt_local "Max_DeltaTime config"] by (simp add: stored)
    next
      case False
      then show ?thesis
        using h by (simp add: stored) (cases "Max_DeltaTime config"; simp add: le_d_def eq_d_def)
    qed
  qed
  have zero: "dt = Fin 0" if "eq_d Vol (Fin 0)"
    using that by (simp add: stored ne_d_def)
  show ?thesis
    using stored bounds zero by simp
qed

lemma Lambda_ex:
  "Max_Lambda_Inv (SetTime_Step_Lambda geo_ex config_ex solver_ex) (Suc 0) = Fin 6"
  "Max_Lambda_Visc (SetTime_Step_Lambda geo_ex config_ex solver_ex) (Suc 0) = Fin 15"
  by (simp_all add: SetTime_Step_Lambda_def Lambda_reset_def Lambda_edge_def Lambda_vertex_def
      Area_of_def AddMax_Lambda_Inv_def AddMax_Lambda_Visc_def Let_def
      geo_ex_def config_ex_def solver_ex_def nodes_ex_def numeral_2_eq_2 numeral_3_eq_3)

theorem C3_steady_local_time_step_witness:
  "Delta_Time (nodes (fst (SetTime_Step geo_ex config_ex 0 0 solver_ex))) 1 = Fin (1 / 30) \<and>
   le_d (Fin 0) (Delta_Time (nodes (fst (SetTime_Step geo_ex config_ex 0 0 solver_ex))) 1) \<and>
   le_d (Delta_Time (nodes (fst (SetTime_Step geo_ex config_ex 0 0 solver_ex))) 1)
     (Max_DeltaTime config_ex)"
proof -
  have steady: "Time_Marching config_ex \<noteq> TIME_STEPPING" "Time_Marching config_ex \<noteq> DT_STEPPING_1ST"
    "Time_Marching config_ex \<noteq> DT_STEPPING_2ND"
    by (simp_all add: config_ex_def)
  have owned: "(1::nat) < nPointDomain solver_ex"
    by (simp add: solver_ex_def)
  have cfg: "CFL config_ex 0 = Fin 1" "Viscous config_ex" "Max_DeltaTime config_ex = Fin (1 / 4)"
    by (simp_all add: config_ex_def)
  have vol: "Fin 1 = nodes_Volume geo_ex 1"
    by (simp add: geo_ex_def)
  have inv: "Fin (1 / 6) = div_d (mul_d (CFL config_ex 0) (Fin 1))
                (Max_Lambda_Inv (SetTime_Step_Lambda geo_ex config_ex solver_ex) 1)"
    by (simp add: Lambda_ex cfg)
  have visc: "Fin (1 / 30) = div_d (mul_d (mul_d (mul_d (CFL config_ex 0) (Fin 0.5)) (Fin 1)) (Fin 1))
                (Max_Lambda_Visc (SetTime_Step_Lambda geo_ex config_ex solver_ex) 1)"
    by (simp add: Lambda_ex cfg)
  have loc: "Fin (1 / 30) = (if Viscous config_ex then min_d (Fin (1 / 6)) (Fin (1 / 30)) else Fin (1 / 6))"
    by (simp add: cfg min_d_def)
  have hyp: "is_fin (CFL config_ex 0) \<and> lt_d (Fin 0) (CFL config_ex 0) \<and>
          is_fin (Fin 1) \<and> le_d (Fin 0) (Fin 1) \<and> le_d (Fin 0) (Max_DeltaTime config_ex) \<and>
          is_fin (Max_Lambda_Inv (SetTime_Step_Lambda geo_ex config_ex solver_ex) 1) \<and>
          lt_d (Fin 0) (Max_Lambda_Inv (SetTime_Step_Lambda geo_ex config_ex solver_ex) 1) \<and>
          is_fin (Max_Lambda_Visc (SetTime_Step_Lambda geo_ex config_ex solver_ex) 1) \<and>
          lt_d (Fin 0) (Max_Lambda_Visc (SetTime_Step_Lambda geo_ex config_ex solver_ex) 1)"
    by (simp add: Lambda_ex cfg le_d_def)
  have cap: "\<not> gt_d (Fin (1 / 30)) (Max_DeltaTime config_ex)" "ne_d (Fin 1) (Fin 0)"
    by (simp_all add: cfg gt_d_def ne_d_def eq_d_def)
  show ?thesis
    using C3_steady_local_time_step [where config = config_ex and iPoint = 1 and solver = solver_ex
        and geometry = geo_ex and iMesh = 0 and Iteration = 0 and Vol = "Fin 1"
        and dt_inv = "Fin (1 / 6)" and dt_visc = "Fin (1 / 30)" and dt_local = "Fin (1 / 30)",
        OF steady owned refl vol inv visc loc refl] hyp cap
    by (simp add: cfg le_d_def)
qed

section \<open>Time step: the global step of the time-stepping mode\<close>

lemma Lambda_parts_Max_DeltaTime:
  "Lambda_reset (config\<lparr>Max_DeltaTime := m\<rparr>) = Lambda_reset config"
  "Lambda_edge geometry (config\<lparr>Max_DeltaTime := m\<rparr>) = Lambda_edge geometry config"
  "Lambda_vertex geometry (config\<lparr>Max_DeltaTime := m\<rparr>) = Lambda_vertex geometry config"
  by (intro ext, simp add: Lambda_reset_def Lambda_edge_def Lambda_vertex_def Let_def)+

lemma SetTime_Step_Lambda_Max_DeltaTime:
  "SetTime_Step_Lambda geometry (config\<lparr>Max_DeltaTime := m\<rparr>) solver =
   SetTime_Step_Lambda geometry config solver"
  by (simp add: SetTime_Step_Lambda_def Lambda_parts_Max_DeltaTime cong: if_cong)

lemma SetTime_Step_local_result:
  "Global_Delta_Time (SetTime_Step_local geometry config iMesh n nds) =
     fold (\<lambda>p g. if ne_d (nodes_Volume geometry p) (Fin 0)
              then min_d g (Local_Delta_Time_of config iMesh (nodes_Volume geometry p) nds p)
              else g) [0 ..< n] (Fin 1000000)"
  "Min_DT (SetTime_Step_local geometry config iMesh n nds) =
     fold (\<lambda>p g. if ne_d (nodes_Volume geometry p) (Fin 0)
              then min_d g (Local_Delta_Time_of config iMesh (nodes_Volume geometry p) nds p)
              else g) [0 ..< n] (Fin 1000000)"
  "Max_DT (SetTime_Step_local geometry config iMesh n nds) =
     fold (\<lambda>p g. if ne_d (nodes_Volume geometry p) (Fin 0)
              then max_d g (Local_Delta_Time_of config iMesh (nodes_Volume geometry p) nds p)
              else g) [0 ..< n] (Fin 0)"
  by (simp_all add: SetTime_Step_local_def SetTime_Step_local_extrema cong: if_cong)

lemma SetTime_Step_time_stepping:
  assumes "Time_Marching config = TIME_STEPPING"
  shows "fst (SetTime_Step geometry config iMesh Iteration solver) =
     (let st = SetTime_Step_local geometry config iMesh (nPointDomain solver)
                 (SetTime_Step_Lambda geometry config solver)
      in solver\<lparr>nodes := snd (SetTime_Step_global iMesh (Global_Delta_Time st) (nPointDomain solver)
                                  (config, step_nodes st)),
                Min_Delta_Time := Min_DT st, Max_Delta_Time := Max_DT st\<rparr>)"
  using assms
  by (simp add: SetTime_Step_def SetTime_Step_dual_def SetTime_Step_global_result Let_def)

lemma SetTime_Step_time_stepping_result:
  assumes ts: "Time_Marching config = TIME_STEPPING"
      and owned: "iPoint < nPointDomain solver"
      and lam: "nds = SetTime_Step_Lambda geometry config solver"
      and unc: "uncapped = (\<lambda>p.
                  if Viscous config
                  then min_d (div_d (mul_d (CFL config iMesh) (nodes_Volume geometry p))
                                (Max_Lambda_Inv nds p))
                             (div_d (mul_d (mul_d (mul_d (CFL config iMesh) (Fin 0.5))
                                       (nodes_Volume geometry p)) (nodes_Volume geometry p))
                                (Max_Lambda_Visc nds p))
                  else div_d (mul_d (CFL config iMesh) (nodes_Volume geometry p))
                         (Max_Lambda_Inv nds p))"
      and glob: "Global = fold (\<lambda>p g. if ne_d (nodes_Volume geometry p) (Fin 0)
                                        then min_d g (uncapped p) else g)
                            [0 ..< nPointDomain solver] (Fin 1000000)"
      and res: "result = SetTime_Step geometry config iMesh Iteration solver"
  shows "Min_Delta_Time (fst result) = Global \<and>
         Max_Delta_Time (fst result) =
           fold (\<lambda>p g. if ne_d (nodes_Volume geometry p) (Fin 0) then max_d g (uncapped p) else g)
             [0 ..< nPointDomain solver] (Fin 0) \<and>
         Delta_Time (nodes (fst result)) iPoint =
           (if eq_d (Unst_CFL config) (Fin 0) then Delta_UnstTime config else Global) \<and>
         Delta_Time (nodes (fst (SetTime_Step geometry (config\<lparr>Max_DeltaTime := m\<rparr>) iMesh
                                   Iteration solver))) iPoint =
           Delta_Time (nodes (fst result)) iPoint"
proof -
  have local: "Local_Delta_Time_of config iMesh (nodes_Volume geometry p) nds p = uncapped p" for p
    by (simp add: Local_Delta_Time_of_def Let_def K_v_def unc)
  have local': "Local_Delta_Time_of (config\<lparr>Max_DeltaTime := m\<rparr>) iMesh (nodes_Volume geometry p) nds p
                  = uncapped p" for p
    by (simp add: Local_Delta_Time_of_def Let_def K_v_def unc)
  have ext: "Global_Delta_Time (SetTime_Step_local geometry config iMesh (nPointDomain solver) nds)
               = Global"
    "Min_DT (SetTime_Step_local geometry config iMesh (nPointDomain solver) nds) = Global"
    "Max_DT (SetTime_Step_local geometry config iMesh (nPointDomain solver) nds) =
       fold (\<lambda>p g. if ne_d (nodes_Volume geometry p) (Fin 0) then max_d g (uncapped p) else g)
         [0 ..< nPointDomain solver] (Fin 0)"
    by (simp_all add: SetTime_Step_local_result local glob cong: if_cong)
  have ext': "Global_Delta_Time (SetTime_Step_local geometry (config\<lparr>Max_DeltaTime := m\<rparr>) iMesh
                 (nPointDomain solver) nds) = Global"
    by (simp add: SetTime_Step_local_result local' glob cong: if_cong)
  have r: "fst result =
      solver\<lparr>nodes := snd (SetTime_Step_global iMesh Global (nPointDomain solver)
                 (config, step_nodes (SetTime_Step_local geometry config iMesh (nPointDomain solver) nds))),
             Min_Delta_Time := Global,
             Max_Delta_Time :=
               fold (\<lambda>p g. if ne_d (nodes_Volume geometry p) (Fin 0) then max_d g (uncapped p) else g)
                 [0 ..< nPointDomain solver] (Fin 0)\<rparr>"
    by (simp add: res SetTime_Step_time_stepping [OF ts] Let_def lam [symmetric] ext)
  have ts': "Time_Marching (config\<lparr>Max_DeltaTime := m\<rparr>) = TIME_STEPPING"
    by (simp add: ts)
  have r': "nodes (fst (SetTime_Step geometry (config\<lparr>Max_DeltaTime := m\<rparr>) iMesh Iteration solver)) =
      snd (SetTime_Step_global iMesh Global (nPointDomain solver)
             (config\<lparr>Max_DeltaTime := m\<rparr>,
              step_nodes (SetTime_Step_local geometry (config\<lparr>Max_DeltaTime := m\<rparr>) iMesh
                            (nPointDomain solver) nds)))"
    by (simp add: SetTime_Step_time_stepping [OF ts'] Let_def lam [symmetric]
          SetTime_Step_Lambda_Max_DeltaTime ext')
  have dt: "Delta_Time (nodes (fst result)) iPoint =
           (if eq_d (Unst_CFL config) (Fin 0) then Delta_UnstTime config else Global)"
    using owned by (simp add: r SetTime_Step_global_result)
  have dt': "Delta_Time (nodes (fst (SetTime_Step geometry (config\<lparr>Max_DeltaTime := m\<rparr>) iMesh
                                   Iteration solver))) iPoint =
           (if eq_d (Unst_CFL config) (Fin 0) then Delta_UnstTime config else Global)"
    using owned by (simp add: r' SetTime_Step_global_result)
  show ?thesis
    using dt dt' by (simp add: r)
qed

lemma Lambda_ts:
  "Max_Lambda_Inv (SetTime_Step_Lambda geo_ex config_ts solver_ex) 0 = Fin 2"
  "Max_Lambda_Inv (SetTime_Step_Lambda geo_ex config_ts solver_ex) (Suc 0) = Fin 6"
  "Max_Lambda_Inv (SetTime_Step_Lambda geo_ex config_ts solver_ex) 2 = Fin 2"
  "Max_Lambda_Visc (SetTime_Step_Lambda geo_ex config_ts solver_ex) 0 = Fin 5"
  "Max_Lambda_Visc (SetTime_Step_Lambda geo_ex config_ts solver_ex) (Suc 0) = Fin 15"
  "Max_Lambda_Visc (SetTime_Step_Lambda geo_ex config_ts solver_ex) 2 = Fin 5"
  by (simp_all add: SetTime_Step_Lambda_def Lambda_reset_def Lambda_edge_def Lambda_vertex_def
      Area_of_def AddMax_Lambda_Inv_def AddMax_Lambda_Visc_def Let_def
      geo_ex_def config_ts_def config_ex_def solver_ex_def nodes_ex_def numeral_2_eq_2 numeral_3_eq_3)

lemma config_ts_fields:
  "Time_Marching config_ts = TIME_STEPPING" "Viscous config_ts" "CFL config_ts 0 = Fin 1"
  "Unst_CFL config_ts = Fin 1" "Max_DeltaTime config_ts = Fin (1 / 100)"
  by (simp_all add: config_ts_def config_ex_def)

lemma time_stepping_example:
  "Delta_Time (nodes (fst (SetTime_Step geo_ex config_ts 0 0 solver_ex))) 1 = Fin (1 / 30)"
proof -
  have owned: "(1::nat) < nPointDomain solver_ex"
    by (simp add: solver_ex_def)
  have npd: "[0 ..< nPointDomain solver_ex] = [0, Suc 0, 2]"
    by (simp add: solver_ex_def numeral_3_eq_3 numeral_2_eq_2)
  have vol: "nodes_Volume geo_ex p = Fin 1" for p
    by (simp add: geo_ex_def)
  show ?thesis
    using SetTime_Step_time_stepping_result [where config = config_ts and iPoint = 1
        and solver = solver_ex and geometry = geo_ex and iMesh = 0 and Iteration = 0,
        OF config_ts_fields(1) owned refl refl refl refl]
    by (simp add: config_ts_fields npd vol Lambda_ts min_d_def eq_d_def ne_d_def)
qed

text \<open>
  Claim C10.  In the time-stepping mode, \<^verbatim>\<open>Min_Delta_Time\<close>, \<^verbatim>\<open>Max_Delta_Time\<close> and the
  global time step are the minimum (starting from 1E6), the maximum (starting from 0) and
  again the minimum of the local steps of the owned points of non-zero volume, taken before
  the configured maximum is applied.  Every owned point is then given the global step (or
  the configured unsteady step when the unsteady CFL number is zero).  The configured
  maximum has no influence on that value, and there is an input for which the step given to
  a point is larger than the configured maximum.
\<close>

theorem C10_time_stepping_global_step_uncapped:
  assumes ts: "Time_Marching config = TIME_STEPPING"
      and owned: "iPoint < nPointDomain solver"
      and lam: "nds = SetTime_Step_Lambda geometry config solver"
      and unc: "uncapped = (\<lambda>p.
                  if Viscous config
                  then min_d (div_d (mul_d (CFL config iMesh) (nodes_Volume geometry p))
                                (Max_Lambda_Inv nds p))
                             (div_d (mul_d (mul_d (mul_d (CFL config iMesh) (Fin 0.5))
                                       (nodes_Volume geometry p)) (nodes_Volume geometry p))
                                (Max_Lambda_Visc nds p))
                  else div_d (mul_d (CFL config iMesh) (nodes_Volume geometry p))
                         (Max_Lambda_Inv nds p))"
      and glob: "Global = fold (\<lambda>p g. if ne_d (nodes_Volume geometry p) (Fin 0)
                                        then min_d g (uncapped p) else g)
                            [0 ..< nPointDomain solver] (Fin 1000000)"
      and res: "result = SetTime_Step geometry config iMesh Iteration solver"
  shows "Min_Delta_Time (fst result) = Global \<and>
         Max_Delta_Time (fst result) =
           fold (\<lambda>p g. if ne_d (nodes_Volume geometry p) (Fin 0) then max_d g (uncapped p) else g)
             [0 ..< nPointDomain solver] (Fin 0) \<and>
         Delta_Time (nodes (fst result)) iPoint =
           (if eq_d (Unst_CFL config) (Fin 0) then Delta_UnstTime config else Global) \<and>
         Delta_Time (nodes (fst (SetTime_Step geometry (config\<lparr>Max_DeltaTime := m\<rparr>) iMesh
                                   Iteration solver))) iPoint =
           Delta_Time (nodes (fst result)) iPoint \<and>
         (\<exists>geometry' config' solver' iPoint'.
            Time_Marching config' = TIME_STEPPING \<and> iPoint' < nPointDomain solver' \<and>
            gt_d (Delta_Time (nodes (fst (SetTime_Step geometry' config' 0 0 solver'))) iPoint')
                 (Max_DeltaTime config'))"
proof -
  have "Time_Marching config_ts = TIME_STEPPING \<and> 1 < nPointDomain solver_ex \<and>
        gt_d (Delta_Time (nodes (fst (SetTime_Step geo_ex config_ts 0 0 solver_ex))) 1)
             (Max_DeltaTime config_ts)"
    using time_stepping_example by (simp add: config_ts_fields gt_d_def solver_ex_def)
  then have ex: "\<exists>geometry' config' solver' iPoint'.
            Time_Marching config' = TIME_STEPPING \<and> iPoint' < nPointDomain solver' \<and>
            gt_d (Delta_Time (nodes (fst (SetTime_Step geometry' config' 0 0 solver'))) iPoint')
                 (Max_DeltaTime config')"
    by blast
  show ?thesis
    using SetTime_Step_time_stepping_result [OF ts owned lam unc glob res, of m] ex by simp
qed

theorem C10_time_stepping_global_step_uncapped_witness:
  "Delta_Time (nodes (fst (SetTime_Step geo_ex config_ts 0 0 solver_ex))) 1 = Fin (1 / 30) \<and>
   Min_Delta_Time (fst (SetTime_Step geo_ex config_ts 0 0 solver_ex)) = Fin (1 / 30) \<and>
   Max_Delta_Time (fst (SetTime_Step geo_ex config_ts 0 0 solver_ex)) = Fin (1 / 10) \<and>
   gt_d (Fin (1 / 30)) (Max_DeltaTime config_ts)"
proof -
  have owned: "(1::nat) < nPointDomain solver_ex"
    by (simp add: solver_ex_def)
  have npd: "[0 ..< nPointDomain solver_ex] = [0, Suc 0, 2]"
    by (simp add: solver_ex_def numeral_3_eq_3 numeral_2_eq_2)
  have vol: "nodes_Volume geo_ex p = Fin 1" for p
    by (simp add: geo_ex_def)
  show ?thesis
    using C10_time_stepping_global_step_uncapped [where config = config_ts and iPoint = 1
        and solver = solver_ex and geometry = geo_ex and iMesh = 0 and Iteration = 0,
        OF config_ts_fields(1) owned refl refl refl refl]
    by (simp add: config_ts_fields npd vol Lambda_ts min_d_def max_d_def eq_d_def ne_d_def gt_d_def)
qed

section \<open>Implicit Euler: the diagonal of the system and cells without a time step\<close>

lemma AddRes_frame:
  "Jacobian (AddRes_RMS v r s) = Jacobian s" "LinSysRes (AddRes_RMS v r s) = LinSysRes s"
  "LinSysSol (AddRes_RMS v r s) = LinSysSol s"
  "nodes (AddRes_RMS v r s) = nodes s" "nVar (AddRes_RMS v r s) = nVar s"
  "Jacobian (AddRes_Max v r p c s) = Jacobian s" "LinSysRes (AddRes_Max v r p c s) = LinSysRes s"
  "LinSysSol (AddRes_Max v r p c s) = LinSysSol s"
  "nodes (AddRes_Max v r p c s) = nodes s" "nVar (AddRes_Max v r p c s) = nVar s"
  by (simp_all add: AddRes_RMS_def AddRes_Max_def)

lemma ImplicitEuler_rhs_frame:
  "Jacobian (ImplicitEuler_rhs geometry iPoint iVar s) = Jacobian s"
  "nodes (ImplicitEuler_rhs geometry iPoint iVar s) = nodes s"
  "nVar (ImplicitEuler_rhs geometry iPoint iVar s) = nVar s"
  "LinSysRes (ImplicitEuler_rhs geometry iPoint iVar s) =
     (LinSysRes s)(iPoint := (LinSysRes s iPoint)(iVar :=
        neg_d (add_d (LinSysRes s iPoint iVar) (ResTruncError (nodes s) iPoint iVar))))"
  by (simp_all add: ImplicitEuler_rhs_def Let_def AddRes_frame)

lemma ImplicitEuler_rhs_fold:
  "Jacobian (fold (ImplicitEuler_rhs geometry iPoint) [0 ..< m] s) = Jacobian s \<and>
   nodes (fold (ImplicitEuler_rhs geometry iPoint) [0 ..< m] s) = nodes s \<and>
   nVar (fold (ImplicitEuler_rhs geometry iPoint) [0 ..< m] s) = nVar s \<and>
   LinSysRes (fold (ImplicitEuler_rhs geometry iPoint) [0 ..< m] s) =
     (LinSysRes s)(iPoint := (\<lambda>a. if a < m
        then neg_d (add_d (LinSysRes s iPoint a) (ResTruncError (nodes s) iPoint a))
        else LinSysRes s iPoint a))"
proof (induction m)
  case 0
  then show ?case by simp
next
  case (Suc m)
  then show ?case
    by (auto simp: ImplicitEuler_rhs_frame fun_eq_iff less_Suc_eq)
qed

lemma ImplicitEuler_point_result:
  "nVar (ImplicitEuler_point geometry iPoint s) = nVar s"
  "Delta_Time (nodes (ImplicitEuler_point geometry iPoint s)) = Delta_Time (nodes s)"
  "Jacobian (ImplicitEuler_point geometry iPoint s) =
     (if ne_d (Delta_Time (nodes s) iPoint) (Fin 0)
      then AddVal2Diag (nVar s) iPoint
             (div_d (nodes_Volume geometry iPoint) (Delta_Time (nodes s) iPoint)) (Jacobian s)
      else SetVal2Diag (nVar s) iPoint (Fin 1) (Jacobian s))"
  "ResTruncError (nodes (ImplicitEuler_point geometry iPoint s)) =
     (if ne_d (Delta_Time (nodes s) iPoint) (Fin 0)
      then ResTruncError (nodes s)
      else (ResTruncError (nodes s))(iPoint :=
             (\<lambda>iVar. if iVar < nVar s then Fin 0 else ResTruncError (nodes s) iPoint iVar)))"
  "LinSysRes (ImplicitEuler_point geometry iPoint s) =
     (LinSysRes s)(iPoint := (\<lambda>a. if a < nVar s
        then (if ne_d (Delta_Time (nodes s) iPoint) (Fin 0)
              then neg_d (add_d (LinSysRes s iPoint a) (ResTruncError (nodes s) iPoint a))
              else Fin 0)
        else LinSysRes s iPoint a))"
  by (auto simp: ImplicitEuler_point_def ImplicitEuler_diag_def ImplicitEuler_rhs_fold Let_def
        fun_eq_iff)

text \<open>What the system holds for point \<open>p\<close>: its block row, its right-hand side, its
  truncation error; together with the data the loop body reads.\<close>

lemma ImplicitEuler_point_other:
  assumes "q \<noteq> p"
  shows "Jacobian (ImplicitEuler_point geometry q s) p = Jacobian s p \<and>
         LinSysRes (ImplicitEuler_point geometry q s) p = LinSysRes s p \<and>
         ResTruncError (nodes (ImplicitEuler_point geometry q s)) p = ResTruncError (nodes s) p"
  using assms
  by (simp add: ImplicitEuler_point_result AddVal2Diag_def SetVal2Diag_def)

lemma ImplicitEuler_points_other:
  assumes "p \<notin> set ps"
  shows "Jacobian (fold (ImplicitEuler_point geometry) ps s) p = Jacobian s p \<and>
         LinSysRes (fold (ImplicitEuler_point geometry) ps s) p = LinSysRes s p \<and>
         ResTruncError (nodes (fold (ImplicitEuler_point geometry) ps s)) p
           = ResTruncError (nodes s) p \<and>
         nVar (fold (ImplicitEuler_point geometry) ps s) = nVar s \<and>
         Delta_Time (nodes (fold (ImplicitEuler_point geometry) ps s)) = Delta_Time (nodes s)"
  using assms
proof (induction ps arbitrary: s)
  case Nil
  then show ?case by simp
next
  case (Cons q ps)
  then have "q \<noteq> p" "p \<notin> set ps" by auto
  then show ?case
    using Cons.IH [of "ImplicitEuler_point geometry q s"] ImplicitEuler_point_other [of q p geometry s]
    by (simp add: ImplicitEuler_point_result(1,2))
qed

lemma ImplicitEuler_ghost_result:
  "Jacobian (ImplicitEuler_ghost q s) = Jacobian s"
  "nodes (ImplicitEuler_ghost q s) = nodes s"
  "nVar (ImplicitEuler_ghost q s) = nVar s"
  "p \<noteq> q \<Longrightarrow> LinSysRes (ImplicitEuler_ghost q s) p = LinSysRes s p"
proof -
  have "Jacobian (fold (\<lambda>iVar s. s\<lparr>
        LinSysRes := (LinSysRes s)(q := (LinSysRes s q)(iVar := Fin 0)),
        LinSysSol := (LinSysSol s)(q := (LinSysSol s q)(iVar := Fin 0))\<rparr>) vs s) = Jacobian s \<and>
      nodes (fold (\<lambda>iVar s. s\<lparr>
        LinSysRes := (LinSysRes s)(q := (LinSysRes s q)(iVar := Fin 0)),
        LinSysSol := (LinSysSol s)(q := (LinSysSol s q)(iVar := Fin 0))\<rparr>) vs s) = nodes s \<and>
      nVar (fold (\<lambda>iVar s. s\<lparr>
        LinSysRes := (LinSysRes s)(q := (LinSysRes s q)(iVar := Fin 0)),
        LinSysSol := (LinSysSol s)(q := (LinSysSol s q)(iVar := Fin 0))\<rparr>) vs s) = nVar s \<and>
      (p \<noteq> q \<longrightarrow> LinSysRes (fold (\<lambda>iVar s. s\<lparr>
        LinSysRes := (LinSysRes s)(q := (LinSysRes s q)(iVar := Fin 0)),
        LinSysSol := (LinSysSol s)(q := (LinSysSol s q)(iVar := Fin 0))\<rparr>) vs s) p = LinSysRes s p)"
    for vs
    by (induction vs arbitrary: s) simp_all
  then show "Jacobian (ImplicitEuler_ghost q s) = Jacobian s"
    "nodes (ImplicitEuler_ghost q s) = nodes s"
    "nVar (ImplicitEuler_ghost q s) = nVar s"
    "p \<noteq> q \<Longrightarrow> LinSysRes (ImplicitEuler_ghost q s) p = LinSysRes s p"
    by (simp_all add: ImplicitEuler_ghost_def)
qed

lemma ImplicitEuler_ghosts_other:
  assumes "p \<notin> set qs"
  shows "Jacobian (fold ImplicitEuler_ghost qs s) = Jacobian s \<and>
         nodes (fold ImplicitEuler_ghost qs s) = nodes s \<and>
         LinSysRes (fold ImplicitEuler_ghost qs s) p = LinSysRes s p"
  using assms
  by (induction qs arbitrary: s) (simp_all add: ImplicitEuler_ghost_result)

lemma ImplicitEuler_reset_frame:
  "Jacobian (ImplicitEuler_reset s) = Jacobian s \<and> nodes (ImplicitEuler_reset s) = nodes s \<and>
   LinSysRes (ImplicitEuler_reset s) = LinSysRes s \<and> nVar (ImplicitEuler_reset s) = nVar s \<and>
   nPointDomain (ImplicitEuler_reset s) = nPointDomain s"
proof -
  have "Jacobian (fold (\<lambda>iVar s. SetRes_Max iVar (Fin 0) 0 (SetRes_RMS iVar (Fin 0) s)) vs s)
          = Jacobian s \<and>
        nodes (fold (\<lambda>iVar s. SetRes_Max iVar (Fin 0) 0 (SetRes_RMS iVar (Fin 0) s)) vs s)
          = nodes s \<and>
        LinSysRes (fold (\<lambda>iVar s. SetRes_Max iVar (Fin 0) 0 (SetRes_RMS iVar (Fin 0) s)) vs s)
          = LinSysRes s \<and>
        nVar (fold (\<lambda>iVar s. SetRes_Max iVar (Fin 0) 0 (SetRes_RMS iVar (Fin 0) s)) vs s)
          = nVar s \<and>
        nPointDomain (fold (\<lambda>iVar s. SetRes_Max iVar (Fin 0) 0 (SetRes_RMS iVar (Fin 0) s)) vs s)
          = nPointDomain s" for vs
    by (induction vs arbitrary: s) (simp_all add: SetRes_Max_def SetRes_RMS_def)
  then show ?thesis by (simp add: ImplicitEuler_reset_def)
qed

lemma ImplicitEuler_build_owned:
  assumes p: "p < nPointDomain s"
  shows "Jacobian (ImplicitEuler_build geometry s) p =
           (if ne_d (Delta_Time (nodes s) p) (Fin 0)
            then (Jacobian s p)(p := (\<lambda>a b. if a < nVar s \<and> b = a
                    then add_d (Jacobian s p p a b)
                           (div_d (nodes_Volume geometry p) (Delta_Time (nodes s) p))
                    else Jacobian s p p a b))
            else (\<lambda>j a b. if a < nVar s \<and> b < nVar s
                    then (if j = p \<and> b = a then Fin 1 else Fin 0)
                    else Jacobian s p j a b))"
    and "LinSysRes (ImplicitEuler_build geometry s) p =
           (\<lambda>a. if a < nVar s
                 then (if ne_d (Delta_Time (nodes s) p) (Fin 0)
                       then neg_d (add_d (LinSysRes s p a) (ResTruncError (nodes s) p a))
                       else Fin 0)
                 else LinSysRes s p a)"
    and "ResTruncError (nodes (ImplicitEuler_build geometry s)) p =
           (if ne_d (Delta_Time (nodes s) p) (Fin 0)
            then ResTruncError (nodes s) p
            else (\<lambda>a. if a < nVar s then Fin 0 else ResTruncError (nodes s) p a))"
proof -
  define s0 where "s0 = ImplicitEuler_reset s"
  define s1 where "s1 = fold (ImplicitEuler_point geometry) [0 ..< p] s0"
  define s2 where "s2 = ImplicitEuler_point geometry p s1"
  define s3 where "s3 = fold (ImplicitEuler_point geometry) [Suc p ..< nPointDomain s] s2"
  have split: "[0 ..< nPointDomain s] = [0 ..< p] @ p # [Suc p ..< nPointDomain s]"
  proof -
    have "[0 ..< nPointDomain s] = [0 ..< p] @ [p ..< nPointDomain s]"
      using p upt_add_eq_append [of 0 p "nPointDomain s - p"] by simp
    then show ?thesis
      using p by (simp add: upt_conv_Cons)
  qed
  have built: "ImplicitEuler_build geometry s =
                 fold ImplicitEuler_ghost [nPointDomain s ..< nPoint s] s3"
    by (simp add: ImplicitEuler_build_def split s3_def s2_def s1_def s0_def)
  have v0: "Jacobian s0 = Jacobian s" "nodes s0 = nodes s" "LinSysRes s0 = LinSysRes s"
    "nVar s0 = nVar s"
    by (simp_all add: s0_def ImplicitEuler_reset_frame)
  have v1: "Jacobian s1 p = Jacobian s p" "LinSysRes s1 p = LinSysRes s p"
    "ResTruncError (nodes s1) p = ResTruncError (nodes s) p" "nVar s1 = nVar s"
    "Delta_Time (nodes s1) = Delta_Time (nodes s)"
    using ImplicitEuler_points_other [of p "[0 ..< p]" geometry s0]
    by (simp_all add: s1_def v0)
  have v3: "Jacobian s3 p = Jacobian s2 p" "LinSysRes s3 p = LinSysRes s2 p"
    "ResTruncError (nodes s3) p = ResTruncError (nodes s2) p"
    using ImplicitEuler_points_other [of p "[Suc p ..< nPointDomain s]" geometry s2]
    by (simp_all add: s3_def)
  have v4: "Jacobian (ImplicitEuler_build geometry s) p = Jacobian s3 p"
    "LinSysRes (ImplicitEuler_build geometry s) p = LinSysRes s3 p"
    "ResTruncError (nodes (ImplicitEuler_build geometry s)) p = ResTruncError (nodes s3) p"
    using p ImplicitEuler_ghosts_other [of p "[nPointDomain s ..< nPoint s]" s3]
    by (simp_all add: built)
  show "Jacobian (ImplicitEuler_build geometry s) p =
           (if ne_d (Delta_Time (nodes s) p) (Fin 0)
            then (Jacobian s p)(p := (\<lambda>a b. if a < nVar s \<and> b = a
                    then add_d (Jacobian s p p a b)
                           (div_d (nodes_Volume geometry p) (Delta_Time (nodes s) p))
                    else Jacobian s p p a b))
            else (\<lambda>j a b. if a < nVar s \<and> b < nVar s
                    then (if j = p \<and> b = a then Fin 1 else Fin 0)
                    else Jacobian s p j a b))"
    by (simp add: v4 v3 s2_def ImplicitEuler_point_result AddVal2Diag_def SetVal2Diag_def v1
          cong: if_cong)
  show "LinSysRes (ImplicitEuler_build geometry s) p =
           (\<lambda>a. if a < nVar s
                 then (if ne_d (Delta_Time (nodes s) p) (Fin 0)
                       then neg_d (add_d (LinSysRes s p a) (ResTruncError (nodes s) p a))
                       else Fin 0)
                 else LinSysRes s p a)"
    by (simp add: v4 v3 s2_def ImplicitEuler_point_result v1 cong: if_cong)
  show "ResTruncError (nodes (ImplicitEuler_build geometry s)) p =
           (if ne_d (Delta_Time (nodes s) p) (Fin 0)
            then ResTruncError (nodes s) p
            else (\<lambda>a. if a < nVar s then Fin 0 else ResTruncError (nodes s) p a))"
    by (simp add: v4 v3 s2_def ImplicitEuler_point_result v1 cong: if_cong)
qed

text \<open>A row of the identity matrix times a vector of finite values.\<close>

lemma unit_row_inner:
  assumes J: "\<forall>b<n. J b = (if j = i \<and> b = a then Fin 1 else Fin 0)"
      and x: "\<forall>b<n. x b = Fin (y b)"
      and m: "m \<le> n"
  shows "fold (\<lambda>jVar acc. add_d acc (mul_d (J jVar) (x jVar))) [0 ..< m] (Fin r) =
         Fin (r + (if j = i \<and> a < m then y a else 0))"
  using m
proof (induction m)
  case 0
  then show ?case by simp
next
  case (Suc m)
  then have "m < n" "m \<le> n" by simp_all
  then show ?case
    using Suc.IH J x by (auto simp: less_Suc_eq)
qed

lemma unit_row_times:
  assumes J: "\<forall>j<np. \<forall>b<n. J i j a b = (if j = i \<and> b = a then Fin 1 else Fin 0)"
      and x: "\<forall>j<np. \<forall>b<n. x j b = Fin (y j b)"
      and i: "i < np" and a: "a < n"
  shows "row_times np n J x i a = x i a"
proof -
  have outer: "k \<le> np \<Longrightarrow>
      fold (\<lambda>jPoint. fold (\<lambda>jVar acc. add_d acc (mul_d (J i jPoint a jVar) (x jPoint jVar)))
        [0 ..< n]) [0 ..< k] (Fin 0) = Fin (if i < k then y i a else 0)" for k
  proof (induction k)
    case 0
    then show ?case by simp
  next
    case (Suc k)
    then have k: "k < np" "k \<le> np" by simp_all
    have inner: "fold (\<lambda>jVar acc. add_d acc (mul_d (J i k a jVar) (x k jVar))) [0 ..< n] (Fin r) =
                 Fin (r + (if k = i \<and> a < n then y k a else 0))" for r
      using unit_row_inner [where J = "J i k a" and x = "x k" and y = "y k" and n = n and m = n
          and j = k and i = i and a = a and r = r] J x k
      by auto
    show ?case
      using Suc.IH [OF k(2)] a by (auto simp: inner less_Suc_eq)
  qed
  show ?thesis
    using outer [of np] i a x by (simp add: row_times_def)
qed

text \<open>The parts of the solver that the construction of the system leaves alone.\<close>

lemma ImplicitEuler_rhs_sizes:
  "nPointDomain (fold (ImplicitEuler_rhs geometry iPoint) vs s) = nPointDomain s \<and>
   nPoint (fold (ImplicitEuler_rhs geometry iPoint) vs s) = nPoint s"
  by (induction vs arbitrary: s)
    (simp_all add: ImplicitEuler_rhs_def Let_def AddRes_RMS_def AddRes_Max_def)

lemma ImplicitEuler_point_frame:
  "nPointDomain (ImplicitEuler_point geometry iPoint s) = nPointDomain s"
  "nPoint (ImplicitEuler_point geometry iPoint s) = nPoint s"
  "Solution (nodes (ImplicitEuler_point geometry iPoint s)) = Solution (nodes s)"
  "UnderRelaxation (nodes (ImplicitEuler_point geometry iPoint s)) = UnderRelaxation (nodes s)"
  by (simp_all add: ImplicitEuler_point_def ImplicitEuler_rhs_sizes ImplicitEuler_rhs_fold
      ImplicitEuler_diag_def Let_def)

lemma ImplicitEuler_points_frame:
  "nPointDomain (fold (ImplicitEuler_point geometry) ps s) = nPointDomain s \<and>
   nPoint (fold (ImplicitEuler_point geometry) ps s) = nPoint s \<and>
   nVar (fold (ImplicitEuler_point geometry) ps s) = nVar s \<and>
   Solution (nodes (fold (ImplicitEuler_point geometry) ps s)) = Solution (nodes s) \<and>
   UnderRelaxation (nodes (fold (ImplicitEuler_point geometry) ps s)) = UnderRelaxation (nodes s)"
  by (induction ps arbitrary: s) (simp_all add: ImplicitEuler_point_frame ImplicitEuler_point_result(1))

lemma ImplicitEuler_ghost_sizes:
  "nPointDomain (ImplicitEuler_ghost q s) = nPointDomain s"
  "nPoint (ImplicitEuler_ghost q s) = nPoint s"
proof -
  have "nPointDomain (fold (\<lambda>iVar s. s\<lparr>
        LinSysRes := (LinSysRes s)(q := (LinSysRes s q)(iVar := Fin 0)),
        LinSysSol := (LinSysSol s)(q := (LinSysSol s q)(iVar := Fin 0))\<rparr>) vs s) = nPointDomain s \<and>
      nPoint (fold (\<lambda>iVar s. s\<lparr>
        LinSysRes := (LinSysRes s)(q := (LinSysRes s q)(iVar := Fin 0)),
        LinSysSol := (LinSysSol s)(q := (LinSysSol s q)(iVar := Fin 0))\<rparr>) vs s) = nPoint s"
    for vs
    by (induction vs arbitrary: s) simp_all
  then show "nPointDomain (ImplicitEuler_ghost q s) = nPointDomain s"
    "nPoint (ImplicitEuler_ghost q s) = nPoint s"
    by (simp_all add: ImplicitEuler_ghost_def)
qed

lemma ImplicitEuler_ghosts_frame:
  "nPointDomain (fold ImplicitEuler_ghost qs s) = nPointDomain s \<and>
   nPoint (fold ImplicitEuler_ghost qs s) = nPoint s \<and>
   nVar (fold ImplicitEuler_ghost qs s) = nVar s \<and>
   nodes (fold ImplicitEuler_ghost qs s) = nodes s"
  by (induction qs arbitrary: s) (simp_all add: ImplicitEuler_ghost_sizes ImplicitEuler_ghost_result)

lemma ImplicitEuler_reset_sizes:
  "nPoint (ImplicitEuler_reset s) = nPoint s"
proof -
  have "nPoint (fold (\<lambda>iVar s. SetRes_Max iVar (Fin 0) 0 (SetRes_RMS iVar (Fin 0) s)) vs s)
          = nPoint s" for vs
    by (induction vs arbitrary: s) (simp_all add: SetRes_Max_def SetRes_RMS_def)
  then show ?thesis by (simp add: ImplicitEuler_reset_def)
qed

lemma ImplicitEuler_build_frame:
  "nPointDomain (ImplicitEuler_build geometry s) = nPointDomain s"
  "nVar (ImplicitEuler_build geometry s) = nVar s"
  "Solution (nodes (ImplicitEuler_build geometry s)) = Solution (nodes s)"
  "UnderRelaxation (nodes (ImplicitEuler_build geometry s)) = UnderRelaxation (nodes s)"
  by (simp_all add: ImplicitEuler_build_def ImplicitEuler_ghosts_frame ImplicitEuler_points_frame
      ImplicitEuler_reset_frame)

text \<open>The update adds the relaxed increment to every variable of every owned point and
  leaves the linear system alone.\<close>

lemma ImplicitEuler_update_inner:
  "fold (\<lambda>iVar s. s\<lparr>nodes := AddSolution p iVar
              (mul_d (UnderRelaxation (nodes s) p) (LinSysSol s p iVar)) (nodes s)\<rparr>) [0 ..< k] s =
   s\<lparr>nodes := (nodes s)\<lparr>Solution := (Solution (nodes s))(p := (\<lambda>v.
        if v < k then add_d (Solution (nodes s) p v)
                        (mul_d (UnderRelaxation (nodes s) p) (LinSysSol s p v))
        else Solution (nodes s) p v))\<rparr>\<rparr>"
proof (induction k)
  case 0
  then show ?case by simp
next
  case (Suc k)
  show ?case
    unfolding upt_Suc_append [OF le0] fold_append comp_def Suc.IH
    by (auto simp: AddSolution_def fun_eq_iff)
qed

lemma ImplicitEuler_update_outer:
  "fold (\<lambda>iPoint. fold (\<lambda>iVar s. s\<lparr>nodes := AddSolution iPoint iVar
              (mul_d (UnderRelaxation (nodes s) iPoint) (LinSysSol s iPoint iVar)) (nodes s)\<rparr>)
           [0 ..< n]) [0 ..< m] s =
   s\<lparr>nodes := (nodes s)\<lparr>Solution := (\<lambda>p v.
        if p < m \<and> v < n then add_d (Solution (nodes s) p v)
                                 (mul_d (UnderRelaxation (nodes s) p) (LinSysSol s p v))
        else Solution (nodes s) p v)\<rparr>\<rparr>"
proof (induction m)
  case 0
  then show ?case by simp
next
  case (Suc m)
  show ?case
    unfolding upt_Suc_append [OF le0] fold_append comp_def Suc.IH
    by (auto simp: ImplicitEuler_update_inner fun_eq_iff less_Suc_eq)
qed

lemma ImplicitEuler_update_result:
  "ImplicitEuler_update s =
   s\<lparr>nodes := (nodes s)\<lparr>Solution := (\<lambda>p v.
        if p < nPointDomain s \<and> v < nVar s
        then add_d (Solution (nodes s) p v) (mul_d (UnderRelaxation (nodes s) p) (LinSysSol s p v))
        else Solution (nodes s) p v)\<rparr>\<rparr>"
  by (simp add: ImplicitEuler_update_def ImplicitEuler_update_outer)


lemma ImplicitEuler_solve_update_result:
  assumes rms: "\<forall>s. nodes (SetResidual_RMS s) = nodes s \<and> Jacobian (SetResidual_RMS s) = Jacobian s \<and>
                   LinSysRes (SetResidual_RMS s) = LinSysRes s \<and>
                   LinSysSol (SetResidual_RMS s) = LinSysSol s"
      and built: "built = ImplicitEuler_build geometry solver"
      and res: "result = SetResidual_RMS (ImplicitEuler_update
                  (case Solve (Jacobian built) (LinSysRes built) (LinSysSol built) of
                     (IterLinSol, sol) \<Rightarrow> built\<lparr>LinSysSol := sol, IterLinSolver := IterLinSol\<rparr>))"
  shows "Jacobian result = Jacobian built"
    and "LinSysRes result = LinSysRes built"
    and "LinSysSol result = snd (Solve (Jacobian built) (LinSysRes built) (LinSysSol built))"
    and "ResTruncError (nodes result) = ResTruncError (nodes built)"
    and "Solution (nodes result) = (\<lambda>p v.
           if p < nPointDomain solver \<and> v < nVar solver
           then add_d (Solution (nodes solver) p v)
                  (mul_d (UnderRelaxation (nodes solver) p) (LinSysSol result p v))
           else Solution (nodes solver) p v)"
proof -
  obtain it xs where solve: "Solve (Jacobian built) (LinSysRes built) (LinSysSol built) = (it, xs)"
    by (cases "Solve (Jacobian built) (LinSysRes built) (LinSysSol built)")
  define solved where "solved = built\<lparr>LinSysSol := xs, IterLinSolver := it\<rparr>"
  have r: "result = SetResidual_RMS (ImplicitEuler_update solved)"
    by (simp add: res solve solved_def)
  have f: "nPointDomain solved = nPointDomain solver" "nVar solved = nVar solver"
    "Solution (nodes solved) = Solution (nodes solver)"
    "UnderRelaxation (nodes solved) = UnderRelaxation (nodes solver)"
    "LinSysSol solved = xs" "Jacobian solved = Jacobian built" "LinSysRes solved = LinSysRes built"
    "ResTruncError (nodes solved) = ResTruncError (nodes built)"
    by (simp_all add: solved_def built ImplicitEuler_build_frame)
  show "Jacobian result = Jacobian built"
    by (simp add: r rms ImplicitEuler_update_result f)
  show "LinSysRes result = LinSysRes built"
    by (simp add: r rms ImplicitEuler_update_result f)
  show s: "LinSysSol result = snd (Solve (Jacobian built) (LinSysRes built) (LinSysSol built))"
    by (simp add: r rms ImplicitEuler_update_result f solve)
  show "ResTruncError (nodes result) = ResTruncError (nodes built)"
    by (simp add: r rms ImplicitEuler_update_result f)
  have xs: "LinSysSol result = xs"
    by (simp add: s solve)
  show "Solution (nodes result) = (\<lambda>p v.
           if p < nPointDomain solver \<and> v < nVar solver
           then add_d (Solution (nodes solver) p v)
                  (mul_d (UnderRelaxation (nodes solver) p) (LinSysSol result p v))
           else Solution (nodes solver) p v)"
    unfolding xs
    by (simp add: r rms ImplicitEuler_update_result f cong: if_cong)
qed

lemma relaxed_zero: "is_fin u \<Longrightarrow> add_d s (mul_d u (Fin 0)) = s"
  by (cases u; cases s) simp_all


text \<open>
  Claim C8.  Let \<^verbatim>\<open>ImplicitEuler_Iteration\<close> run with a linear solver and a residual
  monitor that writes neither the point data nor the linear system, and take an owned
  point.  The vector the routine leaves in \<^verbatim>\<open>LinSysSol\<close> is what the linear solver returned
  for the Jacobian and the right-hand side the routine ends with, and the solution of the
  point has moved by the under-relaxation factor times its entry of that vector.  If the
  time step of the point is not zero, \<^verbatim>\<open>Volume/\<Delta>t\<close> has been added to the diagonal
  entries of its diagonal Jacobian block, nothing else in its block row has changed, and its
  right-hand side is minus the sum of residual and truncation error.  If the time step is
  zero, its block row is the matching rows of the identity matrix, and its right-hand side
  and its truncation error are zero: the equations of the point read \<open>x = 0\<close> whatever the
  other rows hold.  So when the vector the linear solver returned has finite entries and
  satisfies the equation of a variable of such a point, its entry for that variable is zero,
  and with a finite under-relaxation factor the solution of the point is unchanged.
\<close>

theorem C8_implicit_diagonal_and_degenerate_cells:
  assumes owned: "iPoint < nPointDomain solver"
      and np: "nPointDomain solver \<le> nPoint solver"
      and iVar: "iVar < nVar solver" and jVar: "jVar < nVar solver"
      and rms: "\<forall>s. nodes (SetResidual_RMS s) = nodes s \<and> Jacobian (SetResidual_RMS s) = Jacobian s \<and>
                   LinSysRes (SetResidual_RMS s) = LinSysRes s \<and>
                   LinSysSol (SetResidual_RMS s) = LinSysSol s"
      and res: "result = ImplicitEuler_Iteration Solve SetResidual_RMS geometry solver"
      and dt: "dt = Delta_Time (nodes solver) iPoint"
      and sol: "sol = LinSysSol result"
  shows "sol = snd (Solve (Jacobian result) (LinSysRes result)
                      (LinSysSol (ImplicitEuler_build geometry solver))) \<and>
         Solution (nodes result) iPoint iVar =
           add_d (Solution (nodes solver) iPoint iVar)
             (mul_d (UnderRelaxation (nodes solver) iPoint) (sol iPoint iVar)) \<and>
         (ne_d dt (Fin 0) \<longrightarrow>
            Jacobian result iPoint iPoint iVar iVar =
              add_d (Jacobian solver iPoint iPoint iVar iVar) (div_d (nodes_Volume geometry iPoint) dt) \<and>
            (jVar \<noteq> iVar \<longrightarrow>
               Jacobian result iPoint iPoint iVar jVar = Jacobian solver iPoint iPoint iVar jVar) \<and>
            (jPoint \<noteq> iPoint \<longrightarrow> Jacobian result iPoint jPoint = Jacobian solver iPoint jPoint) \<and>
            LinSysRes result iPoint iVar =
              neg_d (add_d (LinSysRes solver iPoint iVar) (ResTruncError (nodes solver) iPoint iVar))) \<and>
         (eq_d dt (Fin 0) \<longrightarrow>
            Jacobian result iPoint jPoint iVar jVar =
              (if jPoint = iPoint \<and> jVar = iVar then Fin 1 else Fin 0) \<and>
            LinSysRes result iPoint iVar = Fin 0 \<and>
            ResTruncError (nodes result) iPoint iVar = Fin 0 \<and>
            ((\<forall>j<nPoint solver. \<forall>b<nVar solver. is_fin (sol j b)) \<and>
             row_times (nPoint solver) (nVar solver) (Jacobian result) sol iPoint iVar
               = LinSysRes result iPoint iVar \<longrightarrow>
               sol iPoint iVar = Fin 0 \<and>
               (is_fin (UnderRelaxation (nodes solver) iPoint) \<longrightarrow>
                  Solution (nodes result) iPoint iVar = Solution (nodes solver) iPoint iVar)))"
proof -
  define built where "built = ImplicitEuler_build geometry solver"
  have routine: "result = SetResidual_RMS (ImplicitEuler_update
                  (case Solve (Jacobian built) (LinSysRes built) (LinSysSol built) of
                     (IterLinSol, sol) \<Rightarrow> built\<lparr>LinSysSol := sol, IterLinSolver := IterLinSol\<rparr>))"
    by (simp add: res ImplicitEuler_Iteration_def Let_def built_def)
  note it = ImplicitEuler_solve_update_result [where SetResidual_RMS = SetResidual_RMS
      and Solve = Solve and built = built and geometry = geometry and solver = solver
      and result = result, OF rms built_def routine]
  note b = ImplicitEuler_build_owned [OF owned, of geometry, folded built_def dt,
      folded it(1) it(2) it(4)]
  have solved: "sol = snd (Solve (Jacobian result) (LinSysRes result)
                      (LinSysSol (ImplicitEuler_build geometry solver)))"
    by (simp add: sol it built_def)
  have update: "Solution (nodes result) iPoint iVar =
           add_d (Solution (nodes solver) iPoint iVar)
             (mul_d (UnderRelaxation (nodes solver) iPoint) (sol iPoint iVar))"
    using owned iVar by (simp add: it(5) sol)
  have nonzero: "Jacobian result iPoint iPoint iVar iVar =
              add_d (Jacobian solver iPoint iPoint iVar iVar) (div_d (nodes_Volume geometry iPoint) dt) \<and>
            (jVar \<noteq> iVar \<longrightarrow>
               Jacobian result iPoint iPoint iVar jVar = Jacobian solver iPoint iPoint iVar jVar) \<and>
            (jPoint \<noteq> iPoint \<longrightarrow> Jacobian result iPoint jPoint = Jacobian solver iPoint jPoint) \<and>
            LinSysRes result iPoint iVar =
              neg_d (add_d (LinSysRes solver iPoint iVar) (ResTruncError (nodes solver) iPoint iVar))"
    if "ne_d dt (Fin 0)"
    using that iVar by (simp add: b)
  have zeroJ: "Jacobian result iPoint j a c = (if j = iPoint \<and> c = a then Fin 1 else Fin 0)"
    if "eq_d dt (Fin 0)" "a < nVar solver" "c < nVar solver" for j a c
    using that by (simp add: b ne_d_def)
  have zeroR: "LinSysRes result iPoint iVar = Fin 0 \<and> ResTruncError (nodes result) iPoint iVar = Fin 0"
    if "eq_d dt (Fin 0)"
    using that iVar by (simp add: b ne_d_def)
  have solution: "sol iPoint iVar = Fin 0"
    if z: "eq_d dt (Fin 0)"
      and fin: "\<forall>j<nPoint solver. \<forall>b<nVar solver. is_fin (sol j b)"
      and eq: "row_times (nPoint solver) (nVar solver) (Jacobian result) sol iPoint iVar
               = LinSysRes result iPoint iVar"
  proof -
    define y where "y = (\<lambda>j b. case sol j b of Fin r \<Rightarrow> r | _ \<Rightarrow> 0)"
    have xy: "\<forall>j<nPoint solver. \<forall>b<nVar solver. sol j b = Fin (y j b)"
    proof (intro allI impI)
      fix j b assume "j < nPoint solver" "b < nVar solver"
      then have "is_fin (sol j b)" using fin by simp
      then show "sol j b = Fin (y j b)" by (cases "sol j b") (simp_all add: y_def)
    qed
    have row: "\<forall>j<nPoint solver. \<forall>b<nVar solver.
                 Jacobian result iPoint j iVar b = (if j = iPoint \<and> b = iVar then Fin 1 else Fin 0)"
      using zeroJ [OF z iVar] by simp
    have "row_times (nPoint solver) (nVar solver) (Jacobian result) sol iPoint iVar = sol iPoint iVar"
      using owned np iVar
      by (intro unit_row_times [where J = "Jacobian result" and x = sol and y = y
            and np = "nPoint solver" and n = "nVar solver" and i = iPoint and a = iVar, OF row xy])
         simp_all
    then show ?thesis
      using eq zeroR [OF z] by simp
  qed
  have unchanged: "Solution (nodes result) iPoint iVar = Solution (nodes solver) iPoint iVar"
    if "sol iPoint iVar = Fin 0" "is_fin (UnderRelaxation (nodes solver) iPoint)"
    using that by (simp add: update relaxed_zero)
  show ?thesis
    using solved update nonzero zeroJ [where j = jPoint and a = iVar and c = jVar] zeroR solution
      unchanged iVar jVar
    by blast
qed



text \<open>An instance: three points, the first without a time step, the other two with the
  time step 2; the linear solver makes one Jacobi step.\<close>

theorem C8_implicit_diagonal_and_degenerate_cells_witness:
  "Jacobian (ImplicitEuler_Iteration Solve_diag (\<lambda>s. s) geo_ex solver_ex) 0 0 0 0 = Fin 1 \<and>
   Jacobian (ImplicitEuler_Iteration Solve_diag (\<lambda>s. s) geo_ex solver_ex) 0 1 0 0 = Fin 0 \<and>
   LinSysRes (ImplicitEuler_Iteration Solve_diag (\<lambda>s. s) geo_ex solver_ex) 0 0 = Fin 0 \<and>
   ResTruncError (nodes (ImplicitEuler_Iteration Solve_diag (\<lambda>s. s) geo_ex solver_ex)) 0 0 = Fin 0 \<and>
   LinSysSol (ImplicitEuler_Iteration Solve_diag (\<lambda>s. s) geo_ex solver_ex) 0 0 = Fin 0 \<and>
   Solution (nodes (ImplicitEuler_Iteration Solve_diag (\<lambda>s. s) geo_ex solver_ex)) 0 0
     = Solution (nodes solver_ex) 0 0 \<and>
   Jacobian (ImplicitEuler_Iteration Solve_diag (\<lambda>s. s) geo_ex solver_ex) 1 1 0 0 = Fin (1 / 2) \<and>
   LinSysRes (ImplicitEuler_Iteration Solve_diag (\<lambda>s. s) geo_ex solver_ex) 1 0 = Fin (- 11) \<and>
   LinSysSol (ImplicitEuler_Iteration Solve_diag (\<lambda>s. s) geo_ex solver_ex) 1 0 = Fin (- 22) \<and>
   Solution (nodes (ImplicitEuler_Iteration Solve_diag (\<lambda>s. s) geo_ex solver_ex)) 1 0 = Fin (- 20)"
proof -
  let ?R = "ImplicitEuler_Iteration Solve_diag (\<lambda>s. s) geo_ex solver_ex"
  have owned: "(0::nat) < nPointDomain solver_ex" "(1::nat) < nPointDomain solver_ex"
    "(2::nat) < nPointDomain solver_ex"
    by (simp_all add: solver_ex_def)
  have np: "nPointDomain solver_ex \<le> nPoint solver_ex"
    by (simp add: solver_ex_def)
  have v: "(0::nat) < nVar solver_ex"
    by (simp add: solver_ex_def)
  have rms: "\<forall>s. nodes ((\<lambda>s. s) s) = nodes s \<and> Jacobian ((\<lambda>s. s) s) = Jacobian s \<and>
                 LinSysRes ((\<lambda>s. s) s) = LinSysRes s \<and> LinSysSol ((\<lambda>s. s) s) = LinSysSol s"
    by simp
  have dt: "Fin 0 = Delta_Time (nodes solver_ex) 0" "Fin 2 = Delta_Time (nodes solver_ex) 1"
    "Fin 2 = Delta_Time (nodes solver_ex) 2"
    by (simp_all add: solver_ex_def nodes_ex_def)
  have data: "Jacobian solver_ex p p 0 0 = Fin 0" "nodes_Volume geo_ex p = Fin 1"
    "LinSysRes solver_ex p 0 = Fin 10" "ResTruncError (nodes solver_ex) p 0 = Fin 1"
    "UnderRelaxation (nodes solver_ex) p = Fin 1" "Solution (nodes solver_ex) 1 0 = Fin 2"
    for p
    by (simp_all add: solver_ex_def nodes_ex_def geo_ex_def)
  have cond: "ne_d (Fin 2) (Fin 0)" "eq_d (Fin 0) (Fin 0)"
    by (simp_all add: ne_d_def eq_d_def)
  note t0 = C8_implicit_diagonal_and_degenerate_cells [where iPoint = 0 and solver = solver_ex
        and geometry = geo_ex and iVar = 0 and jVar = 0 and dt = "Fin 0" and Solve = Solve_diag
        and SetResidual_RMS = "\<lambda>s. s", OF owned(1) np v v rms refl dt(1) refl]
  note t1 = C8_implicit_diagonal_and_degenerate_cells [where iPoint = 1 and solver = solver_ex
        and geometry = geo_ex and iVar = 0 and jVar = 0 and dt = "Fin 2" and Solve = Solve_diag
        and SetResidual_RMS = "\<lambda>s. s" and jPoint = 1, OF owned(2) np v v rms refl dt(2) refl]
  note t2 = C8_implicit_diagonal_and_degenerate_cells [where iPoint = 2 and solver = solver_ex
        and geometry = geo_ex and iVar = 0 and jVar = 0 and dt = "Fin 2" and Solve = Solve_diag
        and SetResidual_RMS = "\<lambda>s. s" and jPoint = 2, OF owned(3) np v v rms refl dt(3) refl]
  note z = t0 [THEN conjunct2, THEN conjunct2, THEN conjunct2, rule_format, OF cond(2)]
  have row0: "Jacobian ?R 0 j 0 0 = (if j = 0 then Fin 1 else Fin 0)" for j
    using z [where jPoint = j, THEN conjunct1] by simp
  have rhs0: "LinSysRes ?R 0 0 = Fin 0"
    using z [THEN conjunct2, THEN conjunct1] .
  have te0: "ResTruncError (nodes ?R) 0 0 = Fin 0"
    using z [THEN conjunct2, THEN conjunct2, THEN conjunct1] .
  note nz1 = t1 [THEN conjunct2, THEN conjunct2, THEN conjunct1, rule_format, OF cond(1)]
  note nz2 = t2 [THEN conjunct2, THEN conjunct2, THEN conjunct1, rule_format, OF cond(1)]
  have d1: "Jacobian ?R 1 1 0 0 = Fin (1 / 2)"
    using nz1 [THEN conjunct1] by (simp add: data)
  have r1: "LinSysRes ?R 1 0 = Fin (- 11)"
    using nz1 [THEN conjunct2, THEN conjunct2, THEN conjunct2] by (simp add: data)
  have d2: "Jacobian ?R 2 2 0 0 = Fin (1 / 2)"
    using nz2 [THEN conjunct1] by (simp add: data)
  have r2: "LinSysRes ?R 2 0 = Fin (- 11)"
    using nz2 [THEN conjunct2, THEN conjunct2, THEN conjunct2] by (simp add: data)
  have solq: "LinSysSol ?R p 0 = div_d (LinSysRes ?R p 0) (Jacobian ?R p p 0 0)" for p
    by (subst t0 [THEN conjunct1]) (simp add: Solve_diag_def)
  have s0: "LinSysSol ?R 0 0 = Fin 0"
    by (simp add: solq row0 rhs0)
  have s1: "LinSysSol ?R 1 0 = Fin (- 22)"
    using d1 r1 by (simp add: solq)
  have s2: "LinSysSol ?R 2 0 = Fin (- 22)"
    using d2 r2 by (simp add: solq)
  have sizes: "nPoint solver_ex = 3" "nVar solver_ex = 1"
    by (simp_all add: solver_ex_def)
  have pts: "j = 0 \<or> j = 1 \<or> j = 2" if "j < 3" for j :: nat
    using that by arith
  have sol: "LinSysSol ?R j b = Fin (if j = 0 then 0 else - 22)" if "j < 3" "b < 1" for j b
    using pts [OF that(1)] that(2) s0 s1 s2 by auto
  have fin: "\<forall>j<nPoint solver_ex. \<forall>b<nVar solver_ex. is_fin (LinSysSol ?R j b)"
    unfolding sizes by (simp add: sol)
  have unit: "\<forall>j<3. \<forall>b<1. Jacobian ?R 0 j 0 b = (if j = 0 \<and> b = 0 then Fin 1 else Fin 0)"
    by (simp add: row0)
  have vals: "\<forall>j<3. \<forall>b<1. LinSysSol ?R j b = Fin ((\<lambda>j b. if j = 0 then 0 else - 22) j b)"
    by (simp add: sol)
  have "row_times 3 1 (Jacobian ?R) (LinSysSol ?R) 0 0 = LinSysSol ?R 0 0"
    by (rule unit_row_times [where J = "Jacobian ?R" and x = "LinSysSol ?R" and np = 3 and n = 1
          and i = 0 and a = 0 and y = "\<lambda>j b. if j = 0 then 0 else - 22", OF unit vals])
      simp_all
  then have roweq: "row_times (nPoint solver_ex) (nVar solver_ex) (Jacobian ?R) (LinSysSol ?R) 0 0 =
                LinSysRes ?R 0 0"
    unfolding sizes by (simp add: s0 rhs0)
  note k = z [THEN conjunct2, THEN conjunct2, THEN conjunct2, rule_format, OF conjI [OF fin roweq]]
  have kept: "Solution (nodes ?R) 0 0 = Solution (nodes solver_ex) 0 0"
    using k [THEN conjunct2] by (simp add: data)
  have moved: "Solution (nodes ?R) 1 0 = Fin (- 20)"
    using t1 [THEN conjunct2, THEN conjunct1] s1 data(6) by (simp add: data(5))
  show ?thesis
    using row0 [of 0] row0 [of 1] rhs0 te0 k [THEN conjunct1] kept d1 r1 s1 moved
    by simp
qed

section \<open>Inlets that are not operational\<close>

text \<open>
  Claim C6.  For every geometry, configuration, marker and state, \<^verbatim>\<open>BC_Inlet\<close> and
  \<^verbatim>\<open>BC_Supersonic_Inlet\<close> end the process with an error whose message names the boundary
  condition and says that it is not operational in NEMO.  The state in which the process
  ends is the state the routine was called in: no vertex has been visited, and the residual
  vector and the Jacobian are as they were.
\<close>

theorem C6_inlets_not_operational:
  "BC_Inlet geometry config val_marker sn =
     Inl (SU2_error ''BC_INLET: Not operational in NEMO.'' ''CNEMOEulerSolver::BC_Inlet'', sn) \<and>
   BC_Supersonic_Inlet geometry config val_marker sn =
     Inl (SU2_error ''BC_SUPERSONIC_INLET: Not operational in NEMO.''
            ''CNEMOEulerSolver::BC_Supersonic_Inlet'', sn) \<and>
   sublist ''Not operational in NEMO'' ''BC_INLET: Not operational in NEMO.'' \<and>
   sublist ''Not operational in NEMO'' ''BC_SUPERSONIC_INLET: Not operational in NEMO.''"
proof -
  have "''BC_INLET: Not operational in NEMO.'' = ''BC_INLET: '' @ ''Not operational in NEMO'' @ ''.''"
    by simp
  then have a: "sublist ''Not operational in NEMO'' ''BC_INLET: Not operational in NEMO.''"
    unfolding sublist_def by blast
  have "''BC_SUPERSONIC_INLET: Not operational in NEMO.''
          = ''BC_SUPERSONIC_INLET: '' @ ''Not operational in NEMO'' @ ''.''"
    by simp
  then have b: "sublist ''Not operational in NEMO'' ''BC_SUPERSONIC_INLET: Not operational in NEMO.''"
    unfolding sublist_def by blast
  show ?thesis
    using a b by (simp add: BC_Inlet_def BC_Supersonic_Inlet_def Error_def)
qed


section \<open>Reynolds-number initialization\<close>

text \<open>
  Claim C9 as stated fails: for an inviscid run with the user-defined fluid model, the
  routine returns without an error although the Reynolds-number initialization is selected.
  The check sits inside the branch of the viscous runs.
\<close>

theorem C9_reynolds_inviscid_counterexample:
  "Kind_InitOption config_inviscid = REYNOLDS \<and>
   \<not> isl (SetNondimensionalization lib_ex MassFrac_ex 2 (config_inviscid, None))"
  by (simp add: SetNondimensionalization_def Instantiate_FluidModel_def Let_def config_inviscid_def
      CConfig.defs CConfig_FreeStream.defs config_ex_def)

lemma TD_CONDITIONS_named:
  "sublist ''TD_CONDITIONS''
     (''Only thermodynamics quantities based initialization: '' @
      ''set pressure, temperatures and flag INIT_OPTION= TD_CONDITIONS.'')"
proof -
  have "''Only thermodynamics quantities based initialization: '' @
        ''set pressure, temperatures and flag INIT_OPTION= TD_CONDITIONS.'' =
        (''Only thermodynamics quantities based initialization: '' @
         ''set pressure, temperatures and flag INIT_OPTION= '') @ ''TD_CONDITIONS'' @ ''.''"
    by simp
  then show ?thesis
    unfolding sublist_def by blast
qed

text \<open>
  Claim C9, amended.  Let the Reynolds-number initialization be selected and let the fluid
  model be available (the configuration asks for the user-defined one, which the routine
  instantiates, or one had been assigned before).  If the run is viscous,
  \<^verbatim>\<open>SetNondimensionalization\<close> ends the process with an error whose message names the
  alternative \<^verbatim>\<open>TD_CONDITIONS\<close>; if the run is inviscid, it returns without an error.
\<close>

theorem C9_reynolds_viscous_error:
  assumes reynolds: "Kind_InitOption config = REYNOLDS"
      and fluid: "Kind_FluidModel config = USER_DEFINED_NONEQ \<or> FluidModel \<noteq> None"
      and res: "result = SetNondimensionalization lib MassFrac_Inf nd (config, FluidModel)"
      and msg: "msg = ''Only thermodynamics quantities based initialization: '' @
                      ''set pressure, temperatures and flag INIT_OPTION= TD_CONDITIONS.''"
  shows "(Viscous config \<longrightarrow>
            isl result \<and> fst (projl result) = SU2_error msg ''CNEMOEulerSolver::SetNondimensionalization'' \<and>
            sublist ''TD_CONDITIONS'' msg) \<and>
         (\<not> Viscous config \<longrightarrow> \<not> isl result)"
proof -
  obtain fm where fm: "Instantiate_FluidModel lib config nd FluidModel = Some fm"
    using fluid by (cases "Kind_FluidModel config") (auto simp: Instantiate_FluidModel_def)
  show ?thesis
    using reynolds TD_CONDITIONS_named
    by (simp add: res msg SetNondimensionalization_def Let_def fm Error_def)
qed

theorem C9_reynolds_viscous_error_witness:
  "isl (SetNondimensionalization lib_ex MassFrac_ex 2 (config_viscous, None)) \<and>
   fst (projl (SetNondimensionalization lib_ex MassFrac_ex 2 (config_viscous, None))) =
     SU2_error (''Only thermodynamics quantities based initialization: '' @
                ''set pressure, temperatures and flag INIT_OPTION= TD_CONDITIONS.'')
       ''CNEMOEulerSolver::SetNondimensionalization''"
proof -
  have reynolds: "Kind_InitOption config_viscous = REYNOLDS"
    by (simp add: config_viscous_def config_inviscid_def CConfig.defs CConfig_FreeStream.defs)
  have fluid: "Kind_FluidModel config_viscous = USER_DEFINED_NONEQ \<or> (None :: su2double option) \<noteq> None"
    by (simp add: config_viscous_def config_inviscid_def CConfig.defs CConfig_FreeStream.defs)
  have viscous: "Viscous config_viscous"
    by (simp add: config_viscous_def)
  show ?thesis
    using C9_reynolds_viscous_error [where config = config_viscous and FluidModel = None
        and lib = lib_ex and MassFrac_Inf = MassFrac_ex and nd = 2,
        OF reynolds fluid refl refl] viscous
    by simp
qed

end
